theory Spec2Isabelle
  imports Complex_Main "HOL-Library.AList" "HOL-Library.Log_Nat"
begin

section \<open>Values shared by the SDK and the timeout manager\<close>

text \<open>
  Times are milliseconds since the epoch, as \<open>Date.now()\<close> and \<open>Date.getTime()\<close> return
  them; durations are milliseconds too. A thrown JavaScript value is either an \<open>Error\<close>
  instance with its message (\<open>WalletConnectSDKError\<close> extends \<open>Error\<close> and is one of them),
  a \<open>TimeoutError\<close> with its three fields \<open>message\<close>, \<open>operation\<close>, \<open>timeout\<close>, or a value
  that is not an \<open>Error\<close> at all.
\<close>

type_synonym time = int

datatype thrown =
    Error string
  | TimeoutError string string nat
  | NonError

text \<open>The idiom \<open>error instanceof Error ? error.message : 'Unknown error'\<close>.\<close>

fun error_message :: "thrown \<Rightarrow> string" where
  "error_message (Error m) = m"
| "error_message (TimeoutError m operation timeout) = m"
| "error_message NonError = ''Unknown error''"

text \<open>A promise, seen from the moment it is awaited: it settles after some milliseconds, or never.\<close>

datatype 'a settled = Resolve 'a | Reject thrown

datatype 'a promise = Settles nat "'a settled" | Never

definition rejects :: "'a promise \<Rightarrow> bool" where
  "rejects p = (case p of Settles t (Reject e) \<Rightarrow> True | _ \<Rightarrow> False)"

text \<open>The decimal digits of a non-negative integer.\<close>

definition digit_char :: "nat \<Rightarrow> char" where
  "digit_char n = ''0123456789'' ! n"

fun show_nat :: "nat \<Rightarrow> string" where
  "show_nat n = (if n < 10 then [digit_char n] else show_nat (n div 10) @ [digit_char (n mod 10)])"

declare show_nat.simps [simp del]

section \<open>JavaScript numbers\<close>

text \<open>
  A JavaScript number is an IEEE 754 binary64 value: not-a-number, an infinity, or a finite
  value, here the rational it denotes (the two zeros are identified). \<open>binary64\<close> rounds
  an exact result to the nearest representable value, ties to the even significand:
  53 significant bits, the quantum never below \<open>2 powi -1074\<close> (subnormals), overflow to
  infinity from \<open>2 powi 1024\<close> on.
\<close>

datatype number = NaN | PosInf | NegInf | Fin rat

definition pow2 :: "int \<Rightarrow> rat" where
  "pow2 k = (if 0 \<le> k then 2 ^ nat k else 1 / 2 ^ nat (- k))"

text \<open>The binary exponent of a positive rational: the \<open>e\<close> with \<open>pow2 e \<le> q < pow2 (e + 1)\<close>.\<close>

definition ilog2 :: "rat \<Rightarrow> int" where
  "ilog2 q = (let (a, b) = quotient_of q; d = bitlen a - bitlen b
              in if pow2 d \<le> q then d else d - 1)"

definition round_even :: "rat \<Rightarrow> int" where
  "round_even x = (let f = \<lfloor>x\<rfloor>; r = x - of_int f
                   in if r < 1 / 2 then f else if 1 / 2 < r then f + 1
                      else if even f then f else f + 1)"

definition binary64_pos :: "rat \<Rightarrow> number" where
  "binary64_pos q = (let k = max (ilog2 q - 52) (- 1074);
                         r = of_int (round_even (q / pow2 k)) * pow2 k
                     in if pow2 1024 \<le> r then PosInf else Fin r)"

definition js_neg :: "number \<Rightarrow> number" where
  "js_neg x = (case x of NaN \<Rightarrow> NaN | PosInf \<Rightarrow> NegInf | NegInf \<Rightarrow> PosInf | Fin q \<Rightarrow> Fin (- q))"

definition binary64 :: "rat \<Rightarrow> number" where
  "binary64 q = (if q = 0 then Fin 0 else if 0 < q then binary64_pos q
                 else js_neg (binary64_pos (- q)))"

text \<open>
  The operators on numbers that the sources use. A zero divisor is taken as \<open>+0\<close>.
\<close>

fun js_add :: "number \<Rightarrow> number \<Rightarrow> number" where
  "js_add (Fin a) (Fin b) = binary64 (a + b)"
| "js_add NaN y = NaN"
| "js_add x NaN = NaN"
| "js_add PosInf NegInf = NaN"
| "js_add NegInf PosInf = NaN"
| "js_add PosInf y = PosInf"
| "js_add NegInf y = NegInf"
| "js_add x PosInf = PosInf"
| "js_add x NegInf = NegInf"

definition js_sub :: "number \<Rightarrow> number \<Rightarrow> number" where
  "js_sub x y = js_add x (js_neg y)"

definition sign_inf :: "bool \<Rightarrow> number" where
  "sign_inf positive = (if positive then PosInf else NegInf)"

fun js_mul :: "number \<Rightarrow> number \<Rightarrow> number" where
  "js_mul (Fin a) (Fin b) = binary64 (a * b)"
| "js_mul NaN y = NaN"
| "js_mul x NaN = NaN"
| "js_mul PosInf (Fin b) = (if b = 0 then NaN else sign_inf (0 < b))"
| "js_mul NegInf (Fin b) = (if b = 0 then NaN else sign_inf (b < 0))"
| "js_mul (Fin a) PosInf = (if a = 0 then NaN else sign_inf (0 < a))"
| "js_mul (Fin a) NegInf = (if a = 0 then NaN else sign_inf (a < 0))"
| "js_mul PosInf PosInf = PosInf"
| "js_mul NegInf NegInf = PosInf"
| "js_mul PosInf NegInf = NegInf"
| "js_mul NegInf PosInf = NegInf"

fun js_div :: "number \<Rightarrow> number \<Rightarrow> number" where
  "js_div (Fin a) (Fin b) =
     (if b = 0 then (if a = 0 then NaN else sign_inf (0 < a)) else binary64 (a / b))"
| "js_div NaN y = NaN"
| "js_div x NaN = NaN"
| "js_div (Fin a) y = Fin 0"
| "js_div PosInf (Fin b) = sign_inf (0 \<le> b)"
| "js_div NegInf (Fin b) = sign_inf (b < 0)"
| "js_div x y = NaN"

text \<open>Comparison \<open>x >= y\<close>: false as soon as one side is not a number.\<close>

fun js_ge :: "number \<Rightarrow> number \<Rightarrow> bool" where
  "js_ge (Fin a) (Fin b) = (b \<le> a)"
| "js_ge NaN y = False"
| "js_ge x NaN = False"
| "js_ge PosInf y = True"
| "js_ge x NegInf = True"
| "js_ge x y = False"

definition Math_min :: "number \<Rightarrow> number \<Rightarrow> number" where
  "Math_min x y = (if x = NaN \<or> y = NaN then NaN else if js_ge x y then y else x)"

definition Math_max :: "number \<Rightarrow> number \<Rightarrow> number" where
  "Math_max x y = (if x = NaN \<or> y = NaN then NaN else if js_ge x y then x else y)"

text \<open>\<open>Math.round\<close>: the nearest integer, a tie going up.\<close>

definition Math_round :: "number \<Rightarrow> number" where
  "Math_round x = (case x of Fin q \<Rightarrow> Fin (of_int \<lfloor>q + 1 / 2\<rfloor>) | _ \<Rightarrow> x)"

text \<open>
  How a number reads inside a template literal is the runtime's conversion of a number to
  a string: shortest digits that identify the value, exponent notation from \<open>10 ^ 21\<close> on.
  The functions that print a number take that conversion as a parameter. \<open>decimal_text\<close> is
  a conversion for the scenarios: it prints the integer part digit by digit, which is what
  the runtime prints for an integer between \<open>- 2 ^ 53\<close> and \<open>2 ^ 53\<close>.
\<close>

definition decimal_text :: "number \<Rightarrow> string" where
  "decimal_text x =
     (case x of NaN \<Rightarrow> ''NaN'' | PosInf \<Rightarrow> ''Infinity'' | NegInf \<Rightarrow> ''-Infinity''
      | Fin q \<Rightarrow> (if q < 0 then ''-'' @ show_nat (nat \<lfloor>- q\<rfloor>) else show_nat (nat \<lfloor>q\<rfloor>)))"

text \<open>A number that is at least a given rational: a finite value not below it, or \<open>+\<infinity>\<close>.\<close>

definition at_least :: "rat \<Rightarrow> number \<Rightarrow> bool" where
  "at_least n x = (case x of Fin r \<Rightarrow> n \<le> r | PosInf \<Rightarrow> True | _ \<Rightarrow> False)"

section \<open>TimeoutManager (src/utils/TimeoutManager.ts)\<close>

text \<open>The configured durations are whole numbers of milliseconds, none negative.\<close>

record TimeoutConfig =
  connection :: nat
  transaction :: nat
  signing :: nat
  contractCall :: nat
  contractRead :: nat
  gasEstimation :: nat
  sessionExpiry :: nat
  cleanup :: nat

text \<open>The keys of \<open>TimeoutConfig\<close>: the \<open>timeoutType\<close> argument of \<open>createTimeout\<close>.\<close>

datatype timeoutType =
  Connection | Transaction | Signing | ContractCall | ContractRead | GasEstimation
  | SessionExpiry | Cleanup

definition DEFAULT_TIMEOUTS :: TimeoutConfig where
  "DEFAULT_TIMEOUTS = \<lparr> connection = 30000, transaction = 60000, signing = 30000,
     contractCall = 60000, contractRead = 15000, gasEstimation = 15000,
     sessionExpiry = 24 * 60 * 60 * 1000, cleanup = 5 * 60 * 1000 \<rparr>"

text \<open>\<open>Partial<TimeoutConfig>\<close>: a key is present with a value, or absent.\<close>

record PartialTimeoutConfig =
  p_connection :: "nat option"
  p_transaction :: "nat option"
  p_signing :: "nat option"
  p_contractCall :: "nat option"
  p_contractRead :: "nat option"
  p_gasEstimation :: "nat option"
  p_sessionExpiry :: "nat option"
  p_cleanup :: "nat option"

definition no_overrides :: PartialTimeoutConfig where
  "no_overrides = \<lparr> p_connection = None, p_transaction = None, p_signing = None,
     p_contractCall = None, p_contractRead = None, p_gasEstimation = None,
     p_sessionExpiry = None, p_cleanup = None \<rparr>"

text \<open>The object spread \<open>{ ...base, ...custom }\<close>.\<close>

definition spread :: "TimeoutConfig \<Rightarrow> PartialTimeoutConfig \<Rightarrow> TimeoutConfig" where
  "spread base custom = \<lparr>
     connection = (case p_connection custom of None \<Rightarrow> connection base | Some v \<Rightarrow> v),
     transaction = (case p_transaction custom of None \<Rightarrow> transaction base | Some v \<Rightarrow> v),
     signing = (case p_signing custom of None \<Rightarrow> signing base | Some v \<Rightarrow> v),
     contractCall = (case p_contractCall custom of None \<Rightarrow> contractCall base | Some v \<Rightarrow> v),
     contractRead = (case p_contractRead custom of None \<Rightarrow> contractRead base | Some v \<Rightarrow> v),
     gasEstimation = (case p_gasEstimation custom of None \<Rightarrow> gasEstimation base | Some v \<Rightarrow> v),
     sessionExpiry = (case p_sessionExpiry custom of None \<Rightarrow> sessionExpiry base | Some v \<Rightarrow> v),
     cleanup = (case p_cleanup custom of None \<Rightarrow> cleanup base | Some v \<Rightarrow> v) \<rparr>"

text \<open>
  The manager owns the configuration and the map \<open>timers\<close> from operation key to timer
  handle. A handle is a number; \<open>armed\<close> is the set of handles the runtime still holds
  (set by \<open>setTimeout\<close>, neither fired nor cleared), and \<open>nextTimer\<close> the next fresh handle.
  A JavaScript \<open>Map\<close> is an association list in insertion order: \<open>AList.update\<close> replaces
  the value of a present key in place and appends an absent one, as \<open>Map.set\<close> does.
\<close>

record TimeoutManager =
  timeouts :: TimeoutConfig
  timers :: "(string \<times> nat) list"
  armed :: "nat list"
  nextTimer :: nat

definition TimeoutManager_new :: "PartialTimeoutConfig \<Rightarrow> TimeoutManager" where
  "TimeoutManager_new customTimeouts =
     \<lparr> timeouts = spread DEFAULT_TIMEOUTS customTimeouts, timers = [], armed = [], nextTimer = 0 \<rparr>"

fun getTimeout :: "TimeoutManager \<Rightarrow> timeoutType \<Rightarrow> nat" where
  "getTimeout tm Connection = connection (timeouts tm)"
| "getTimeout tm Transaction = transaction (timeouts tm)"
| "getTimeout tm Signing = signing (timeouts tm)"
| "getTimeout tm ContractCall = contractCall (timeouts tm)"
| "getTimeout tm ContractRead = contractRead (timeouts tm)"
| "getTimeout tm GasEstimation = gasEstimation (timeouts tm)"
| "getTimeout tm SessionExpiry = sessionExpiry (timeouts tm)"
| "getTimeout tm Cleanup = cleanup (timeouts tm)"

definition getTimeouts :: "TimeoutManager \<Rightarrow> TimeoutConfig" where
  "getTimeouts tm = timeouts tm"

definition updateTimeouts :: "TimeoutManager \<Rightarrow> PartialTimeoutConfig \<Rightarrow> TimeoutManager" where
  "updateTimeouts tm newTimeouts = tm \<lparr> timeouts := spread (timeouts tm) newTimeouts \<rparr>"

definition clearTimeout :: "nat \<Rightarrow> nat list \<Rightarrow> nat list" where
  "clearTimeout timer as = filter (\<lambda>t. t \<noteq> timer) as"

text \<open>
  Two things in \<open>createTimeout\<close> are the runtime's and not the manager's: how the duration
  reads in the template literal of the message, and, when the promise settles in the very
  millisecond in which the timer is due, which of the two callbacks runs first.
\<close>

record runtime =
  numberText :: "number \<Rightarrow> string"
  timerFirst :: bool

text \<open>
  \<open>setTimeout\<close> as Node has it: a delay below 1 or above \<open>2 ^ 31 - 1\<close> milliseconds is set
  to 1.
\<close>

definition setTimeout_delay :: "nat \<Rightarrow> nat" where
  "setTimeout_delay ms = (if ms < 1 \<or> 2147483647 < ms then 1 else ms)"

text \<open>
  \<open>createTimeout\<close> in its three moments. The executor of the timeout promise runs at once:
  it arms a timer and records it under the operation key, replacing whatever was recorded
  there. Then the race settles. Then the \<open>finally\<close> callback clears and forgets the timer
  recorded under the key, whichever call recorded it.
\<close>

definition armTimer :: "TimeoutManager \<Rightarrow> string \<Rightarrow> TimeoutManager" where
  "armTimer tm operation =
     tm \<lparr> timers := AList.update operation (nextTimer tm) (timers tm),
          armed := armed tm @ [nextTimer tm],
          nextTimer := Suc (nextTimer tm) \<rparr>"

definition timeoutFailure :: "runtime \<Rightarrow> string \<Rightarrow> nat \<Rightarrow> thrown" where
  "timeoutFailure rt operation timeout =
     TimeoutError
       (operation @ '' timed out after '' @ numberText rt (Fin (of_nat timeout)) @ ''ms'')
       operation timeout"

text \<open>A timer that fires is no longer held by the runtime.\<close>

definition timerFires :: "TimeoutManager \<Rightarrow> nat \<Rightarrow> TimeoutManager" where
  "timerFires tm timer = tm \<lparr> armed := clearTimeout timer (armed tm) \<rparr>"

text \<open>
  The deadline comes first: the promise never settles, or settles after the delay of the
  timer, or settles in the millisecond of the delay and the timer's callback runs first.
\<close>

definition deadline_first :: "runtime \<Rightarrow> nat \<Rightarrow> 'a promise \<Rightarrow> bool" where
  "deadline_first rt delay promise =
     (case promise of Never \<Rightarrow> True | Settles t r \<Rightarrow> delay < t \<or> (t = delay \<and> timerFirst rt))"

text \<open>
  The race. When the deadline comes first the timer fires and the race rejects with the
  \<open>TimeoutError\<close>, which carries the configured duration (not the delay of the timer);
  otherwise the race settles as the promise does and the timer stays armed.
\<close>

definition race ::
  "runtime \<Rightarrow> TimeoutManager \<Rightarrow> nat \<Rightarrow> string \<Rightarrow> 'a promise \<Rightarrow> nat
     \<Rightarrow> 'a settled \<times> TimeoutManager" where
  "race rt tm timer operation promise timeout =
     (case promise of
        Settles t r \<Rightarrow>
          if deadline_first rt (setTimeout_delay timeout) promise
          then (Reject (timeoutFailure rt operation timeout), timerFires tm timer)
          else (r, tm)
      | Never \<Rightarrow> (Reject (timeoutFailure rt operation timeout), timerFires tm timer))"

definition finallyClear :: "TimeoutManager \<Rightarrow> string \<Rightarrow> TimeoutManager" where
  "finallyClear tm operation =
     (case map_of (timers tm) operation of
        None \<Rightarrow> tm
      | Some timer \<Rightarrow> tm \<lparr> armed := clearTimeout timer (armed tm),
                           timers := AList.delete operation (timers tm) \<rparr>)"

text \<open>
  \<open>createTimeout\<close> as one step: the three moments of one call with nothing in between,
  that is, with no other call on the same key starting or settling while this one is
  pending. When the key is already recorded at the start, an earlier call on it is still
  pending, and the two calls share the one entry of the map: the one step is then the run
  in which the earlier call stays pending throughout, and the other runs are the moments
  of the two calls (\<open>armTimer\<close>, \<open>timerFires\<close>, \<open>finallyClear\<close>) in the order the runtime
  gives them.
\<close>

definition createTimeout ::
  "runtime \<Rightarrow> TimeoutManager \<Rightarrow> string \<Rightarrow> 'a promise \<Rightarrow> timeoutType
     \<Rightarrow> 'a settled \<times> TimeoutManager" where
  "createTimeout rt tm operation promise timeoutType =
     (let timeout = getTimeout tm timeoutType;
          timer = nextTimer tm;
          (outcome, tm') = race rt (armTimer tm operation) timer operation promise timeout
      in (outcome, finallyClear tm' operation))"

definition waitForUserInteraction ::
  "runtime \<Rightarrow> TimeoutManager \<Rightarrow> string \<Rightarrow> 'a promise \<Rightarrow> timeoutType
     \<Rightarrow> 'a settled \<times> TimeoutManager" where
  "waitForUserInteraction rt tm operation promise timeoutType =
     createTimeout rt tm operation promise timeoutType"

definition waitForGasEstimation ::
  "runtime \<Rightarrow> TimeoutManager \<Rightarrow> string \<Rightarrow> 'a promise \<Rightarrow> 'a settled \<times> TimeoutManager" where
  "waitForGasEstimation rt tm operation promise =
     waitForUserInteraction rt tm operation promise GasEstimation"

text \<open>
  \<open>clearAllTimers\<close> walks the map and clears and deletes each entry; \<open>clearTimer\<close> does so
  for one key, when it is there.
\<close>

definition clearAllTimers :: "TimeoutManager \<Rightarrow> TimeoutManager" where
  "clearAllTimers tm =
     fold (\<lambda>(operation, timer) tm'.
             tm' \<lparr> armed := clearTimeout timer (armed tm'),
                   timers := AList.delete operation (timers tm') \<rparr>)
          (timers tm) tm"

definition clearTimer :: "TimeoutManager \<Rightarrow> string \<Rightarrow> TimeoutManager" where
  "clearTimer tm operation = finallyClear tm operation"


definition isTimedOut :: "TimeoutManager \<Rightarrow> string \<Rightarrow> bool" where
  "isTimedOut tm operation = (map_of (timers tm) operation \<noteq> None)"

definition getRemainingTime :: "TimeoutManager \<Rightarrow> string \<Rightarrow> nat" where
  "getRemainingTime tm operation = connection (timeouts tm)"

definition formatTimeout :: "runtime \<Rightarrow> nat \<Rightarrow> string" where
  "formatTimeout rt duration =
     (if duration < 1000 then numberText rt (Fin (of_nat duration)) @ ''ms''
      else if duration < 60000
      then numberText rt (Math_round (js_div (Fin (of_nat duration)) (Fin 1000))) @ ''s''
      else numberText rt (Math_round (js_div (Fin (of_nat duration)) (Fin 60000))) @ ''m'')"

text \<open>
  The progress tracker closes over the creation time, the end time and the timeout; each
  of its three functions reads the clock. The clock is an integer number of milliseconds
  (exact as a number below \<open>2 ^ 53\<close>); the timeout is whatever number the caller passes.
\<close>

record ProgressTracker =
  startTime :: int
  endTime :: number
  timeout :: number

definition createProgressTracker :: "time \<Rightarrow> string \<Rightarrow> number \<Rightarrow> ProgressTracker" where
  "createProgressTracker now operation timeout' =
     \<lparr> startTime = now, endTime = js_add (Fin (of_int now)) timeout', timeout = timeout' \<rparr>"

definition getProgress :: "ProgressTracker \<Rightarrow> time \<Rightarrow> number" where
  "getProgress tracker now =
     (let elapsed = js_sub (Fin (of_int now)) (Fin (of_int (startTime tracker)));
          progress = Math_min (js_mul (js_div elapsed (timeout tracker)) (Fin 100)) (Fin 100)
      in Math_round progress)"

definition getRemaining :: "ProgressTracker \<Rightarrow> time \<Rightarrow> number" where
  "getRemaining tracker now =
     (let remaining = Math_max (js_sub (endTime tracker) (Fin (of_int now))) (Fin 0)
      in remaining)"

definition isExpired :: "ProgressTracker \<Rightarrow> time \<Rightarrow> bool" where
  "isExpired tracker now = js_ge (Fin (of_int now)) (endTime tracker)"

section \<open>Sessions and the in-memory database (src/core/WalletConnectSDK.ts)\<close>

text \<open>
  \<open>UserSession\<close> as declared in the types module. The protocol client is a handle (a number
  naming the \<open>SignClient\<close> instance); \<open>sessionData\<close> is an opaque payload. An optional string
  is falsy when it is absent or empty.
\<close>

record UserSession =
  userId :: string
  wcClient :: nat
  topic :: "string option"
  address :: "string option"
  sessionData :: "string option"
  isActive :: bool
  createdAt :: time
  updatedAt :: time
  lastActivity :: time

definition truthy :: "string option \<Rightarrow> bool" where
  "truthy v = (case v of None \<Rightarrow> False | Some str \<Rightarrow> str \<noteq> [])"

definition orEmpty :: "string option \<Rightarrow> string" where
  "orEmpty v = (case v of None \<Rightarrow> [] | Some str \<Rightarrow> str)"

definition maxAge :: int where
  "maxAge = 24 * 60 * 60 * 1000"

text \<open>
  \<open>validateSession\<close> reads the clock and may write \<open>isActive\<close>: it returns its verdict and
  the session as it leaves it.
\<close>

definition validateSession :: "time \<Rightarrow> UserSession \<Rightarrow> bool \<times> UserSession" where
  "validateSession now session =
     (if \<not> isActive session then (False, session)
      else if \<not> truthy (topic session) then (False, session)
      else (let sessionAge = now - lastActivity session
            in if sessionAge > maxAge then (False, session \<lparr> isActive := False \<rparr>)
               else (True, session)))"

text \<open>What an \<open>async\<close> function returning \<open>Promise<void>\<close> resolves with, or a number.\<close>

datatype jsvalue = Undefined | Number int

record SimpleDatabase =
  sessions :: "(string \<times> UserSession) list"
  isConnectedFlag :: bool

definition SimpleDatabase_new :: SimpleDatabase where
  "SimpleDatabase_new = \<lparr> sessions = [], isConnectedFlag = False \<rparr>"

definition db_connect :: "SimpleDatabase \<Rightarrow> SimpleDatabase" where
  "db_connect db = db \<lparr> isConnectedFlag := True \<rparr>"

definition db_disconnect :: "SimpleDatabase \<Rightarrow> SimpleDatabase" where
  "db_disconnect db = db \<lparr> isConnectedFlag := False \<rparr>"

definition saveSession :: "SimpleDatabase \<Rightarrow> UserSession \<Rightarrow> SimpleDatabase" where
  "saveSession db session = db \<lparr> sessions := AList.update (userId session) session (sessions db) \<rparr>"

definition db_getSession :: "SimpleDatabase \<Rightarrow> string \<Rightarrow> UserSession option" where
  "db_getSession db uid = map_of (sessions db) uid"

definition db_getAllSessions :: "SimpleDatabase \<Rightarrow> UserSession list" where
  "db_getAllSessions db = map snd (sessions db)"

definition deleteSession :: "SimpleDatabase \<Rightarrow> string \<Rightarrow> SimpleDatabase" where
  "deleteSession db uid = db \<lparr> sessions := AList.delete uid (sessions db) \<rparr>"

text \<open>
  \<open>cleanupExpiredSessions\<close> takes no argument and resolves with nothing. It walks the
  entries of the map and deletes, by key, each one older than 24 hours.
\<close>

definition cleanupExpiredSessions :: "time \<Rightarrow> SimpleDatabase \<Rightarrow> jsvalue \<times> SimpleDatabase" where
  "cleanupExpiredSessions now db =
     (Undefined,
      fold (\<lambda>(uid, session) db'.
              if now - lastActivity session > maxAge
              then db' \<lparr> sessions := AList.delete uid (sessions db') \<rparr> else db')
           (sessions db) db)"

section \<open>The SDK (src/core/WalletConnectSDK.ts)\<close>

text \<open>
  The SDK object: its configuration, the registry \<open>userSessions\<close>, the database (always a
  \<open>SimpleDatabase\<close>), the timeout manager, the cleanup interval, and three logs that make
  its effects on the outside visible: the events handed to the event bus, the calls made
  on protocol clients, and the number of clients created so far (the next fresh handle).
  The event bus catches what a listener throws, so emitting is appending to the log.
  Logger calls are left out.

  A session object is shared between the registry and the \<open>SimpleDatabase\<close>: \<open>connect\<close>
  puts one object into both, under the same user id, \<open>disconnect\<close> removes it from both,
  and \<open>restoreSessions\<close> puts the database's objects into the registry. The model keeps a
  record in each. A write to a session of the registry goes to the registry's record; the
  database's record is the object as it was saved, and where the SDK reads a session back
  from the database (\<open>restoreSessions\<close>) it reads the registry's record of that user when
  the registry has one.
\<close>

datatype wire =
    WInit nat
  | WConnect nat "string list" nat "string list"
  | WRequest nat string nat string
  | WDisconnect nat string

record WalletConnectEvent =
  ev_type :: string
  ev_userId :: "string option"
  ev_success :: "bool option"

record SDK =
  projectId :: string
  userSessions :: "(string \<times> UserSession) list"
  database :: SimpleDatabase
  timeoutManager :: TimeoutManager
  cleanupInterval :: bool
  intervalRunning :: bool
  isInitialized :: bool
  emitted :: "WalletConnectEvent list"
  wire :: "wire list"
  nextClient :: nat

record SDKOptions =
  o_projectId :: string
  o_timeouts :: "PartialTimeoutConfig option"
  o_cleanupInterval :: "nat option"

definition SDK_new :: "SDKOptions \<Rightarrow> SDK" where
  "SDK_new options =
     (let interval = (case o_cleanupInterval options of None \<Rightarrow> False | Some n \<Rightarrow> n \<noteq> 0)
      in \<lparr> projectId = o_projectId options,
           userSessions = [],
           database = SimpleDatabase_new,
           timeoutManager = TimeoutManager_new
             (case o_timeouts options of None \<Rightarrow> no_overrides | Some custom \<Rightarrow> custom),
           cleanupInterval = interval,
           intervalRunning = interval,
           isInitialized = False,
           emitted = [],
           wire = [],
           nextClient = 0 \<rparr>)"

definition emit :: "SDK \<Rightarrow> WalletConnectEvent \<Rightarrow> SDK" where
  "emit sdk event = sdk \<lparr> emitted := emitted sdk @ [event] \<rparr>"

definition orOne :: "nat option \<Rightarrow> nat" where
  "orOne v = (case v of None \<Rightarrow> 1 | Some n \<Rightarrow> if n = 0 then 1 else n)"

subsection \<open>Queries that validate\<close>

text \<open>
  \<open>this.validateSession(session)\<close> on a session found in the registry under \<open>uid\<close>: the
  verdict, the session as left, and the SDK with that session in its place.
\<close>

definition validateStored :: "time \<Rightarrow> SDK \<Rightarrow> string \<Rightarrow> UserSession \<Rightarrow> bool \<times> UserSession \<times> SDK" where
  "validateStored now sdk uid session =
     (let (valid, session') = validateSession now session
      in (valid, session', sdk \<lparr> userSessions := AList.update uid session' (userSessions sdk) \<rparr>))"

definition isConnected :: "time \<Rightarrow> SDK \<Rightarrow> string \<Rightarrow> bool \<times> SDK" where
  "isConnected now sdk uid =
     (case map_of (userSessions sdk) uid of
        None \<Rightarrow> (False, sdk)
      | Some session \<Rightarrow>
          (let (valid, session', sdk') = validateStored now sdk uid session in (valid, sdk')))"

definition getSession :: "time \<Rightarrow> SDK \<Rightarrow> string \<Rightarrow> UserSession option \<times> SDK" where
  "getSession now sdk uid =
     (case map_of (userSessions sdk) uid of
        None \<Rightarrow> (None, sdk)
      | Some session \<Rightarrow>
          (let (valid, session', sdk') = validateStored now sdk uid session
           in (if valid then Some session' else None, sdk')))"

definition getAllSessions :: "time \<Rightarrow> SDK \<Rightarrow> UserSession list \<times> SDK" where
  "getAllSessions now sdk =
     (let checked = map (\<lambda>(uid, session). (uid, validateSession now session)) (userSessions sdk)
      in (map (\<lambda>(uid, valid, session'). session') (filter (\<lambda>(uid, valid, session'). valid) checked),
          sdk \<lparr> userSessions := map (\<lambda>(uid, valid, session'). (uid, session')) checked \<rparr>))"

subsection \<open>Protocol clients and their event listeners\<close>

text \<open>
  \<open>createWalletConnectClient\<close>: without a project id, or when \<open>SignClient.init\<close> rejects,
  the inner failure is wrapped; when \<open>SignClient.init\<close> never settles, neither does the
  call (\<open>None\<close>). The outcome of \<open>SignClient.init\<close> is an input.
\<close>

definition createWalletConnectClient :: "unit promise \<Rightarrow> SDK \<Rightarrow> (thrown + nat) option \<times> SDK" where
  "createWalletConnectClient init_result sdk =
     (if projectId sdk = [] then (Some (Inl (Error ''Failed to create WalletConnect client'')), sdk)
      else (case init_result of
              Never \<Rightarrow> (None, sdk)
            | Settles t (Reject e) \<Rightarrow>
                (Some (Inl (Error ''Failed to create WalletConnect client'')), sdk)
            | Settles t (Resolve u) \<Rightarrow>
                (Some (Inr (nextClient sdk)),
                 sdk \<lparr> wire := wire sdk @ [WInit (nextClient sdk)],
                       nextClient := Suc (nextClient sdk) \<rparr>)))"

text \<open>\<open>String.prototype.split(':')\<close>.\<close>

fun split_colon :: "string \<Rightarrow> string list" where
  "split_colon [] = [[]]"
| "split_colon (c # cs) =
     (if c = CHR '':'' then [] # split_colon cs
      else (case split_colon cs of [] \<Rightarrow> [[c]] | part # parts \<Rightarrow> (c # part) # parts))"

definition nth_opt :: "'a list \<Rightarrow> nat \<Rightarrow> 'a option" where
  "nth_opt xs i = (if i < length xs then Some (xs ! i) else None)"

text \<open>
  The arguments of a \<open>session_connect\<close> event as the listener reads them: \<open>args.topic\<close>,
  \<open>args.params\<close> and \<open>args.params?.namespaces?.eip155?.accounts || []\<close>.
\<close>

record session_args =
  a_topic :: "string option"
  a_params :: "string option"
  a_accounts :: "string list"

definition findByClient :: "(string \<times> UserSession) list \<Rightarrow> nat \<Rightarrow> (string \<times> UserSession) option" where
  "findByClient entries client = find (\<lambda>(uid, userSession). wcClient userSession = client) entries"

definition on_session_connect :: "time \<Rightarrow> nat \<Rightarrow> session_args \<Rightarrow> SDK \<Rightarrow> SDK" where
  "on_session_connect now client args sdk =
     (case findByClient (userSessions sdk) client of
        None \<Rightarrow> sdk
      | Some (uid, session) \<Rightarrow>
          (let session1 = session \<lparr> topic := a_topic args, isActive := True,
                                    sessionData := a_params args, updatedAt := now,
                                    lastActivity := now \<rparr>;
               session2 = (case a_accounts args of
                             [] \<Rightarrow> session1
                           | account # rest \<Rightarrow>
                               session1 \<lparr> address := nth_opt (split_colon account) 2 \<rparr>);
               sdk1 = sdk \<lparr> userSessions := AList.update uid session2 (userSessions sdk) \<rparr>;
               sdk2 = sdk1 \<lparr> timeoutManager :=
                               clearTimer (timeoutManager sdk1) (''connection-'' @ userId session2) \<rparr>
           in emit sdk2 \<lparr> ev_type = ''session_connect'', ev_userId = Some (userId session2),
                            ev_success = None \<rparr>))"

definition findSessionByTopic :: "SDK \<Rightarrow> string option \<Rightarrow> (string \<times> UserSession) option" where
  "findSessionByTopic sdk topic' = find (\<lambda>(uid, session). topic session = topic') (userSessions sdk)"

definition on_session_event :: "time \<Rightarrow> session_args \<Rightarrow> SDK \<Rightarrow> SDK" where
  "on_session_event now args sdk =
     (case findSessionByTopic sdk (a_topic args) of
        None \<Rightarrow> sdk
      | Some (uid, session) \<Rightarrow>
          emit sdk \<lparr> ev_type = ''session_event'', ev_userId = Some (userId session),
                      ev_success = None \<rparr>)"

definition on_session_update :: "time \<Rightarrow> session_args \<Rightarrow> SDK \<Rightarrow> SDK" where
  "on_session_update now args sdk =
     (case findSessionByTopic sdk (a_topic args) of
        None \<Rightarrow> sdk
      | Some (uid, session) \<Rightarrow>
          (let session' = session \<lparr> sessionData := a_params args, updatedAt := now,
                                    lastActivity := now \<rparr>;
               sdk1 = sdk \<lparr> userSessions := AList.update uid session' (userSessions sdk) \<rparr>
           in emit sdk1 \<lparr> ev_type = ''session_update'', ev_userId = Some (userId session'),
                            ev_success = None \<rparr>))"

definition on_session_delete :: "time \<Rightarrow> session_args \<Rightarrow> SDK \<Rightarrow> SDK" where
  "on_session_delete now args sdk =
     (case findSessionByTopic sdk (a_topic args) of
        None \<Rightarrow> sdk
      | Some (uid, session) \<Rightarrow>
          emit sdk \<lparr> ev_type = ''session_disconnect'', ev_userId = Some (userId session),
                      ev_success = None \<rparr>)"

subsection \<open>connect and disconnect\<close>

record ConnectionRequest =
  cr_userId :: string
  cr_chainId :: "nat option"
  cr_methods :: "string list option"
  cr_events :: "string list option"

record ConnectionResponse =
  c_success :: bool
  c_uri :: "string option"
  c_qrCode :: "string option"
  c_topic :: "string option"
  c_error :: "string option"
  c_deepLinks :: "string list option"
  c_timeout :: "nat option"
  c_estimatedTime :: "nat option"

text \<open>
  What the collaborators do during one \<open>connect\<close>: \<open>SignClient.init\<close>, the handshake
  \<open>wcClient.connect\<close> (its \<open>uri\<close> may be missing), \<open>qrcode.toDataURL\<close>, and the deep links
  that \<open>WalletRegistry.generateDeepLinks\<close> derives from the URI.
\<close>

record connect_env =
  init_result :: "unit promise"
  handshake_result :: "string option promise"
  qr_result :: "string option promise"
  deep_links :: "string list"

text \<open>
  What \<open>String.prototype.trim\<close> strips. A character of a model string is a code unit below
  256; of those, white space and line terminators are U+0009 to U+000D, U+0020 and U+00A0.
  (The others that \<open>trim\<close> strips, U+FEFF, U+2028, U+2029 and the space separators from
  U+1680 on, are not characters of a model string.)
\<close>

definition js_space :: "char \<Rightarrow> bool" where
  "js_space c = (c \<in> set [CHR 0x09, CHR 0x0A, CHR 0x0B, CHR 0x0C, CHR 0x0D, CHR 0x20, CHR 0xA0])"

text \<open>\<open>!uri || typeof uri !== 'string' || uri.trim() === ''\<close>\<close>

definition invalid_uri :: "string option \<Rightarrow> bool" where
  "invalid_uri uri = (case uri of None \<Rightarrow> True | Some str \<Rightarrow> str = [] \<or> (\<forall>c \<in> set str. js_space c))"

definition generateQRCode :: "string option promise \<Rightarrow> string option \<Rightarrow> (thrown + string) option" where
  "generateQRCode toDataURL uri =
     (if invalid_uri uri then Some (Inl (Error ''Failed to generate QR code''))
      else (case toDataURL of
              Never \<Rightarrow> None
            | Settles t (Reject e) \<Rightarrow> Some (Inl (Error ''Failed to generate QR code''))
            | Settles t (Resolve qrCode) \<Rightarrow>
                (if truthy qrCode then Some (Inr (orEmpty qrCode))
                 else Some (Inl (Error ''Failed to generate QR code'')))))"

definition default_methods :: "string list" where
  "default_methods = [''eth_sendTransaction'', ''eth_signTransaction'', ''eth_sign'',
                      ''personal_sign'', ''eth_signTypedData'']"

definition default_events :: "string list" where
  "default_events = [''chainChanged'', ''accountsChanged'']"

text \<open>The \<open>catch\<close> block of \<open>connect\<close>.\<close>

definition connect_failed :: "thrown \<Rightarrow> SDK \<Rightarrow> ConnectionRequest \<Rightarrow> ConnectionResponse option \<times> SDK" where
  "connect_failed e sdk request =
     (Some \<lparr> c_success = False, c_uri = None, c_qrCode = None, c_topic = None,
             c_error = Some (error_message e), c_deepLinks = None, c_timeout = None,
             c_estimatedTime = None \<rparr>,
      emit sdk \<lparr> ev_type = ''error'', ev_userId = Some (cr_userId request), ev_success = None \<rparr>)"

text \<open>The part of \<open>connect\<close> after the check for an existing valid session.\<close>

definition connect_new ::
  "time \<Rightarrow> connect_env \<Rightarrow> SDK \<Rightarrow> ConnectionRequest \<Rightarrow> ConnectionResponse option \<times> SDK" where
  "connect_new now env sdk0 request =
     (case createWalletConnectClient (init_result env) sdk0 of
        (None, sdk1) \<Rightarrow> (None, sdk1)
      | (Some (Inl e), sdk1) \<Rightarrow> connect_failed e sdk1 request
      | (Some (Inr client), sdk1) \<Rightarrow>
          (let sdk2 = sdk1 \<lparr> wire := wire sdk1 @
                 [WConnect client
                    (case cr_methods request of None \<Rightarrow> default_methods | Some ms \<Rightarrow> ms)
                    (orOne (cr_chainId request))
                    (case cr_events request of None \<Rightarrow> default_events | Some es \<Rightarrow> es)] \<rparr>
           in case handshake_result env of
                Never \<Rightarrow> (None, sdk2)
              | Settles t (Reject e) \<Rightarrow> connect_failed e sdk2 request
              | Settles t (Resolve uri) \<Rightarrow>
                  (if invalid_uri uri
                   then connect_failed
                          (Error ''Invalid connection URI received from WalletConnect'')
                          sdk2 request
                   else (case generateQRCode (qr_result env) uri of
                           None \<Rightarrow> (None, sdk2)
                         | Some (Inl e) \<Rightarrow> connect_failed e sdk2 request
                         | Some (Inr qrCode) \<Rightarrow>
                             (let session = \<lparr> userId = cr_userId request,
                                    wcClient = client, topic = None, address = None,
                                    sessionData = None, isActive = False,
                                    createdAt = now, updatedAt = now,
                                    lastActivity = now \<rparr>;
                                  sdk3 = sdk2 \<lparr> userSessions :=
                                           AList.update (cr_userId request) session
                                             (userSessions sdk2),
                                         database := saveSession (database sdk2) session \<rparr>;
                                  sdk4 = emit sdk3 \<lparr> ev_type = ''session_connect'',
                                           ev_userId = Some (cr_userId request),
                                           ev_success = None \<rparr>
                              in (Some \<lparr> c_success = True, c_uri = uri,
                                         c_qrCode = Some qrCode, c_topic = uri,
                                         c_error = None,
                                         c_deepLinks = Some (deep_links env),
                                         c_timeout = Some (getTimeout (timeoutManager sdk4) Connection),
                                         c_estimatedTime = Some (getTimeout (timeoutManager sdk4) Connection) \<rparr>,
                                  sdk4))))))"

definition connect ::
  "time \<Rightarrow> connect_env \<Rightarrow> SDK \<Rightarrow> ConnectionRequest \<Rightarrow> ConnectionResponse option \<times> SDK" where
  "connect now env sdk request =
     (case map_of (userSessions sdk) (cr_userId request) of
        None \<Rightarrow> connect_new now env sdk request
      | Some existingSession \<Rightarrow>
          (let (valid, existing, sdk0) = validateStored now sdk (cr_userId request) existingSession
           in if valid
              then (Some \<lparr> c_success = True, c_uri = Some [], c_qrCode = None,
                           c_topic = Some (orEmpty (topic existing)), c_error = None,
                           c_deepLinks = None,
                           c_timeout = Some (getTimeout (timeoutManager sdk0) Connection),
                           c_estimatedTime = Some (getTimeout (timeoutManager sdk0) Connection) \<rparr>,
                    sdk0)
              else connect_new now env sdk0 request))"

text \<open>
  \<open>disconnect\<close>. The remote call \<open>wcClient.disconnect\<close> is made only for a session with a
  topic; its outcome is an input. Everything sits in one \<open>try\<close>: when the remote call
  rejects, the \<open>catch\<close> returns \<open>false\<close> and the statements after the call are not run.
\<close>

definition removeSession :: "SDK \<Rightarrow> string \<Rightarrow> bool option \<times> SDK" where
  "removeSession sdk uid =
     (let sdk1 = sdk \<lparr> userSessions := AList.delete uid (userSessions sdk),
                        database := deleteSession (database sdk) uid \<rparr>
      in (Some True,
          emit sdk1 \<lparr> ev_type = ''session_disconnect'', ev_userId = Some uid, ev_success = None \<rparr>))"

definition disconnect :: "unit promise \<Rightarrow> SDK \<Rightarrow> string \<Rightarrow> bool option \<times> SDK" where
  "disconnect remote sdk uid =
     (case map_of (userSessions sdk) uid of
        None \<Rightarrow> (Some False, sdk)
      | Some session \<Rightarrow>
          (if truthy (topic session)
           then (let sdk1 = sdk \<lparr> wire := wire sdk @
                                 [WDisconnect (wcClient session) (orEmpty (topic session))] \<rparr>
                 in case remote of
                      Never \<Rightarrow> (None, sdk1)
                    | Settles t (Reject e) \<Rightarrow> (Some False, sdk1)
                    | Settles t (Resolve u) \<Rightarrow> removeSession sdk1 uid)
           else removeSession sdk uid))"

subsection \<open>Operations through a session\<close>

text \<open>
  Requests keep the fields that decide the control flow and the call on the wire; the
  payloads (addresses, values, ABI, arguments) are passed through and left out. What the
  collaborators do during one operation is an input: the outcome of \<open>wcClient.request\<close>,
  of \<open>encodeFunctionData\<close>, of \<open>decodeFunctionData\<close>, of \<open>JSON.stringify\<close> and of \<open>BigInt\<close>,
  and the runtime under which the timeout manager races the request.
  An operation returns \<open>None\<close> when its promise never settles.
\<close>

record op_env =
  rpc :: "string promise"
  encoded :: "thrown + string"
  decoded :: "thrown + string"
  stringified :: "thrown + string"
  bigint :: "thrown + int"
  js :: runtime

record TransactionRequest =
  tx_userId :: string
  tx_chainId :: "nat option"

record TransactionResponse =
  t_success :: bool
  t_hash :: "string option"
  t_error :: "string option"

record SignMessageRequest =
  sm_userId :: string
  sm_message :: string
  sm_address :: "string option"

record SignTypedDataRequest =
  st_userId :: string
  st_address :: "string option"

record SignResponse =
  s_success :: bool
  s_signature :: "string option"
  s_error :: "string option"

record ContractCallRequest =
  cc_userId :: string
  cc_chainId :: "nat option"
  cc_functionName :: string

record ContractCallResponse =
  k_success :: bool
  k_hash :: "string option"
  k_error :: "string option"

record ContractReadRequest =
  rd_userId :: string
  rd_chainId :: "nat option"
  rd_functionName :: string

record ContractReadResponse =
  r_success :: bool
  r_data :: "string option"
  r_error :: "string option"

record GasResponse =
  g_success :: bool
  g_gas :: "int option"
  g_error :: "string option"

text \<open>The guard \<open>!session || !session.topic\<close> leaves the sessions that pass it.\<close>

definition withTopic :: "UserSession option \<Rightarrow> UserSession option" where
  "withTopic session = (case session of None \<Rightarrow> None
                        | Some s \<Rightarrow> if truthy (topic s) then Some s else None)"

definition notConnected :: thrown where
  "notConnected = Error ''User not connected''"

definition sendRequest :: "SDK \<Rightarrow> UserSession \<Rightarrow> nat \<Rightarrow> string \<Rightarrow> SDK" where
  "sendRequest sdk session chain method =
     sdk \<lparr> wire := wire sdk @ [WRequest (wcClient session) (orEmpty (topic session)) chain method] \<rparr>"

definition tx_failed :: "thrown \<Rightarrow> SDK \<Rightarrow> string \<Rightarrow> TransactionResponse option \<times> SDK" where
  "tx_failed e sdk uid =
     (Some \<lparr> t_success = False, t_hash = None, t_error = Some (error_message e) \<rparr>,
      emit sdk \<lparr> ev_type = ''transaction_response'', ev_userId = Some uid, ev_success = Some False \<rparr>)"

definition sendTransaction ::
  "time \<Rightarrow> op_env \<Rightarrow> SDK \<Rightarrow> TransactionRequest \<Rightarrow> TransactionResponse option \<times> SDK" where
  "sendTransaction now env sdk req =
     (let (session, sdk1) = getSession now sdk (tx_userId req)
      in case withTopic session of
           None \<Rightarrow> tx_failed notConnected sdk1 (tx_userId req)
         | Some s \<Rightarrow>
             (let sdk2 = sendRequest sdk1 s (orOne (tx_chainId req)) ''eth_sendTransaction''
              in case rpc env of
                   Never \<Rightarrow> (None, sdk2)
                 | Settles t (Reject e) \<Rightarrow> tx_failed e sdk2 (tx_userId req)
                 | Settles t (Resolve hash) \<Rightarrow>
                     (Some \<lparr> t_success = True, t_hash = Some hash, t_error = None \<rparr>,
                      emit sdk2 \<lparr> ev_type = ''transaction_response'',
                                   ev_userId = Some (tx_userId req), ev_success = Some True \<rparr>)))"

definition sign_failed :: "thrown \<Rightarrow> SDK \<Rightarrow> string \<Rightarrow> SignResponse option \<times> SDK" where
  "sign_failed e sdk uid =
     (Some \<lparr> s_success = False, s_signature = None, s_error = Some (error_message e) \<rparr>,
      emit sdk \<lparr> ev_type = ''sign_response'', ev_userId = Some uid, ev_success = Some False \<rparr>)"

definition sign_done :: "string \<Rightarrow> SDK \<Rightarrow> string \<Rightarrow> SignResponse option \<times> SDK" where
  "sign_done signature sdk uid =
     (Some \<lparr> s_success = True, s_signature = Some signature, s_error = None \<rparr>,
      emit sdk \<lparr> ev_type = ''sign_response'', ev_userId = Some uid, ev_success = Some True \<rparr>)"

definition signMessage ::
  "time \<Rightarrow> op_env \<Rightarrow> SDK \<Rightarrow> SignMessageRequest \<Rightarrow> SignResponse option \<times> SDK" where
  "signMessage now env sdk req =
     (let (session, sdk1) = getSession now sdk (sm_userId req)
      in case withTopic session of
           None \<Rightarrow> sign_failed notConnected sdk1 (sm_userId req)
         | Some s \<Rightarrow>
             (let sdk2 = sendRequest sdk1 s 1 ''personal_sign''
              in case rpc env of
                   Never \<Rightarrow> (None, sdk2)
                 | Settles t (Reject e) \<Rightarrow> sign_failed e sdk2 (sm_userId req)
                 | Settles t (Resolve signature) \<Rightarrow> sign_done signature sdk2 (sm_userId req)))"

definition signTypedData ::
  "time \<Rightarrow> op_env \<Rightarrow> SDK \<Rightarrow> SignTypedDataRequest \<Rightarrow> SignResponse option \<times> SDK" where
  "signTypedData now env sdk req =
     (let (session, sdk1) = getSession now sdk (st_userId req)
      in case withTopic session of
           None \<Rightarrow> sign_failed notConnected sdk1 (st_userId req)
         | Some s \<Rightarrow>
             (case stringified env of
                Inl e \<Rightarrow> sign_failed e sdk1 (st_userId req)
              | Inr json \<Rightarrow>
                  (let sdk2 = sendRequest sdk1 s 1 ''eth_signTypedData''
                   in case rpc env of
                        Never \<Rightarrow> (None, sdk2)
                      | Settles t (Reject e) \<Rightarrow> sign_failed e sdk2 (st_userId req)
                      | Settles t (Resolve signature) \<Rightarrow> sign_done signature sdk2 (st_userId req))))"

definition call_failed :: "thrown \<Rightarrow> SDK \<Rightarrow> string \<Rightarrow> ContractCallResponse option \<times> SDK" where
  "call_failed e sdk uid =
     (Some \<lparr> k_success = False, k_hash = None, k_error = Some (error_message e) \<rparr>,
      emit sdk \<lparr> ev_type = ''transaction_response'', ev_userId = Some uid, ev_success = Some False \<rparr>)"

definition callContract ::
  "time \<Rightarrow> op_env \<Rightarrow> SDK \<Rightarrow> ContractCallRequest \<Rightarrow> ContractCallResponse option \<times> SDK" where
  "callContract now env sdk req =
     (let (session, sdk1) = getSession now sdk (cc_userId req)
      in case withTopic session of
           None \<Rightarrow> call_failed notConnected sdk1 (cc_userId req)
         | Some s \<Rightarrow>
             (case encoded env of
                Inl e \<Rightarrow> call_failed e sdk1 (cc_userId req)
              | Inr encodedData \<Rightarrow>
                  (let sdk2 = sendRequest sdk1 s (orOne (cc_chainId req)) ''eth_sendTransaction''
                   in case rpc env of
                        Never \<Rightarrow> (None, sdk2)
                      | Settles t (Reject e) \<Rightarrow> call_failed e sdk2 (cc_userId req)
                      | Settles t (Resolve hash) \<Rightarrow>
                          (Some \<lparr> k_success = True, k_hash = Some hash, k_error = None \<rparr>,
                           emit sdk2 \<lparr> ev_type = ''transaction_response'',
                                        ev_userId = Some (cc_userId req),
                                        ev_success = Some True \<rparr>))))"

definition read_failed :: "thrown \<Rightarrow> SDK \<Rightarrow> ContractReadResponse option \<times> SDK" where
  "read_failed e sdk =
     (Some \<lparr> r_success = False, r_data = None, r_error = Some (error_message e) \<rparr>, sdk)"

definition readContract ::
  "time \<Rightarrow> op_env \<Rightarrow> SDK \<Rightarrow> ContractReadRequest \<Rightarrow> ContractReadResponse option \<times> SDK" where
  "readContract now env sdk req =
     (let (session, sdk1) = getSession now sdk (rd_userId req)
      in case withTopic session of
           None \<Rightarrow> read_failed notConnected sdk1
         | Some s \<Rightarrow>
             (case encoded env of
                Inl e \<Rightarrow> read_failed e sdk1
              | Inr encodedData \<Rightarrow>
                  (let sdk2 = sendRequest sdk1 s (orOne (rd_chainId req)) ''eth_call''
                   in case rpc env of
                        Never \<Rightarrow> (None, sdk2)
                      | Settles t (Reject e) \<Rightarrow> read_failed e sdk2
                      | Settles t (Resolve result) \<Rightarrow>
                          (case decoded env of
                             Inl e \<Rightarrow> read_failed e sdk2
                           | Inr decodedData \<Rightarrow>
                               (Some \<lparr> r_success = True, r_data = Some decodedData,
                                       r_error = None \<rparr>, sdk2)))))"

text \<open>
  \<open>estimateGas\<close> is the one operation that goes through the timeout manager; its \<open>catch\<close>
  tells a \<open>TimeoutError\<close> from the rest.
\<close>

definition gas_failed :: "runtime \<Rightarrow> thrown \<Rightarrow> SDK \<Rightarrow> GasResponse option \<times> SDK" where
  "gas_failed rt e sdk =
     (Some \<lparr> g_success = False, g_gas = None,
             g_error = Some (case e of
                               TimeoutError m operation t \<Rightarrow>
                                 ''Gas estimation timed out after '' @ formatTimeout rt t
                             | _ \<Rightarrow> error_message e) \<rparr>, sdk)"

definition estimateGas ::
  "time \<Rightarrow> op_env \<Rightarrow> SDK \<Rightarrow> ContractCallRequest \<Rightarrow> GasResponse option \<times> SDK" where
  "estimateGas now env sdk req =
     (let (session, sdk1) = getSession now sdk (cc_userId req)
      in case withTopic session of
           None \<Rightarrow> gas_failed (js env) notConnected sdk1
         | Some s \<Rightarrow>
             (case encoded env of
                Inl e \<Rightarrow> gas_failed (js env) e sdk1
              | Inr encodedData \<Rightarrow>
                  (let sdk2 = sendRequest sdk1 s (orOne (cc_chainId req)) ''eth_estimateGas'';
                       (outcome, tm) = waitForGasEstimation (js env) (timeoutManager sdk2)
                                         (''gas-estimation-'' @ cc_userId req) (rpc env);
                       sdk3 = sdk2 \<lparr> timeoutManager := tm \<rparr>
                   in case outcome of
                        Reject e \<Rightarrow> gas_failed (js env) e sdk3
                      | Resolve result \<Rightarrow>
                          (case bigint env of
                             Inl e \<Rightarrow> gas_failed (js env) e sdk3
                           | Inr gas \<Rightarrow>
                               (Some \<lparr> g_success = True, g_gas = Some gas, g_error = None \<rparr>,
                                sdk3)))))"

subsection \<open>Cleanup, teardown and start-up\<close>

text \<open>
  \<open>disconnect\<close> for each user id in turn; \<open>remote\<close> tells what \<open>wcClient.disconnect\<close> does
  for each user. A failed disconnect returns \<open>false\<close> and the loop goes on; one that
  never settles stalls it.
\<close>

fun disconnectEach :: "(string \<Rightarrow> unit promise) \<Rightarrow> SDK \<Rightarrow> string list \<Rightarrow> unit option \<times> SDK" where
  "disconnectEach remote sdk [] = (Some (), sdk)"
| "disconnectEach remote sdk (uid # uids) =
     (case disconnect (remote uid) sdk uid of
        (None, sdk') \<Rightarrow> (None, sdk')
      | (Some done, sdk') \<Rightarrow> disconnectEach remote sdk' uids)"

definition cleanupSessions :: "time \<Rightarrow> (string \<Rightarrow> unit promise) \<Rightarrow> SDK \<Rightarrow> unit option \<times> SDK" where
  "cleanupSessions now remote sdk =
     (let checked = map (\<lambda>(uid, session). (uid, validateSession now session)) (userSessions sdk);
          expiredSessions = map fst (filter (\<lambda>(uid, valid, session'). \<not> valid) checked);
          sdk1 = sdk \<lparr> userSessions := map (\<lambda>(uid, valid, session'). (uid, session')) checked \<rparr>
      in disconnectEach remote sdk1 expiredSessions)"

text \<open>
  \<open>destroy\<close> clears the cleanup interval, disconnects the users of the registry one after
  the other, disconnects the database and resets \<open>isInitialized\<close>. It does not touch the
  timeout manager.
\<close>

definition destroy :: "(string \<Rightarrow> unit promise) \<Rightarrow> SDK \<Rightarrow> unit option \<times> SDK" where
  "destroy remote sdk =
     (let sdk1 = (if cleanupInterval sdk then sdk \<lparr> intervalRunning := False \<rparr> else sdk)
      in case disconnectEach remote sdk1 (map fst (userSessions sdk1)) of
           (None, sdk2) \<Rightarrow> (None, sdk2)
         | (Some done, sdk2) \<Rightarrow>
             (Some (), sdk2 \<lparr> database := db_disconnect (database sdk2), isInitialized := False \<rparr>))"

text \<open>
  \<open>restoreSessions\<close> walks the sessions the database holds, as an array taken at the start
  (\<open>db_getAllSessions\<close>; the loop keeps the key under which each was saved).
  Each is read as it is by then (\<open>current\<close>) and validated, which may write \<open>isActive\<close>; a
  valid one gets a new client, is marked active and enters the registry under its
  \<open>userId\<close>. The writes go to the record that stands for the object (\<open>assign\<close>): the
  registry's when the registry holds the user, else the database's. A client that cannot
  be created throws out of the loop into the \<open>catch\<close> of \<open>restoreSessions\<close>, which ends
  the restoration.
\<close>

definition current :: "SDK \<Rightarrow> string \<Rightarrow> UserSession \<Rightarrow> UserSession" where
  "current sdk uid saved =
     (case map_of (userSessions sdk) uid of None \<Rightarrow> saved | Some session \<Rightarrow> session)"

definition assign :: "SDK \<Rightarrow> string \<Rightarrow> UserSession \<Rightarrow> SDK" where
  "assign sdk uid session =
     (case map_of (userSessions sdk) uid of
        None \<Rightarrow> sdk \<lparr> database := (database sdk)
                        \<lparr> sessions := AList.update uid session (sessions (database sdk)) \<rparr> \<rparr>
      | Some held \<Rightarrow> sdk \<lparr> userSessions := AList.update uid session (userSessions sdk) \<rparr>)"

fun restoreLoop ::
  "time \<Rightarrow> (string \<Rightarrow> unit promise) \<Rightarrow> SDK \<Rightarrow> (string \<times> UserSession) list \<Rightarrow> unit option \<times> SDK" where
  "restoreLoop now inits sdk [] = (Some (), sdk)"
| "restoreLoop now inits sdk ((uid, saved) # rest) =
     (let (valid, session) = validateSession now (current sdk uid saved);
          sdk0 = assign sdk uid session
      in if valid
         then (case createWalletConnectClient (inits (userId session)) sdk0 of
                 (None, sdk1) \<Rightarrow> (None, sdk1)
               | (Some (Inl e), sdk1) \<Rightarrow> (Some (), sdk1)
               | (Some (Inr client), sdk1) \<Rightarrow>
                   (let session' = session \<lparr> wcClient := client, isActive := True \<rparr>;
                        sdk2 = assign sdk1 uid session'
                    in restoreLoop now inits
                         (sdk2 \<lparr> userSessions :=
                                   AList.update (userId session') session' (userSessions sdk2) \<rparr>)
                         rest))
         else restoreLoop now inits sdk0 rest)"

definition restoreSessions :: "time \<Rightarrow> (string \<Rightarrow> unit promise) \<Rightarrow> SDK \<Rightarrow> unit option \<times> SDK" where
  "restoreSessions now inits sdk = restoreLoop now inits sdk (sessions (database sdk))"

definition init :: "time \<Rightarrow> (string \<Rightarrow> unit promise) \<Rightarrow> SDK \<Rightarrow> unit option \<times> SDK" where
  "init now inits sdk =
     (if isInitialized sdk then (Some (), sdk)
      else (case restoreSessions now inits (sdk \<lparr> database := db_connect (database sdk) \<rparr>) of
              (None, sdk1) \<Rightarrow> (None, sdk1)
            | (Some done, sdk1) \<Rightarrow>
                (Some (),
                 emit (sdk1 \<lparr> isInitialized := True \<rparr>)
                   \<lparr> ev_type = ''info'', ev_userId = None, ev_success = None \<rparr>)))"

section \<open>Concrete scenarios\<close>

text \<open>
  Values on which the properties below are exercised: a user \<open>u1\<close> whose session was
  approved at time \<open>t\<close>, an SDK that tracks exactly that session, and the three stored
  sessions of the sweep scenario.
\<close>

definition exampleOptions :: SDKOptions where
  "exampleOptions = \<lparr> o_projectId = ''project'', o_timeouts = None, o_cleanupInterval = Some 300000 \<rparr>"

definition approvedSession :: "string \<Rightarrow> time \<Rightarrow> UserSession" where
  "approvedSession uid t = \<lparr> userId = uid, wcClient = 0, topic = Some ''topic-1'',
     address = Some ''0xabc'', sessionData = None, isActive = True,
     createdAt = t, updatedAt = t, lastActivity = t \<rparr>"

definition sdkWith :: "UserSession \<Rightarrow> SDK" where
  "sdkWith session = (SDK_new exampleOptions)
     \<lparr> userSessions := [(userId session, session)],
       database := saveSession (db_connect SimpleDatabase_new) session,
       isInitialized := True,
       wire := [WInit 0],
       nextClient := 1 \<rparr>"

definition hour :: int where
  "hour = 60 * 60 * 1000"

definition sweepNow :: time where
  "sweepNow = 1000 * hour"

definition threeSessions :: SimpleDatabase where
  "threeSessions = \<lparr> sessions =
       [(''fresh'', approvedSession ''fresh'' (sweepNow - 1)),
        (''old25'', approvedSession ''old25'' (sweepNow - 25 * hour)),
        (''old30'', approvedSession ''old30'' (sweepNow - 30 * hour))],
     isConnectedFlag = True \<rparr>"

text \<open>
  A session still waiting for approval, a runtime that prints the small integers of the
  scenarios digit by digit, and collaborators that answer every call of one operation
  successfully.
\<close>

definition pendingSession :: "string \<Rightarrow> time \<Rightarrow> UserSession" where
  "pendingSession uid t = \<lparr> userId = uid, wcClient = 0, topic = None, address = None,
     sessionData = None, isActive = False, createdAt = t, updatedAt = t, lastActivity = t \<rparr>"

definition plainRuntime :: runtime where
  "plainRuntime = \<lparr> numberText = decimal_text, timerFirst = False \<rparr>"

definition allGood :: op_env where
  "allGood = \<lparr> rpc = Settles 10 (Resolve ''0xresult''), encoded = Inr ''0xdata'',
     decoded = Inr ''decoded'', stringified = Inr ''{}'', bigint = Inr 21000,
     js = plainRuntime \<rparr>"

definition txReq :: TransactionRequest where
  "txReq = \<lparr> tx_userId = ''u1'', tx_chainId = None \<rparr>"

definition smReq :: SignMessageRequest where
  "smReq = \<lparr> sm_userId = ''u1'', sm_message = ''hello'', sm_address = None \<rparr>"

definition stReq :: SignTypedDataRequest where
  "stReq = \<lparr> st_userId = ''u1'', st_address = None \<rparr>"

definition ccReq :: ContractCallRequest where
  "ccReq = \<lparr> cc_userId = ''u1'', cc_chainId = Some 137, cc_functionName = ''transfer'' \<rparr>"

definition rdReq :: ContractReadRequest where
  "rdReq = \<lparr> rd_userId = ''u1'', rd_chainId = Some 137, rd_functionName = ''balanceOf'' \<rparr>"

text \<open>A wallet that answers a handshake with the given URI, and a connection request of \<open>u1\<close>.\<close>

definition handshakeEnv :: "string \<Rightarrow> connect_env" where
  "handshakeEnv uri = \<lparr> init_result = Settles 1 (Resolve ()),
     handshake_result = Settles 1 (Resolve (Some uri)),
     qr_result = Settles 1 (Resolve (Some ''data:image/png;base64,AAAA'')),
     deep_links = [''metamask://wc?uri='' @ uri] \<rparr>"

definition connectReq :: ConnectionRequest where
  "connectReq = \<lparr> cr_userId = ''u1'', cr_chainId = Some 1, cr_methods = None, cr_events = None \<rparr>"

text \<open>The SDK after the first \<open>connect\<close> of \<open>u1\<close> at time 0 on a fresh SDK.\<close>

definition afterFirstConnect :: SDK where
  "afterFirstConnect = (SDK_new exampleOptions)
     \<lparr> userSessions := [(''u1'', pendingSession ''u1'' 0)],
       database := saveSession SimpleDatabase_new (pendingSession ''u1'' 0),
       emitted := [\<lparr> ev_type = ''session_connect'', ev_userId = Some ''u1'', ev_success = None \<rparr>],
       wire := [WInit 0, WConnect 0 default_methods 1 default_events],
       nextClient := 1 \<rparr>"

text \<open>
  An SDK that tracks two approved users while a gas estimation of \<open>u1\<close> is in flight (its
  timer is armed and tracked), and a relay through which the remote disconnect of \<open>u1\<close>
  fails and every other one succeeds.
\<close>

definition twoUsers :: SDK where
  "twoUsers = (SDK_new exampleOptions)
     \<lparr> userSessions := [(''u1'', approvedSession ''u1'' 0),
                         (''u2'', (approvedSession ''u2'' 0) \<lparr> wcClient := 1 \<rparr>)],
       database := \<lparr> sessions = [(''u1'', approvedSession ''u1'' 0),
                                  (''u2'', (approvedSession ''u2'' 0) \<lparr> wcClient := 1 \<rparr>)],
                     isConnectedFlag = True \<rparr>,
       timeoutManager := armTimer (TimeoutManager_new no_overrides) ''gas-estimation-u1'',
       isInitialized := True,
       wire := [WInit 0, WInit 1],
       nextClient := 2 \<rparr>"

definition firstFails :: "string \<Rightarrow> unit promise" where
  "firstFails uid = (if uid = ''u1'' then Settles 5 (Reject (Error ''relay unreachable''))
                     else Settles 5 (Resolve ()))"

text \<open>A relay through which the remote disconnect of \<open>u2\<close> never settles.\<close>

definition secondStalls :: "string \<Rightarrow> unit promise" where
  "secondStalls uid = (if uid = ''u2'' then Never else Settles 5 (Resolve ()))"

text \<open>The approval event of a wallet that accepts with one account.\<close>

definition approval :: session_args where
  "approval = \<lparr> a_topic = Some ''topic-1'', a_params = Some ''{}'',
     a_accounts = [''eip155:1:0xabc''] \<rparr>"

section \<open>The states an SDK can reach\<close>

definition updateTimeoutConfig :: "SDK \<Rightarrow> PartialTimeoutConfig \<Rightarrow> SDK" where
  "updateTimeoutConfig sdk newTimeouts =
     sdk \<lparr> timeoutManager := updateTimeouts (timeoutManager sdk) newTimeouts \<rparr>"

definition sdk_clearAllTimers :: "SDK \<Rightarrow> SDK" where
  "sdk_clearAllTimers sdk = sdk \<lparr> timeoutManager := clearAllTimers (timeoutManager sdk) \<rparr>"

definition sdk_clearTimer :: "SDK \<Rightarrow> string \<Rightarrow> SDK" where
  "sdk_clearTimer sdk operation = sdk \<lparr> timeoutManager := clearTimer (timeoutManager sdk) operation \<rparr>"

text \<open>The invariant of the data model: an active session of the registry has a topic.\<close>

definition session_ok :: "UserSession \<Rightarrow> bool" where
  "session_ok session = (isActive session \<longrightarrow> truthy (topic session))"

definition all_ok :: "(string \<times> UserSession) list \<Rightarrow> bool" where
  "all_ok entries = list_all (\<lambda>(uid, session). session_ok session) entries"

definition active_has_topic :: "SDK \<Rightarrow> bool" where
  "active_has_topic sdk = all_ok (userSessions sdk)"

text \<open>
  A state is reachable when it is that of a new SDK, or comes from a reachable state by a
  public method or by a listener of a protocol client, whatever the arguments, the clock
  and the collaborators' answers; a method that stays pending leaves the state it had
  reached. At start-up the database may hold any sessions; one stored for a user whom the
  registry holds is read as the registry has it. The one restriction is on the approval
  event: its \<open>topic\<close> is a non-empty string. (Each method runs from start to end: two
  methods interleaved at their suspension points are not described.)
\<close>

inductive reachable :: "SDK \<Rightarrow> bool" where
  r_new: "reachable (SDK_new options)"
| r_init:
    "reachable sdk \<Longrightarrow>
       reachable (snd (init now inits (sdk \<lparr> database := (database sdk) \<lparr> sessions := stored \<rparr> \<rparr>)))"
| r_connect: "reachable sdk \<Longrightarrow> reachable (snd (connect now cenv sdk creq))"
| r_disconnect: "reachable sdk \<Longrightarrow> reachable (snd (disconnect remote sdk uid))"
| r_isConnected: "reachable sdk \<Longrightarrow> reachable (snd (isConnected now sdk uid))"
| r_getSession: "reachable sdk \<Longrightarrow> reachable (snd (getSession now sdk uid))"
| r_getAllSessions: "reachable sdk \<Longrightarrow> reachable (snd (getAllSessions now sdk))"
| r_sendTransaction: "reachable sdk \<Longrightarrow> reachable (snd (sendTransaction now env sdk tx))"
| r_signMessage: "reachable sdk \<Longrightarrow> reachable (snd (signMessage now env sdk sm))"
| r_signTypedData: "reachable sdk \<Longrightarrow> reachable (snd (signTypedData now env sdk st))"
| r_callContract: "reachable sdk \<Longrightarrow> reachable (snd (callContract now env sdk cc))"
| r_readContract: "reachable sdk \<Longrightarrow> reachable (snd (readContract now env sdk rd))"
| r_estimateGas: "reachable sdk \<Longrightarrow> reachable (snd (estimateGas now env sdk cc))"
| r_cleanupSessions: "reachable sdk \<Longrightarrow> reachable (snd (cleanupSessions now remotes sdk))"
| r_destroy: "reachable sdk \<Longrightarrow> reachable (snd (destroy remotes sdk))"
| r_session_connect:
    "reachable sdk \<Longrightarrow> truthy (a_topic args) \<Longrightarrow> reachable (on_session_connect now client args sdk)"
| r_session_event: "reachable sdk \<Longrightarrow> reachable (on_session_event now args sdk)"
| r_session_update: "reachable sdk \<Longrightarrow> reachable (on_session_update now args sdk)"
| r_session_delete: "reachable sdk \<Longrightarrow> reachable (on_session_delete now args sdk)"
| r_updateTimeoutConfig: "reachable sdk \<Longrightarrow> reachable (updateTimeoutConfig sdk newTimeouts)"
| r_clearAllTimers: "reachable sdk \<Longrightarrow> reachable (sdk_clearAllTimers sdk)"
| r_clearTimer: "reachable sdk \<Longrightarrow> reachable (sdk_clearTimer sdk operation)"

section \<open>Properties of the timeout manager\<close>

lemma map_of_delete_same: "map_of (AList.delete k xs) k = None"
  by (simp add: delete_conv)




text \<open>
  A configured duration of at least one millisecond that passes before the promise settles
  brings the timer due first, whatever the delay the runtime gave the timer.
\<close>

lemma deadline_first_after_duration:
  assumes "1 \<le> duration" and "promise = Never \<or> (\<exists>t r. promise = Settles t r \<and> duration < t)"
  shows "deadline_first rt (setTimeout_delay duration) promise"
  using assms by (auto simp: deadline_first_def setTimeout_delay_def)





section \<open>Properties of session validation\<close>

lemma validateSession_expired:
  "isActive session \<Longrightarrow> truthy (topic session) \<Longrightarrow> maxAge < now - lastActivity session \<Longrightarrow>
     validateSession now session = (False, session \<lparr> isActive := False \<rparr>)"
  by (simp add: validateSession_def)

lemma validateSession_valid:
  "fst (validateSession now session) \<Longrightarrow> snd (validateSession now session) = session"
  by (simp add: validateSession_def Let_def split: if_splits)

lemma validateSession_valid_iff:
  "fst (validateSession now session)
     \<longleftrightarrow> isActive session \<and> truthy (topic session) \<and> now - lastActivity session \<le> maxAge"
  by (auto simp: validateSession_def Let_def)

lemma update_changes_map:
  "map_of xs k = Some v \<Longrightarrow> v' \<noteq> v \<Longrightarrow> AList.update k v' xs \<noteq> xs"
  by (metis option.inject update_Some_unfold)

text \<open>
  C10 (as amended). \<open>validateSession\<close> is not a pure query: for a session that is active,
  has a non-empty topic and whose \<open>lastActivity\<close> is more than 24 hours old, it returns
  \<open>false\<close> and leaves the session with \<open>isActive = false\<close>. So when such a session is in
  the registry under \<open>uid\<close>, \<open>isConnected(uid)\<close> and \<open>getSession(uid)\<close> answer \<open>false\<close> and
  \<open>null\<close> and leave a registry that differs from the one they found.
\<close>

theorem validateSession_not_pure:
  assumes "map_of (userSessions sdk) uid = Some session"
    and "isActive session" and "truthy (topic session)"
    and "maxAge < now - lastActivity session"
  shows "validateSession now session = (False, session \<lparr> isActive := False \<rparr>)
       \<and> isConnected now sdk uid
           = (False, sdk \<lparr> userSessions :=
                 AList.update uid (session \<lparr> isActive := False \<rparr>) (userSessions sdk) \<rparr>)
       \<and> getSession now sdk uid
           = (None, sdk \<lparr> userSessions :=
                 AList.update uid (session \<lparr> isActive := False \<rparr>) (userSessions sdk) \<rparr>)
       \<and> userSessions (snd (isConnected now sdk uid)) \<noteq> userSessions sdk
       \<and> userSessions (snd (getSession now sdk uid)) \<noteq> userSessions sdk"
proof -
  have v: "validateSession now session = (False, session \<lparr> isActive := False \<rparr>)"
    using assms by (simp add: validateSession_expired)
  have "isActive (session \<lparr> isActive := False \<rparr>) \<noteq> isActive session"
    using assms(2) by simp
  then have ne: "session \<lparr> isActive := False \<rparr> \<noteq> session"
    by metis
  have ch: "AList.update uid (session \<lparr> isActive := False \<rparr>) (userSessions sdk) \<noteq> userSessions sdk"
    using update_changes_map [OF assms(1) ne] .
  have c: "isConnected now sdk uid
           = (False, sdk \<lparr> userSessions :=
                 AList.update uid (session \<lparr> isActive := False \<rparr>) (userSessions sdk) \<rparr>)"
    using assms(1) v by (simp add: isConnected_def validateStored_def)
  have g: "getSession now sdk uid
           = (None, sdk \<lparr> userSessions :=
                 AList.update uid (session \<lparr> isActive := False \<rparr>) (userSessions sdk) \<rparr>)"
    using assms(1) v by (simp add: getSession_def validateStored_def)
  show ?thesis using v c g ch by simp
qed

theorem validateSession_not_pure_witness:
  "map_of (userSessions (sdkWith (approvedSession ''u1'' 0))) ''u1'' = Some (approvedSession ''u1'' 0)
   \<and> isActive (approvedSession ''u1'' 0) \<and> truthy (topic (approvedSession ''u1'' 0))
   \<and> maxAge < 25 * hour - lastActivity (approvedSession ''u1'' 0)
   \<and> fst (isConnected (25 * hour) (sdkWith (approvedSession ''u1'' 0)) ''u1'') = False
   \<and> map_of (userSessions (snd (isConnected (25 * hour) (sdkWith (approvedSession ''u1'' 0)) ''u1''))) ''u1''
       = Some ((approvedSession ''u1'' 0) \<lparr> isActive := False \<rparr>)"
proof -
  have h1: "map_of (userSessions (sdkWith (approvedSession ''u1'' 0))) ''u1'' = Some (approvedSession ''u1'' 0)"
    by (simp add: sdkWith_def approvedSession_def)
  have h2: "isActive (approvedSession ''u1'' 0)"
    by (simp add: approvedSession_def)
  have h3: "truthy (topic (approvedSession ''u1'' 0))"
    by (simp add: approvedSession_def truthy_def)
  have h4: "maxAge < 25 * hour - lastActivity (approvedSession ''u1'' 0)"
    by (simp add: approvedSession_def maxAge_def hour_def)
  note c = validateSession_not_pure [OF h1 h2 h3 h4]
  have c2: "isConnected (25 * hour) (sdkWith (approvedSession ''u1'' 0)) ''u1''
           = (False, (sdkWith (approvedSession ''u1'' 0)) \<lparr> userSessions :=
                 AList.update ''u1'' ((approvedSession ''u1'' 0) \<lparr> isActive := False \<rparr>)
                   (userSessions (sdkWith (approvedSession ''u1'' 0))) \<rparr>)"
    using c by (rule conjunct1 [OF conjunct2])
  have e: "map_of (userSessions (snd (isConnected (25 * hour) (sdkWith (approvedSession ''u1'' 0)) ''u1''))) ''u1''
       = Some ((approvedSession ''u1'' 0) \<lparr> isActive := False \<rparr>)"
    unfolding c2 by (simp add: update_conv)
  have f: "fst (isConnected (25 * hour) (sdkWith (approvedSession ''u1'' 0)) ''u1'') = False"
    unfolding c2 by simp
  from h1 h2 h3 h4 e f show ?thesis by (intro conjI)
qed

text \<open>
  The claim as stated fails for an active session without a topic: however old it is,
  \<open>validateSession\<close> returns \<open>false\<close> at the topic check and leaves \<open>isActive\<close> as it was.
\<close>

theorem validateSession_no_topic_counterexample:
  "maxAge < 25 * hour - lastActivity ((approvedSession ''u1'' 0) \<lparr> topic := None \<rparr>)
   \<and> validateSession (25 * hour) ((approvedSession ''u1'' 0) \<lparr> topic := None \<rparr>)
       = (False, (approvedSession ''u1'' 0) \<lparr> topic := None \<rparr>)
   \<and> isActive (snd (validateSession (25 * hour) ((approvedSession ''u1'' 0) \<lparr> topic := None \<rparr>)))"
  by (simp add: validateSession_def approvedSession_def truthy_def maxAge_def hour_def)

section \<open>Properties of the database sweep\<close>

lemma fold_delete_sessions:
  "fold (\<lambda>(uid, session) db'.
           if P session then db' \<lparr> sessions := AList.delete uid (sessions db') \<rparr> else db') xs db
   = db \<lparr> sessions := filter (\<lambda>(uid, session). uid \<notin> fst ` {x \<in> set xs. P (snd x)}) (sessions db) \<rparr>"
proof (induction xs arbitrary: db)
  case Nil
  then show ?case by simp
next
  case (Cons x xs)
  obtain uid session where x: "x = (uid, session)" by (cases x)
  show ?case
  proof (cases "P session")
    case True
    have "{y \<in> set (x # xs). P (snd y)} = insert x {y \<in> set xs. P (snd y)}"
      using True x by auto
    then have "fst ` {y \<in> set (x # xs). P (snd y)} = insert uid (fst ` {y \<in> set xs. P (snd y)})"
      using x by simp
    then have "filter (\<lambda>(u, s). u \<notin> fst ` {y \<in> set xs. P (snd y)}) (AList.delete uid (sessions db))
        = filter (\<lambda>(u, s). u \<notin> fst ` {y \<in> set (x # xs). P (snd y)}) (sessions db)"
      by (auto simp: AList.delete_eq intro!: filter_cong)
    then show ?thesis using True x Cons.IH by simp
  next
    case False
    have "{y \<in> set (x # xs). P (snd y)} = {y \<in> set xs. P (snd y)}"
      using False x by auto
    then show ?thesis using False x Cons.IH by simp
  qed
qed

lemma filter_by_key_distinct:
  assumes "distinct (map fst xs)"
  shows "filter (\<lambda>(uid, session). uid \<notin> fst ` {x \<in> set xs. P (snd x)}) xs
       = filter (\<lambda>(uid, session). \<not> P session) xs"
proof (rule filter_cong [OF refl])
  fix x assume x: "x \<in> set xs"
  obtain uid session where p: "x = (uid, session)" by (cases x)
  have "uid \<in> fst ` {y \<in> set xs. P (snd y)} \<longleftrightarrow> P session"
  proof
    assume "uid \<in> fst ` {y \<in> set xs. P (snd y)}"
    then obtain s' where s': "(uid, s') \<in> set xs" "P s'" by force
    from assms x p s'(1) have "s' = session"
      by (meson eq_key_imp_eq_value)
    with s'(2) show "P session" by simp
  next
    assume "P session"
    with x p show "uid \<in> fst ` {y \<in> set xs. P (snd y)}" by force
  qed
  then show "(case x of (uid, session) \<Rightarrow> uid \<notin> fst ` {y \<in> set xs. P (snd y)})
           = (case x of (uid, session) \<Rightarrow> \<not> P session)"
    using p by simp
qed

text \<open>
  C5 (as amended). \<open>SimpleDatabase.cleanupExpiredSessions()\<close> takes no maximum age: the
  age limit is the fixed 24 hours. On a store with one record per user id it deletes
  exactly the records whose \<open>lastActivity\<close> precedes \<open>now - 24h\<close>, leaves every other record
  as it is and in place, and resolves with nothing (no count).
\<close>

theorem cleanupExpiredSessions_exact:
  assumes "distinct (map fst (sessions db))"
  shows "cleanupExpiredSessions now db
       = (Undefined,
          db \<lparr> sessions := filter (\<lambda>(uid, session). \<not> lastActivity session < now - maxAge)
                              (sessions db) \<rparr>)"
proof -
  have "filter (\<lambda>(uid, session). \<not> now - lastActivity session > maxAge) (sessions db)
      = filter (\<lambda>(uid, session). \<not> lastActivity session < now - maxAge) (sessions db)"
    by (rule filter_cong) auto
  then show ?thesis
    unfolding cleanupExpiredSessions_def
    using filter_by_key_distinct [OF assms, of "\<lambda>session. now - lastActivity session > maxAge"]
    by (simp add: fold_delete_sessions)
qed

theorem cleanupExpiredSessions_exact_witness:
  "distinct (map fst (sessions threeSessions))
   \<and> cleanupExpiredSessions sweepNow threeSessions
       = (Undefined, threeSessions \<lparr> sessions := [(''fresh'', approvedSession ''fresh'' (sweepNow - 1))] \<rparr>)"
proof -
  have d: "distinct (map fst (sessions threeSessions))"
    by (simp add: threeSessions_def)
  have f: "filter (\<lambda>(uid, session). \<not> lastActivity session < sweepNow - maxAge) (sessions threeSessions)
         = [(''fresh'', approvedSession ''fresh'' (sweepNow - 1))]"
    by (simp add: threeSessions_def approvedSession_def sweepNow_def hour_def maxAge_def)
  show ?thesis
    using d cleanupExpiredSessions_exact [OF d, of sweepNow] by (simp only: f)
qed

text \<open>
  The claim as stated fails on the return value: in the scenario of the three sessions
  the sweep removes the two old ones and resolves with \<open>undefined\<close>, not with \<open>2\<close>.
\<close>

theorem cleanupExpiredSessions_count_counterexample:
  "fst (cleanupExpiredSessions sweepNow threeSessions) \<noteq> Number 2
   \<and> map fst (sessions (snd (cleanupExpiredSessions sweepNow threeSessions))) = [''fresh'']"
  by (simp add: cleanupExpiredSessions_def threeSessions_def approvedSession_def sweepNow_def
        hour_def maxAge_def)

section \<open>Properties of the operations through a session\<close>

lemma validateSession_True:
  "fst (validateSession now session) \<Longrightarrow> validateSession now session = (True, session)"
  by (simp add: validateSession_def Let_def split: if_splits)

lemma getSession_frame:
  "wire (snd (getSession now sdk uid)) = wire sdk"
  "database (snd (getSession now sdk uid)) = database sdk"
  "timeoutManager (snd (getSession now sdk uid)) = timeoutManager sdk"
  "emitted (snd (getSession now sdk uid)) = emitted sdk"
  by (simp_all add: getSession_def validateStored_def split: option.splits prod.splits)

lemma getSession_Some:
  assumes "fst (getSession now sdk uid) = Some session"
  shows "snd (getSession now sdk uid) = sdk"
    and "map_of (userSessions sdk) uid = Some session"
    and "fst (validateSession now session)"
proof -
  from assms obtain stored where st: "map_of (userSessions sdk) uid = Some stored"
    by (auto simp: getSession_def split: option.splits)
  from assms st have v: "fst (validateSession now stored)" and s: "snd (validateSession now stored) = session"
    by (auto simp: getSession_def validateStored_def split: prod.splits if_splits)
  from v s have eq: "stored = session" by (simp add: validateSession_valid)
  with st show "map_of (userSessions sdk) uid = Some session" by simp
  from v eq show "fst (validateSession now session)" by simp
  have "AList.update uid session (userSessions sdk) = userSessions sdk"
    using st eq by (simp add: update_triv)
  with st eq validateSession_True [OF v] show "snd (getSession now sdk uid) = sdk"
    by (simp add: getSession_def validateStored_def)
qed

text \<open>Every operation leaves the registry as its \<open>getSession\<close> call left it.\<close>

lemma sendTransaction_registry:
  "userSessions (snd (sendTransaction now env sdk req))
     = userSessions (snd (getSession now sdk (tx_userId req)))"
  by (simp add: sendTransaction_def tx_failed_def emit_def sendRequest_def Let_def
        split: prod.splits option.splits promise.splits settled.splits)

lemma signMessage_registry:
  "userSessions (snd (signMessage now env sdk req))
     = userSessions (snd (getSession now sdk (sm_userId req)))"
  by (simp add: signMessage_def sign_failed_def sign_done_def emit_def sendRequest_def Let_def
        split: prod.splits option.splits promise.splits settled.splits)

lemma signTypedData_registry:
  "userSessions (snd (signTypedData now env sdk req))
     = userSessions (snd (getSession now sdk (st_userId req)))"
  by (simp add: signTypedData_def sign_failed_def sign_done_def emit_def sendRequest_def Let_def
        split: prod.splits option.splits promise.splits settled.splits sum.splits)

lemma callContract_registry:
  "userSessions (snd (callContract now env sdk req))
     = userSessions (snd (getSession now sdk (cc_userId req)))"
  by (simp add: callContract_def call_failed_def emit_def sendRequest_def Let_def
        split: prod.splits option.splits promise.splits settled.splits sum.splits)

lemma readContract_registry:
  "userSessions (snd (readContract now env sdk req))
     = userSessions (snd (getSession now sdk (rd_userId req)))"
  by (simp add: readContract_def read_failed_def sendRequest_def Let_def
        split: prod.splits option.splits promise.splits settled.splits sum.splits)

lemma estimateGas_registry:
  "userSessions (snd (estimateGas now env sdk req))
     = userSessions (snd (getSession now sdk (cc_userId req)))"
  by (simp add: estimateGas_def gas_failed_def sendRequest_def Let_def
        split: prod.splits option.splits settled.splits sum.splits)

text \<open>An operation that reports success found a valid session.\<close>

lemma sendTransaction_success:
  "fst (sendTransaction now env sdk req) = Some r \<Longrightarrow> t_success r \<Longrightarrow>
     \<exists>session. fst (getSession now sdk (tx_userId req)) = Some session"
  by (auto simp: sendTransaction_def tx_failed_def withTopic_def Let_def
        split: prod.splits option.splits promise.splits settled.splits if_splits)

lemma signMessage_success:
  "fst (signMessage now env sdk req) = Some r \<Longrightarrow> s_success r \<Longrightarrow>
     \<exists>session. fst (getSession now sdk (sm_userId req)) = Some session"
  by (auto simp: signMessage_def sign_failed_def sign_done_def withTopic_def Let_def
        split: prod.splits option.splits promise.splits settled.splits if_splits)

lemma signTypedData_success:
  "fst (signTypedData now env sdk req) = Some r \<Longrightarrow> s_success r \<Longrightarrow>
     \<exists>session. fst (getSession now sdk (st_userId req)) = Some session"
  by (auto simp: signTypedData_def sign_failed_def sign_done_def withTopic_def Let_def
        split: prod.splits option.splits promise.splits settled.splits if_splits sum.splits)

lemma callContract_success:
  "fst (callContract now env sdk req) = Some r \<Longrightarrow> k_success r \<Longrightarrow>
     \<exists>session. fst (getSession now sdk (cc_userId req)) = Some session"
  by (auto simp: callContract_def call_failed_def withTopic_def Let_def
        split: prod.splits option.splits promise.splits settled.splits if_splits sum.splits)

lemma readContract_success:
  "fst (readContract now env sdk req) = Some r \<Longrightarrow> r_success r \<Longrightarrow>
     \<exists>session. fst (getSession now sdk (rd_userId req)) = Some session"
  by (auto simp: readContract_def read_failed_def withTopic_def Let_def
        split: prod.splits option.splits promise.splits settled.splits if_splits sum.splits)

lemma estimateGas_success:
  "fst (estimateGas now env sdk req) = Some r \<Longrightarrow> g_success r \<Longrightarrow>
     \<exists>session. fst (getSession now sdk (cc_userId req)) = Some session"
  by (auto simp: estimateGas_def gas_failed_def withTopic_def Let_def
        split: prod.splits option.splits settled.splits if_splits sum.splits)

text \<open>
  C3. Each of \<open>sendTransaction\<close>, \<open>signMessage\<close>, \<open>signTypedData\<close>, \<open>callContract\<close>,
  \<open>readContract\<close> and \<open>estimateGas\<close>, called for a user for whom \<open>getSession\<close> finds no
  valid session, resolves (it does not stay pending and does not reject) with
  \<open>success = false\<close> and the message \<open>User not connected\<close>, and makes no call on a
  protocol client: the log of calls is what it was.
\<close>

theorem facade_not_connected:
  "(fst (getSession now sdk (tx_userId tx)) = None \<longrightarrow>
      fst (sendTransaction now env sdk tx)
        = Some \<lparr> t_success = False, t_hash = None, t_error = Some ''User not connected'' \<rparr>
      \<and> wire (snd (sendTransaction now env sdk tx)) = wire sdk)
   \<and> (fst (getSession now sdk (sm_userId sm)) = None \<longrightarrow>
      fst (signMessage now env sdk sm)
        = Some \<lparr> s_success = False, s_signature = None, s_error = Some ''User not connected'' \<rparr>
      \<and> wire (snd (signMessage now env sdk sm)) = wire sdk)
   \<and> (fst (getSession now sdk (st_userId st)) = None \<longrightarrow>
      fst (signTypedData now env sdk st)
        = Some \<lparr> s_success = False, s_signature = None, s_error = Some ''User not connected'' \<rparr>
      \<and> wire (snd (signTypedData now env sdk st)) = wire sdk)
   \<and> (fst (getSession now sdk (cc_userId cc)) = None \<longrightarrow>
      fst (callContract now env sdk cc)
        = Some \<lparr> k_success = False, k_hash = None, k_error = Some ''User not connected'' \<rparr>
      \<and> wire (snd (callContract now env sdk cc)) = wire sdk)
   \<and> (fst (getSession now sdk (rd_userId rd)) = None \<longrightarrow>
      fst (readContract now env sdk rd)
        = Some \<lparr> r_success = False, r_data = None, r_error = Some ''User not connected'' \<rparr>
      \<and> wire (snd (readContract now env sdk rd)) = wire sdk)
   \<and> (fst (getSession now sdk (cc_userId cc)) = None \<longrightarrow>
      fst (estimateGas now env sdk cc)
        = Some \<lparr> g_success = False, g_gas = None, g_error = Some ''User not connected'' \<rparr>
      \<and> wire (snd (estimateGas now env sdk cc)) = wire sdk)"
proof -
  have none: "\<And>uid. fst (getSession now sdk uid) = None \<Longrightarrow>
      \<exists>sdk1. getSession now sdk uid = (None, sdk1) \<and> wire sdk1 = wire sdk"
  proof -
    fix uid assume "fst (getSession now sdk uid) = None"
    then have "getSession now sdk uid = (None, snd (getSession now sdk uid))"
      by (metis prod.collapse)
    then show "\<exists>sdk1. getSession now sdk uid = (None, sdk1) \<and> wire sdk1 = wire sdk"
      using getSession_frame(1) by blast
  qed
  have 1: "fst (getSession now sdk (tx_userId tx)) = None \<longrightarrow>
      fst (sendTransaction now env sdk tx)
        = Some \<lparr> t_success = False, t_hash = None, t_error = Some ''User not connected'' \<rparr>
      \<and> wire (snd (sendTransaction now env sdk tx)) = wire sdk"
    using none [of "tx_userId tx"]
    by (auto simp: sendTransaction_def withTopic_def tx_failed_def notConnected_def emit_def)
  have 2: "fst (getSession now sdk (sm_userId sm)) = None \<longrightarrow>
      fst (signMessage now env sdk sm)
        = Some \<lparr> s_success = False, s_signature = None, s_error = Some ''User not connected'' \<rparr>
      \<and> wire (snd (signMessage now env sdk sm)) = wire sdk"
    using none [of "sm_userId sm"]
    by (auto simp: signMessage_def withTopic_def sign_failed_def notConnected_def emit_def)
  have 3: "fst (getSession now sdk (st_userId st)) = None \<longrightarrow>
      fst (signTypedData now env sdk st)
        = Some \<lparr> s_success = False, s_signature = None, s_error = Some ''User not connected'' \<rparr>
      \<and> wire (snd (signTypedData now env sdk st)) = wire sdk"
    using none [of "st_userId st"]
    by (auto simp: signTypedData_def withTopic_def sign_failed_def notConnected_def emit_def)
  have 4: "fst (getSession now sdk (cc_userId cc)) = None \<longrightarrow>
      fst (callContract now env sdk cc)
        = Some \<lparr> k_success = False, k_hash = None, k_error = Some ''User not connected'' \<rparr>
      \<and> wire (snd (callContract now env sdk cc)) = wire sdk"
    using none [of "cc_userId cc"]
    by (auto simp: callContract_def withTopic_def call_failed_def notConnected_def emit_def)
  have 5: "fst (getSession now sdk (rd_userId rd)) = None \<longrightarrow>
      fst (readContract now env sdk rd)
        = Some \<lparr> r_success = False, r_data = None, r_error = Some ''User not connected'' \<rparr>
      \<and> wire (snd (readContract now env sdk rd)) = wire sdk"
    using none [of "rd_userId rd"]
    by (auto simp: readContract_def withTopic_def read_failed_def notConnected_def)
  have 6: "fst (getSession now sdk (cc_userId cc)) = None \<longrightarrow>
      fst (estimateGas now env sdk cc)
        = Some \<lparr> g_success = False, g_gas = None, g_error = Some ''User not connected'' \<rparr>
      \<and> wire (snd (estimateGas now env sdk cc)) = wire sdk"
    using none [of "cc_userId cc"]
    by (auto simp: estimateGas_def withTopic_def gas_failed_def notConnected_def)
  from 1 2 3 4 5 6 show ?thesis by (intro conjI)
qed

theorem facade_not_connected_witness:
  "fst (getSession 5 (sdkWith (pendingSession ''u1'' 0)) ''u1'') = None
   \<and> fst (sendTransaction 5 allGood (sdkWith (pendingSession ''u1'' 0)) txReq)
       = Some \<lparr> t_success = False, t_hash = None, t_error = Some ''User not connected'' \<rparr>
   \<and> wire (snd (sendTransaction 5 allGood (sdkWith (pendingSession ''u1'' 0)) txReq)) = [WInit 0]
   \<and> fst (signMessage 5 allGood (sdkWith (pendingSession ''u1'' 0)) smReq)
       = Some \<lparr> s_success = False, s_signature = None, s_error = Some ''User not connected'' \<rparr>
   \<and> fst (signTypedData 5 allGood (sdkWith (pendingSession ''u1'' 0)) stReq)
       = Some \<lparr> s_success = False, s_signature = None, s_error = Some ''User not connected'' \<rparr>
   \<and> fst (callContract 5 allGood (sdkWith (pendingSession ''u1'' 0)) ccReq)
       = Some \<lparr> k_success = False, k_hash = None, k_error = Some ''User not connected'' \<rparr>
   \<and> fst (readContract 5 allGood (sdkWith (pendingSession ''u1'' 0)) rdReq)
       = Some \<lparr> r_success = False, r_data = None, r_error = Some ''User not connected'' \<rparr>
   \<and> fst (estimateGas 5 allGood (sdkWith (pendingSession ''u1'' 0)) ccReq)
       = Some \<lparr> g_success = False, g_gas = None, g_error = Some ''User not connected'' \<rparr>
   \<and> wire (snd (estimateGas 5 allGood (sdkWith (pendingSession ''u1'' 0)) ccReq)) = [WInit 0]"
proof -
  have h: "fst (getSession 5 (sdkWith (pendingSession ''u1'' 0)) ''u1'') = None"
    by (simp add: getSession_def validateStored_def validateSession_def sdkWith_def pendingSession_def)
  have u: "tx_userId txReq = ''u1''" "sm_userId smReq = ''u1''" "st_userId stReq = ''u1''"
    "cc_userId ccReq = ''u1''" "rd_userId rdReq = ''u1''"
    by (simp_all add: txReq_def smReq_def stReq_def ccReq_def rdReq_def)
  have w: "wire (sdkWith (pendingSession ''u1'' 0)) = [WInit 0]"
    by (simp add: sdkWith_def)
  note c = facade_not_connected [where now = 5 and sdk = "sdkWith (pendingSession ''u1'' 0)"
      and env = allGood and tx = txReq and sm = smReq and st = stReq and cc = ccReq and rd = rdReq,
      unfolded u w]
  from c h show ?thesis by blast
qed

text \<open>The six operations on the SDK that tracks the approved session of \<open>u1\<close>.\<close>

lemma approved_truthy: "truthy (topic (approvedSession uid t))"
  by (simp add: approvedSession_def truthy_def)

lemma approved_getSession:
  "getSession 1000 (sdkWith (approvedSession ''u1'' 0)) ''u1''
     = (Some (approvedSession ''u1'' 0), sdkWith (approvedSession ''u1'' 0))"
  by (simp add: getSession_def validateStored_def validateSession_def sdkWith_def
        approvedSession_def truthy_def maxAge_def)

lemma approved_sendTransaction:
  "fst (sendTransaction 1000 allGood (sdkWith (approvedSession ''u1'' 0)) txReq)
     = Some \<lparr> t_success = True, t_hash = Some ''0xresult'', t_error = None \<rparr>"
  by (simp add: sendTransaction_def approved_getSession txReq_def withTopic_def
        approved_truthy allGood_def Let_def)

lemma approved_signMessage:
  "fst (signMessage 1000 allGood (sdkWith (approvedSession ''u1'' 0)) smReq)
     = Some \<lparr> s_success = True, s_signature = Some ''0xresult'', s_error = None \<rparr>"
  by (simp add: signMessage_def approved_getSession smReq_def withTopic_def sign_done_def
        approved_truthy allGood_def Let_def)

lemma approved_signTypedData:
  "fst (signTypedData 1000 allGood (sdkWith (approvedSession ''u1'' 0)) stReq)
     = Some \<lparr> s_success = True, s_signature = Some ''0xresult'', s_error = None \<rparr>"
  by (simp add: signTypedData_def approved_getSession stReq_def withTopic_def sign_done_def
        approved_truthy allGood_def Let_def)

lemma approved_callContract:
  "fst (callContract 1000 allGood (sdkWith (approvedSession ''u1'' 0)) ccReq)
     = Some \<lparr> k_success = True, k_hash = Some ''0xresult'', k_error = None \<rparr>"
  by (simp add: callContract_def approved_getSession ccReq_def withTopic_def
        approved_truthy allGood_def Let_def)

lemma approved_readContract:
  "fst (readContract 1000 allGood (sdkWith (approvedSession ''u1'' 0)) rdReq)
     = Some \<lparr> r_success = True, r_data = Some ''decoded'', r_error = None \<rparr>"
  by (simp add: readContract_def approved_getSession rdReq_def withTopic_def
        approved_truthy allGood_def Let_def)

lemma approved_gasTimeout:
  "gasEstimation (timeouts (timeoutManager (sdkWith session))) = 15000"
  by (simp add: sdkWith_def SDK_new_def TimeoutManager_new_def exampleOptions_def spread_def
        DEFAULT_TIMEOUTS_def no_overrides_def)

lemma approved_estimateGas:
  "fst (estimateGas 1000 allGood (sdkWith (approvedSession ''u1'' 0)) ccReq)
     = Some \<lparr> g_success = True, g_gas = Some 21000, g_error = None \<rparr>"
  by (simp add: estimateGas_def approved_getSession ccReq_def withTopic_def
        approved_truthy allGood_def Let_def waitForGasEstimation_def
        waitForUserInteraction_def createTimeout_def race_def sendRequest_def
        deadline_first_def setTimeout_delay_def plainRuntime_def
        approved_gasTimeout split: prod.splits)

text \<open>
  C6 (as amended). A successful \<open>sendTransaction\<close>, \<open>signMessage\<close>, \<open>signTypedData\<close>,
  \<open>callContract\<close>, \<open>readContract\<close> or \<open>estimateGas\<close> leaves the registry exactly as it was:
  no field of the session is written, \<open>lastActivity\<close> included.
\<close>

theorem facade_success_registry_unchanged:
  "(fst (sendTransaction now env sdk tx) = Some r1 \<and> t_success r1 \<longrightarrow>
      userSessions (snd (sendTransaction now env sdk tx)) = userSessions sdk)
   \<and> (fst (signMessage now env sdk sm) = Some r2 \<and> s_success r2 \<longrightarrow>
      userSessions (snd (signMessage now env sdk sm)) = userSessions sdk)
   \<and> (fst (signTypedData now env sdk st) = Some r3 \<and> s_success r3 \<longrightarrow>
      userSessions (snd (signTypedData now env sdk st)) = userSessions sdk)
   \<and> (fst (callContract now env sdk cc) = Some r4 \<and> k_success r4 \<longrightarrow>
      userSessions (snd (callContract now env sdk cc)) = userSessions sdk)
   \<and> (fst (readContract now env sdk rd) = Some r5 \<and> r_success r5 \<longrightarrow>
      userSessions (snd (readContract now env sdk rd)) = userSessions sdk)
   \<and> (fst (estimateGas now env sdk cc) = Some r6 \<and> g_success r6 \<longrightarrow>
      userSessions (snd (estimateGas now env sdk cc)) = userSessions sdk)"
proof -
  have same: "\<And>uid. \<exists>session. fst (getSession now sdk uid) = Some session \<Longrightarrow>
      userSessions (snd (getSession now sdk uid)) = userSessions sdk"
    using getSession_Some(1) by auto
  have 1: "fst (sendTransaction now env sdk tx) = Some r1 \<and> t_success r1 \<longrightarrow>
      userSessions (snd (sendTransaction now env sdk tx)) = userSessions sdk"
    using sendTransaction_success [of now env sdk tx r1] same [of "tx_userId tx"]
    by (simp add: sendTransaction_registry)
  have 2: "fst (signMessage now env sdk sm) = Some r2 \<and> s_success r2 \<longrightarrow>
      userSessions (snd (signMessage now env sdk sm)) = userSessions sdk"
    using signMessage_success [of now env sdk sm r2] same [of "sm_userId sm"]
    by (simp add: signMessage_registry)
  have 3: "fst (signTypedData now env sdk st) = Some r3 \<and> s_success r3 \<longrightarrow>
      userSessions (snd (signTypedData now env sdk st)) = userSessions sdk"
    using signTypedData_success [of now env sdk st r3] same [of "st_userId st"]
    by (simp add: signTypedData_registry)
  have 4: "fst (callContract now env sdk cc) = Some r4 \<and> k_success r4 \<longrightarrow>
      userSessions (snd (callContract now env sdk cc)) = userSessions sdk"
    using callContract_success [of now env sdk cc r4] same [of "cc_userId cc"]
    by (simp add: callContract_registry)
  have 5: "fst (readContract now env sdk rd) = Some r5 \<and> r_success r5 \<longrightarrow>
      userSessions (snd (readContract now env sdk rd)) = userSessions sdk"
    using readContract_success [of now env sdk rd r5] same [of "rd_userId rd"]
    by (simp add: readContract_registry)
  have 6: "fst (estimateGas now env sdk cc) = Some r6 \<and> g_success r6 \<longrightarrow>
      userSessions (snd (estimateGas now env sdk cc)) = userSessions sdk"
    using estimateGas_success [of now env sdk cc r6] same [of "cc_userId cc"]
    by (simp add: estimateGas_registry)
  from 1 2 3 4 5 6 show ?thesis by (intro conjI)
qed

theorem facade_success_registry_unchanged_witness:
  "fst (sendTransaction 1000 allGood (sdkWith (approvedSession ''u1'' 0)) txReq)
       = Some \<lparr> t_success = True, t_hash = Some ''0xresult'', t_error = None \<rparr>
   \<and> userSessions (snd (sendTransaction 1000 allGood (sdkWith (approvedSession ''u1'' 0)) txReq))
       = [(''u1'', approvedSession ''u1'' 0)]
   \<and> userSessions (snd (signMessage 1000 allGood (sdkWith (approvedSession ''u1'' 0)) smReq))
       = [(''u1'', approvedSession ''u1'' 0)]
   \<and> userSessions (snd (signTypedData 1000 allGood (sdkWith (approvedSession ''u1'' 0)) stReq))
       = [(''u1'', approvedSession ''u1'' 0)]
   \<and> userSessions (snd (callContract 1000 allGood (sdkWith (approvedSession ''u1'' 0)) ccReq))
       = [(''u1'', approvedSession ''u1'' 0)]
   \<and> userSessions (snd (readContract 1000 allGood (sdkWith (approvedSession ''u1'' 0)) rdReq))
       = [(''u1'', approvedSession ''u1'' 0)]
   \<and> userSessions (snd (estimateGas 1000 allGood (sdkWith (approvedSession ''u1'' 0)) ccReq))
       = [(''u1'', approvedSession ''u1'' 0)]"
proof -
  have u: "userSessions (sdkWith (approvedSession ''u1'' 0)) = [(''u1'', approvedSession ''u1'' 0)]"
    by (simp add: sdkWith_def approvedSession_def)
  note c = facade_success_registry_unchanged
    [where now = 1000 and env = allGood and sdk = "sdkWith (approvedSession ''u1'' 0)"
       and tx = txReq and sm = smReq and st = stReq and cc = ccReq and rd = rdReq
       and ?r1.0 = "\<lparr> t_success = True, t_hash = Some ''0xresult'', t_error = None \<rparr>"
       and ?r2.0 = "\<lparr> s_success = True, s_signature = Some ''0xresult'', s_error = None \<rparr>"
       and ?r3.0 = "\<lparr> s_success = True, s_signature = Some ''0xresult'', s_error = None \<rparr>"
       and ?r4.0 = "\<lparr> k_success = True, k_hash = Some ''0xresult'', k_error = None \<rparr>"
       and ?r5.0 = "\<lparr> r_success = True, r_data = Some ''decoded'', r_error = None \<rparr>"
       and ?r6.0 = "\<lparr> g_success = True, g_gas = Some 21000, g_error = None \<rparr>",
     unfolded u]
  have s1: "t_success \<lparr> t_success = True, t_hash = Some ''0xresult'', t_error = None \<rparr>"
    and s2: "s_success \<lparr> s_success = True, s_signature = Some ''0xresult'', s_error = None \<rparr>"
    and s4: "k_success \<lparr> k_success = True, k_hash = Some ''0xresult'', k_error = None \<rparr>"
    and s5: "r_success \<lparr> r_success = True, r_data = Some ''decoded'', r_error = None \<rparr>"
    and s6: "g_success \<lparr> g_success = True, g_gas = Some 21000, g_error = None \<rparr>"
    by simp_all
  from c approved_sendTransaction approved_signMessage approved_signTypedData
    approved_callContract approved_readContract approved_estimateGas s1 s2 s4 s5 s6
  show ?thesis by blast
qed

text \<open>
  The claim as stated fails: a transaction sent successfully at time 1000 through a
  session whose \<open>lastActivity\<close> is 0 leaves that \<open>lastActivity\<close> at 0.
\<close>

theorem sendTransaction_lastActivity_counterexample:
  "fst (sendTransaction 1000 allGood (sdkWith (approvedSession ''u1'' 0)) txReq)
       = Some \<lparr> t_success = True, t_hash = Some ''0xresult'', t_error = None \<rparr>
   \<and> map_option lastActivity
         (map_of (userSessions (snd (sendTransaction 1000 allGood (sdkWith (approvedSession ''u1'' 0)) txReq)))
            ''u1'') = Some 0"
  by (simp add: sendTransaction_def approved_getSession txReq_def withTopic_def
        approved_truthy allGood_def Let_def sendRequest_def emit_def)
    (simp add: sdkWith_def approvedSession_def)

section \<open>Properties of connect and disconnect\<close>

lemma getSession_None_iff:
  "fst (getSession now sdk uid) = None \<longleftrightarrow>
     (case map_of (userSessions sdk) uid of
        None \<Rightarrow> True
      | Some session \<Rightarrow>
          \<not> (isActive session \<and> truthy (topic session) \<and> now - lastActivity session \<le> maxAge))"
  by (auto simp: getSession_def validateStored_def validateSession_def Let_def split: option.splits)

lemma createClient_registry:
  "userSessions (snd (createWalletConnectClient i sdk)) = userSessions sdk"
  by (simp add: createWalletConnectClient_def split: promise.splits settled.splits)

lemma connect_new_distinct:
  "distinct (map fst (userSessions sdk)) \<Longrightarrow>
     distinct (map fst (userSessions (snd (connect_new now env sdk request))))"
  using createClient_registry [of "init_result env" sdk]
  by (auto simp: connect_new_def connect_failed_def emit_def Let_def distinct_update
        split: prod.splits option.splits sum.splits promise.splits settled.splits)

lemma connect_distinct:
  "distinct (map fst (userSessions sdk)) \<Longrightarrow>
     distinct (map fst (userSessions (snd (connect now env sdk request))))"
  by (auto simp: connect_def validateStored_def distinct_update connect_new_distinct
        split: option.splits prod.splits)

lemma connect_existing:
  assumes "fst (getSession now sdk (cr_userId request)) = Some session"
  shows "connect now env sdk request
        = (Some \<lparr> c_success = True, c_uri = Some [], c_qrCode = None,
                  c_topic = Some (orEmpty (topic session)), c_error = None, c_deepLinks = None,
                  c_timeout = Some (getTimeout (timeoutManager sdk) Connection),
                  c_estimatedTime = Some (getTimeout (timeoutManager sdk) Connection) \<rparr>,
           sdk)"
proof -
  note g = getSession_Some [OF assms]
  have v: "validateSession now session = (True, session)"
    using g(3) by (rule validateSession_True)
  have "AList.update (cr_userId request) session (userSessions sdk) = userSessions sdk"
    using g(2) by (simp add: update_triv)
  then show ?thesis
    using g(2) v by (simp add: connect_def validateStored_def)
qed

text \<open>Once the client is created, \<open>connect\<close> makes the handshake call on it, however it ends.\<close>

lemma connect_new_wire:
  assumes "projectId sdk \<noteq> []" and "init_result env = Settles t (Resolve ())"
  shows "wire (snd (connect_new now env sdk request))
       = wire sdk @ [WInit (nextClient sdk),
                     WConnect (nextClient sdk)
                       (case cr_methods request of None \<Rightarrow> default_methods | Some ms \<Rightarrow> ms)
                       (orOne (cr_chainId request))
                       (case cr_events request of None \<Rightarrow> default_events | Some es \<Rightarrow> es)]"
  using assms
  by (simp add: connect_new_def createWalletConnectClient_def connect_failed_def emit_def Let_def
        split: promise.splits settled.splits option.splits sum.splits)

lemma connect_not_valid:
  assumes "fst (getSession now sdk (cr_userId request)) = None"
  shows "connect now env sdk request
       = connect_new now env (snd (getSession now sdk (cr_userId request))) request"
  using assms
  by (auto simp: connect_def getSession_def validateStored_def
        split: option.splits prod.splits if_splits)

lemma getSession_frame_client:
  "projectId (snd (getSession now sdk uid)) = projectId sdk"
  "nextClient (snd (getSession now sdk uid)) = nextClient sdk"
  by (simp_all add: getSession_def validateStored_def split: option.splits prod.splits)

text \<open>
  C1 (as amended). For a user who holds a valid session (active, with a topic, active
  within the last 24 hours), \<open>connect\<close> returns that session's topic, opens no handshake
  and changes nothing, so a second \<open>connect\<close> made while the session is still valid
  returns the same again. For a user without a valid session, which is the case of a
  session still pending, \<open>connect\<close> does not stop there: whenever the protocol client can
  be created, it makes the handshake call on that new client. For any user and any
  state, the registry keeps one entry per user id after \<open>connect\<close>.
\<close>

theorem connect_idempotent:
  "(fst (getSession now sdk (cr_userId request)) = Some session \<longrightarrow>
      connect now env sdk request
        = (Some \<lparr> c_success = True, c_uri = Some [], c_qrCode = None,
                  c_topic = Some (orEmpty (topic session)), c_error = None, c_deepLinks = None,
                  c_timeout = Some (getTimeout (timeoutManager sdk) Connection),
                  c_estimatedTime = Some (getTimeout (timeoutManager sdk) Connection) \<rparr>,
           sdk)
      \<and> (fst (getSession now' sdk (cr_userId request)) = Some session \<longrightarrow>
           connect now' env' (snd (connect now env sdk request)) request
             = connect now env sdk request))
   \<and> (fst (getSession now sdk (cr_userId request)) = None
        \<and> projectId sdk \<noteq> [] \<and> init_result env = Settles t (Resolve ()) \<longrightarrow>
        wire (snd (connect now env sdk request))
          = wire sdk @ [WInit (nextClient sdk),
                        WConnect (nextClient sdk)
                          (case cr_methods request of None \<Rightarrow> default_methods | Some ms \<Rightarrow> ms)
                          (orOne (cr_chainId request))
                          (case cr_events request of None \<Rightarrow> default_events | Some es \<Rightarrow> es)])
   \<and> (distinct (map fst (userSessions sdk)) \<longrightarrow>
        distinct (map fst (userSessions (snd (connect now env sdk request)))))"
proof (intro conjI impI)
  assume n: "fst (getSession now sdk (cr_userId request)) = None
        \<and> projectId sdk \<noteq> [] \<and> init_result env = Settles t (Resolve ())"
  then have p: "projectId (snd (getSession now sdk (cr_userId request))) \<noteq> []"
    by (simp add: getSession_frame_client)
  from n have i: "init_result env = Settles t (Resolve ())" by simp
  from n have "connect now env sdk request
       = connect_new now env (snd (getSession now sdk (cr_userId request))) request"
    by (simp add: connect_not_valid)
  then show "wire (snd (connect now env sdk request))
          = wire sdk @ [WInit (nextClient sdk),
                        WConnect (nextClient sdk)
                          (case cr_methods request of None \<Rightarrow> default_methods | Some ms \<Rightarrow> ms)
                          (orOne (cr_chainId request))
                          (case cr_events request of None \<Rightarrow> default_events | Some es \<Rightarrow> es)]"
    using connect_new_wire [OF p i, of now request]
    by (simp add: getSession_frame getSession_frame_client)
next
  assume a: "fst (getSession now sdk (cr_userId request)) = Some session"
  show "connect now env sdk request
        = (Some \<lparr> c_success = True, c_uri = Some [], c_qrCode = None,
                  c_topic = Some (orEmpty (topic session)), c_error = None, c_deepLinks = None,
                  c_timeout = Some (getTimeout (timeoutManager sdk) Connection),
                  c_estimatedTime = Some (getTimeout (timeoutManager sdk) Connection) \<rparr>,
           sdk)"
    using a by (rule connect_existing)
next
  assume a: "fst (getSession now sdk (cr_userId request)) = Some session"
    and b: "fst (getSession now' sdk (cr_userId request)) = Some session"
  show "connect now' env' (snd (connect now env sdk request)) request = connect now env sdk request"
    by (simp add: connect_existing [OF a] connect_existing [OF b])
next
  assume "distinct (map fst (userSessions sdk))"
  then show "distinct (map fst (userSessions (snd (connect now env sdk request))))"
    by (rule connect_distinct)
qed

theorem connect_idempotent_witness:
  "fst (getSession 1000 (sdkWith (approvedSession ''u1'' 0)) (cr_userId connectReq))
       = Some (approvedSession ''u1'' 0)
   \<and> fst (getSession 2000 (sdkWith (approvedSession ''u1'' 0)) (cr_userId connectReq))
       = Some (approvedSession ''u1'' 0)
   \<and> distinct (map fst (userSessions (sdkWith (approvedSession ''u1'' 0))))
   \<and> map_option c_topic (fst (connect 1000 (handshakeEnv ''wc:a'') (sdkWith (approvedSession ''u1'' 0)) connectReq))
       = Some (Some ''topic-1'')
   \<and> snd (connect 1000 (handshakeEnv ''wc:a'') (sdkWith (approvedSession ''u1'' 0)) connectReq)
       = sdkWith (approvedSession ''u1'' 0)
   \<and> connect 2000 (handshakeEnv ''wc:b'')
        (snd (connect 1000 (handshakeEnv ''wc:a'') (sdkWith (approvedSession ''u1'' 0)) connectReq)) connectReq
       = connect 1000 (handshakeEnv ''wc:a'') (sdkWith (approvedSession ''u1'' 0)) connectReq
   \<and> distinct (map fst (userSessions
        (snd (connect 1000 (handshakeEnv ''wc:a'') (sdkWith (approvedSession ''u1'' 0)) connectReq))))
   \<and> fst (getSession 1 afterFirstConnect (cr_userId connectReq)) = None
   \<and> projectId afterFirstConnect \<noteq> []
   \<and> init_result (handshakeEnv ''wc:b'') = Settles 1 (Resolve ())
   \<and> wire (snd (connect 1 (handshakeEnv ''wc:b'') afterFirstConnect connectReq))
       = [WInit 0, WConnect 0 default_methods 1 default_events,
          WInit 1, WConnect 1 default_methods 1 default_events]"
proof -
  have p1: "fst (getSession 1 afterFirstConnect (cr_userId connectReq)) = None"
    by (simp add: getSession_def validateStored_def validateSession_def afterFirstConnect_def
          pendingSession_def connectReq_def)
  have p2: "projectId afterFirstConnect \<noteq> []"
    by (simp add: afterFirstConnect_def SDK_new_def exampleOptions_def)
  have p3: "init_result (handshakeEnv ''wc:b'') = Settles 1 (Resolve ())"
    by (simp add: handshakeEnv_def)
  have p4: "wire afterFirstConnect = [WInit 0, WConnect 0 default_methods 1 default_events]"
    "nextClient afterFirstConnect = 1" "cr_methods connectReq = None" "cr_events connectReq = None"
    "orOne (cr_chainId connectReq) = 1"
    by (simp_all add: afterFirstConnect_def connectReq_def orOne_def)
  note pend = connect_idempotent [where now = 1 and env = "handshakeEnv ''wc:b''"
      and sdk = afterFirstConnect and request = connectReq and t = 1]
  from pend p1 p2 p3 have w: "wire (snd (connect 1 (handshakeEnv ''wc:b'') afterFirstConnect connectReq))
       = [WInit 0, WConnect 0 default_methods 1 default_events,
          WInit 1, WConnect 1 default_methods 1 default_events]"
    by (simp add: p4)
  have h1: "fst (getSession 1000 (sdkWith (approvedSession ''u1'' 0)) (cr_userId connectReq))
       = Some (approvedSession ''u1'' 0)"
    by (simp add: getSession_def validateStored_def validateSession_def sdkWith_def
          approvedSession_def truthy_def maxAge_def connectReq_def)
  have h2: "fst (getSession 2000 (sdkWith (approvedSession ''u1'' 0)) (cr_userId connectReq))
       = Some (approvedSession ''u1'' 0)"
    by (simp add: getSession_def validateStored_def validateSession_def sdkWith_def
          approvedSession_def truthy_def maxAge_def connectReq_def)
  have h3: "distinct (map fst (userSessions (sdkWith (approvedSession ''u1'' 0))))"
    by (simp add: sdkWith_def)
  note c = connect_idempotent [where now = 1000 and now' = 2000 and env = "handshakeEnv ''wc:a''"
      and env' = "handshakeEnv ''wc:b''" and sdk = "sdkWith (approvedSession ''u1'' 0)"
      and request = connectReq and session = "approvedSession ''u1'' 0"]
  from c h1 have c1: "connect 1000 (handshakeEnv ''wc:a'') (sdkWith (approvedSession ''u1'' 0)) connectReq
        = (Some \<lparr> c_success = True, c_uri = Some [], c_qrCode = None,
                  c_topic = Some (orEmpty (topic (approvedSession ''u1'' 0))), c_error = None,
                  c_deepLinks = None,
                  c_timeout = Some (getTimeout (timeoutManager (sdkWith (approvedSession ''u1'' 0))) Connection),
                  c_estimatedTime = Some (getTimeout (timeoutManager (sdkWith (approvedSession ''u1'' 0))) Connection) \<rparr>,
           sdkWith (approvedSession ''u1'' 0))"
    by blast
  have t: "map_option c_topic (fst (connect 1000 (handshakeEnv ''wc:a'') (sdkWith (approvedSession ''u1'' 0)) connectReq))
       = Some (Some ''topic-1'')"
    unfolding c1 by (simp add: approvedSession_def orEmpty_def)
  have s: "snd (connect 1000 (handshakeEnv ''wc:a'') (sdkWith (approvedSession ''u1'' 0)) connectReq)
       = sdkWith (approvedSession ''u1'' 0)"
    unfolding c1 by simp
  from c h1 h2 have r: "connect 2000 (handshakeEnv ''wc:b'')
        (snd (connect 1000 (handshakeEnv ''wc:a'') (sdkWith (approvedSession ''u1'' 0)) connectReq)) connectReq
       = connect 1000 (handshakeEnv ''wc:a'') (sdkWith (approvedSession ''u1'' 0)) connectReq"
    by blast
  from c h3 have d: "distinct (map fst (userSessions
        (snd (connect 1000 (handshakeEnv ''wc:a'') (sdkWith (approvedSession ''u1'' 0)) connectReq))))"
    by blast
  from h1 h2 h3 t s r d p1 p2 p3 w show ?thesis by (intro conjI)
qed

lemma valid_uri: "\<not> invalid_uri (Some (CHR ''w'' # CHR ''c'' # rest))"
  by (simp add: invalid_uri_def js_space_def)

lemma first_connect:
  "connect 0 (handshakeEnv ''wc:a'') (SDK_new exampleOptions) connectReq
     = (Some \<lparr> c_success = True, c_uri = Some ''wc:a'',
               c_qrCode = Some ''data:image/png;base64,AAAA'', c_topic = Some ''wc:a'',
               c_error = None, c_deepLinks = Some [''metamask://wc?uri=wc:a''],
               c_timeout = Some 30000, c_estimatedTime = Some 30000 \<rparr>,
        afterFirstConnect)"
  by (simp add: connect_def connect_new_def createWalletConnectClient_def generateQRCode_def
        valid_uri handshakeEnv_def connectReq_def SDK_new_def exampleOptions_def
        afterFirstConnect_def pendingSession_def emit_def orOne_def truthy_def orEmpty_def
        TimeoutManager_new_def spread_def DEFAULT_TIMEOUTS_def no_overrides_def Let_def)

lemma second_connect:
  "connect 1 (handshakeEnv ''wc:b'') afterFirstConnect connectReq
     = (Some \<lparr> c_success = True, c_uri = Some ''wc:b'',
               c_qrCode = Some ''data:image/png;base64,AAAA'', c_topic = Some ''wc:b'',
               c_error = None, c_deepLinks = Some [''metamask://wc?uri=wc:b''],
               c_timeout = Some 30000, c_estimatedTime = Some 30000 \<rparr>,
        afterFirstConnect
          \<lparr> userSessions := [(''u1'', (pendingSession ''u1'' 1) \<lparr> wcClient := 1 \<rparr>)],
            database := saveSession SimpleDatabase_new ((pendingSession ''u1'' 1) \<lparr> wcClient := 1 \<rparr>),
            emitted := [\<lparr> ev_type = ''session_connect'', ev_userId = Some ''u1'', ev_success = None \<rparr>,
                        \<lparr> ev_type = ''session_connect'', ev_userId = Some ''u1'', ev_success = None \<rparr>],
            wire := [WInit 0, WConnect 0 default_methods 1 default_events,
                     WInit 1, WConnect 1 default_methods 1 default_events],
            nextClient := 2 \<rparr>)"
  by (simp add: connect_def connect_new_def createWalletConnectClient_def generateQRCode_def
        valid_uri handshakeEnv_def connectReq_def SDK_new_def exampleOptions_def
        afterFirstConnect_def pendingSession_def emit_def orOne_def truthy_def orEmpty_def
        validateStored_def validateSession_def saveSession_def SimpleDatabase_new_def
        TimeoutManager_new_def spread_def DEFAULT_TIMEOUTS_def no_overrides_def Let_def)

text \<open>
  The claim as stated fails before approval: two back-to-back \<open>connect\<close> calls for \<open>u1\<close> on
  a fresh SDK, with no approval, disconnect or expiry in between, open two handshakes
  (two clients, two \<open>wcClient.connect\<close> calls) and return the two different URIs as their
  topics; the second pending session replaces the first in the registry.
\<close>

theorem connect_pending_counterexample:
  "map_option c_topic (fst (connect 0 (handshakeEnv ''wc:a'') (SDK_new exampleOptions) connectReq))
       = Some (Some ''wc:a'')
   \<and> map_option c_topic
         (fst (connect 1 (handshakeEnv ''wc:b'')
                 (snd (connect 0 (handshakeEnv ''wc:a'') (SDK_new exampleOptions) connectReq))
                 connectReq))
       = Some (Some ''wc:b'')
   \<and> wire (snd (connect 1 (handshakeEnv ''wc:b'')
                 (snd (connect 0 (handshakeEnv ''wc:a'') (SDK_new exampleOptions) connectReq))
                 connectReq))
       = [WInit 0, WConnect 0 default_methods 1 default_events,
          WInit 1, WConnect 1 default_methods 1 default_events]
   \<and> map (\<lambda>(uid, session). (uid, wcClient session))
         (userSessions (snd (connect 1 (handshakeEnv ''wc:b'')
                 (snd (connect 0 (handshakeEnv ''wc:a'') (SDK_new exampleOptions) connectReq))
                 connectReq)))
       = [(''u1'', 1)]"
  by (simp add: first_connect second_connect)

text \<open>
  C2 (as amended). For a user with a tracked session, \<open>disconnect\<close> removes the session
  from the registry and from the database and returns \<open>true\<close> when the session has no
  topic (no remote call is made) or the remote disconnect succeeds. When the remote
  disconnect rejects, \<open>disconnect\<close> returns \<open>false\<close> and leaves registry and database as
  they were.
\<close>

theorem disconnect_local_removal:
  assumes "map_of (userSessions sdk) uid = Some session"
  shows "(\<not> truthy (topic session) \<or> remote = Settles t (Resolve ()) \<longrightarrow>
            fst (disconnect remote sdk uid) = Some True
            \<and> map_of (userSessions (snd (disconnect remote sdk uid))) uid = None
            \<and> map_of (sessions (database (snd (disconnect remote sdk uid)))) uid = None)
       \<and> (truthy (topic session) \<and> remote = Settles t (Reject e) \<longrightarrow>
            fst (disconnect remote sdk uid) = Some False
            \<and> userSessions (snd (disconnect remote sdk uid)) = userSessions sdk
            \<and> database (snd (disconnect remote sdk uid)) = database sdk)"
  using assms
  by (auto simp: disconnect_def removeSession_def emit_def deleteSession_def delete_conv Let_def)

theorem disconnect_local_removal_witness:
  "map_of (userSessions (sdkWith (approvedSession ''u1'' 0))) ''u1'' = Some (approvedSession ''u1'' 0)
   \<and> truthy (topic (approvedSession ''u1'' 0))
   \<and> fst (disconnect (Settles 5 (Resolve ())) (sdkWith (approvedSession ''u1'' 0)) ''u1'') = Some True
   \<and> map_of (userSessions (snd (disconnect (Settles 5 (Resolve ())) (sdkWith (approvedSession ''u1'' 0)) ''u1''))) ''u1'' = None
   \<and> map_of (sessions (database (snd (disconnect (Settles 5 (Resolve ())) (sdkWith (approvedSession ''u1'' 0)) ''u1'')))) ''u1'' = None
   \<and> fst (disconnect (Settles 5 (Reject NonError)) (sdkWith (approvedSession ''u1'' 0)) ''u1'') = Some False
   \<and> userSessions (snd (disconnect (Settles 5 (Reject NonError)) (sdkWith (approvedSession ''u1'' 0)) ''u1''))
       = userSessions (sdkWith (approvedSession ''u1'' 0))"
proof -
  have h: "map_of (userSessions (sdkWith (approvedSession ''u1'' 0))) ''u1'' = Some (approvedSession ''u1'' 0)"
    by (simp add: sdkWith_def approvedSession_def)
  have tr: "truthy (topic (approvedSession ''u1'' 0))"
    by (rule approved_truthy)
  note ok = disconnect_local_removal [OF h, where remote = "Settles 5 (Resolve ())" and t = 5]
  note ko = disconnect_local_removal [OF h, where remote = "Settles 5 (Reject NonError)" and t = 5
      and e = NonError]
  from ok have a: "fst (disconnect (Settles 5 (Resolve ())) (sdkWith (approvedSession ''u1'' 0)) ''u1'') = Some True
      \<and> map_of (userSessions (snd (disconnect (Settles 5 (Resolve ())) (sdkWith (approvedSession ''u1'' 0)) ''u1''))) ''u1'' = None
      \<and> map_of (sessions (database (snd (disconnect (Settles 5 (Resolve ())) (sdkWith (approvedSession ''u1'' 0)) ''u1'')))) ''u1'' = None"
    by blast
  from ko tr have b: "fst (disconnect (Settles 5 (Reject NonError)) (sdkWith (approvedSession ''u1'' 0)) ''u1'') = Some False
      \<and> userSessions (snd (disconnect (Settles 5 (Reject NonError)) (sdkWith (approvedSession ''u1'' 0)) ''u1''))
          = userSessions (sdkWith (approvedSession ''u1'' 0))"
    by blast
  from h tr a b show ?thesis by blast
qed

text \<open>
  The claim as stated fails when the remote call throws: the session of \<open>u1\<close> is still
  in the registry and in the database after \<open>disconnect\<close> has returned \<open>false\<close>.
\<close>

theorem disconnect_remote_failure_counterexample:
  "fst (disconnect (Settles 5 (Reject (Error ''relay unreachable''))) (sdkWith (approvedSession ''u1'' 0)) ''u1'')
       = Some False
   \<and> map_of (userSessions (snd (disconnect (Settles 5 (Reject (Error ''relay unreachable'')))
                (sdkWith (approvedSession ''u1'' 0)) ''u1''))) ''u1''
       = Some (approvedSession ''u1'' 0)
   \<and> map_of (sessions (database (snd (disconnect (Settles 5 (Reject (Error ''relay unreachable'')))
                (sdkWith (approvedSession ''u1'' 0)) ''u1'')))) ''u1''
       = Some (approvedSession ''u1'' 0)"
  by (simp add: disconnect_def sdkWith_def approvedSession_def truthy_def orEmpty_def saveSession_def
        db_connect_def SimpleDatabase_new_def)

section \<open>Properties of teardown\<close>

lemma disconnect_frame:
  "timeoutManager (snd (disconnect remote sdk uid)) = timeoutManager sdk"
  "cleanupInterval (snd (disconnect remote sdk uid)) = cleanupInterval sdk"
  "intervalRunning (snd (disconnect remote sdk uid)) = intervalRunning sdk"
  "isConnectedFlag (database (snd (disconnect remote sdk uid))) = isConnectedFlag (database sdk)"
  "isInitialized (snd (disconnect remote sdk uid)) = isInitialized sdk"
  by (simp_all add: disconnect_def removeSession_def emit_def deleteSession_def Let_def
        split: option.splits promise.splits settled.splits)

lemma disconnectEach_frame:
  "timeoutManager (snd (disconnectEach remote sdk uids)) = timeoutManager sdk
   \<and> cleanupInterval (snd (disconnectEach remote sdk uids)) = cleanupInterval sdk
   \<and> intervalRunning (snd (disconnectEach remote sdk uids)) = intervalRunning sdk
   \<and> isConnectedFlag (database (snd (disconnectEach remote sdk uids)))
       = isConnectedFlag (database sdk)
   \<and> isInitialized (snd (disconnectEach remote sdk uids)) = isInitialized sdk"
proof (induction uids arbitrary: sdk)
  case Nil
  then show ?case by simp
next
  case (Cons uid uids)
  show ?case
  proof (cases "disconnect (remote uid) sdk uid")
    case (Pair r sdk')
    with disconnect_frame [of "remote uid" sdk uid] Cons.IH [of sdk']
    show ?thesis by (cases r) simp_all
  qed
qed

lemma disconnect_registry:
  assumes "distinct (map fst (userSessions sdk))" and "remote \<noteq> Never"
  shows "fst (disconnect remote sdk uid) \<noteq> None
       \<and> userSessions (snd (disconnect remote sdk uid))
           = filter (\<lambda>(u, s). u \<noteq> uid \<or> (truthy (topic s) \<and> rejects remote)) (userSessions sdk)"
proof (cases "map_of (userSessions sdk) uid")
  case None
  then have "uid \<notin> fst ` set (userSessions sdk)"
    by (simp add: map_of_eq_None_iff)
  then have "\<And>u s. (u, s) \<in> set (userSessions sdk) \<Longrightarrow> u \<noteq> uid"
    by force
  then have "filter (\<lambda>(u, s). u \<noteq> uid \<or> (truthy (topic s) \<and> rejects remote)) (userSessions sdk)
           = userSessions sdk"
    by (auto simp: filter_id_conv)
  with None show ?thesis by (simp add: disconnect_def)
next
  case (Some session)
  have only: "\<And>u s. (u, s) \<in> set (userSessions sdk) \<Longrightarrow> u = uid \<Longrightarrow> s = session"
    using Some assms(1) by (metis map_of_is_SomeI option.inject)
  show ?thesis
  proof (cases "truthy (topic session) \<and> rejects remote")
    case True
    then have "filter (\<lambda>(u, s). u \<noteq> uid \<or> (truthy (topic s) \<and> rejects remote)) (userSessions sdk)
           = userSessions sdk"
      using only by (auto simp: filter_id_conv)
    with Some True show ?thesis
      by (auto simp: disconnect_def rejects_def Let_def split: promise.splits settled.splits)
  next
    case False
    have "filter (\<lambda>(u, s). u \<noteq> uid \<or> (truthy (topic s) \<and> rejects remote)) (userSessions sdk)
           = AList.delete uid (userSessions sdk)"
      unfolding AList.delete_eq using only False by (auto intro!: filter_cong)
    with Some False assms(2) show ?thesis
      by (auto simp: disconnect_def rejects_def removeSession_def emit_def Let_def
            split: promise.splits settled.splits)
  qed
qed


lemma disconnect_db:
  "sessions (database (snd (disconnect remote sdk uid))) = sessions (database sdk)
   \<or> sessions (database (snd (disconnect remote sdk uid))) = AList.delete uid (sessions (database sdk))"
  by (simp add: disconnect_def removeSession_def emit_def deleteSession_def Let_def
        split: option.splits promise.splits settled.splits)

lemma disconnect_db_none:
  "map_of (sessions (database sdk)) u = None \<Longrightarrow>
     map_of (sessions (database (snd (disconnect remote sdk uid)))) u = None"
  using disconnect_db [of remote sdk uid] by (auto simp: delete_conv)

lemma disconnectEach_db_none:
  "map_of (sessions (database sdk)) u = None \<Longrightarrow>
     map_of (sessions (database (snd (disconnectEach remote sdk uids)))) u = None"
proof (induction uids arbitrary: sdk)
  case Nil
  then show ?case by simp
next
  case (Cons uid uids)
  show ?case
  proof (cases "disconnect (remote uid) sdk uid")
    case (Pair r sdk')
    with disconnect_db_none [OF Cons.prems, of "remote uid" uid]
    have "map_of (sessions (database sdk')) u = None" by simp
    with Pair Cons.IH [of sdk'] show ?thesis by (cases r) simp_all
  qed
qed

lemma disconnect_db_removed:
  assumes "map_of (userSessions sdk) uid = Some session"
    and "\<not> (truthy (topic session) \<and> rejects remote)" and "remote \<noteq> Never"
  shows "map_of (sessions (database (snd (disconnect remote sdk uid)))) uid = None"
  using assms
  by (auto simp: disconnect_def rejects_def removeSession_def emit_def deleteSession_def
        delete_conv Let_def split: promise.splits settled.splits)

lemma disconnectEach_registry:
  assumes "distinct (map fst (userSessions sdk))" and "\<forall>uid \<in> set uids. remote uid \<noteq> Never"
  shows "fst (disconnectEach remote sdk uids) = Some ()
       \<and> userSessions (snd (disconnectEach remote sdk uids))
           = filter (\<lambda>(u, s). u \<notin> set uids \<or> (truthy (topic s) \<and> rejects (remote u)))
               (userSessions sdk)"
  using assms
proof (induction uids arbitrary: sdk)
  case Nil
  then show ?case by simp
next
  case (Cons uid uids)
  from Cons.prems have settle: "remote uid \<noteq> Never" by simp
  note d = disconnect_registry [OF Cons.prems(1) settle, of uid]
  obtain r sdk' where p: "disconnect (remote uid) sdk uid = (Some r, sdk')"
    using d by (cases "disconnect (remote uid) sdk uid") auto
  from d p have reg: "userSessions sdk'
      = filter (\<lambda>(u, s). u \<noteq> uid \<or> (truthy (topic s) \<and> rejects (remote uid))) (userSessions sdk)"
    by simp
  then have dist: "distinct (map fst (userSessions sdk'))"
    using Cons.prems(1) by (simp add: distinct_map_filter)
  from Cons.prems have "\<forall>uid \<in> set uids. remote uid \<noteq> Never" by simp
  note ih = Cons.IH [OF dist this]
  have "filter (\<lambda>(u, s). u \<notin> set uids \<or> (truthy (topic s) \<and> rejects (remote u))) (userSessions sdk')
      = filter (\<lambda>(u, s). u \<notin> set (uid # uids) \<or> (truthy (topic s) \<and> rejects (remote u)))
          (userSessions sdk)"
    unfolding reg filter_filter by (rule filter_cong) auto
  with ih p show ?case by simp
qed

lemma disconnectEach_db_removed:
  assumes "distinct (map fst (userSessions sdk))" and "\<forall>uid \<in> set uids. remote uid \<noteq> Never"
    and "u \<in> set uids" and "map_of (userSessions sdk) u = Some session"
    and "\<not> (truthy (topic session) \<and> rejects (remote u))"
  shows "map_of (sessions (database (snd (disconnectEach remote sdk uids)))) u = None"
  using assms
proof (induction uids arbitrary: sdk)
  case Nil
  then show ?case by simp
next
  case (Cons uid uids)
  from Cons.prems have settle: "remote uid \<noteq> Never" by simp
  note d = disconnect_registry [OF Cons.prems(1) settle, of uid]
  obtain r sdk' where p: "disconnect (remote uid) sdk uid = (Some r, sdk')"
    using d by (cases "disconnect (remote uid) sdk uid") auto
  from d p have reg: "userSessions sdk'
      = filter (\<lambda>(u, s). u \<noteq> uid \<or> (truthy (topic s) \<and> rejects (remote uid))) (userSessions sdk)"
    by simp
  then have dist: "distinct (map fst (userSessions sdk'))"
    using Cons.prems(1) by (simp add: distinct_map_filter)
  from Cons.prems have rest: "\<forall>uid \<in> set uids. remote uid \<noteq> Never" by simp
  show ?case
  proof (cases "u = uid")
    case True
    with Cons.prems(4,5) settle p
    have "map_of (sessions (database sdk')) u = None"
      using disconnect_db_removed [of sdk uid session "remote uid"] by simp
    then have "map_of (sessions (database (snd (disconnectEach remote sdk' uids)))) u = None"
      by (rule disconnectEach_db_none)
    with p show ?thesis by simp
  next
    case False
    with Cons.prems(3) have mem: "u \<in> set uids" by simp
    have "(u, session) \<in> set (userSessions sdk)"
      using Cons.prems(4) by (rule map_of_SomeD)
    with False reg have "(u, session) \<in> set (userSessions sdk')" by simp
    with dist have "map_of (userSessions sdk') u = Some session" by simp
    from Cons.IH [OF dist rest mem this Cons.prems(5)] p show ?thesis by simp
  qed
qed

text \<open>The remote calls of the loop, in the order of the user ids it is given.\<close>

lemma disconnect_wire:
  "wire (snd (disconnect remote sdk uid))
     = wire sdk @ (case map_of (userSessions sdk) uid of
                     None \<Rightarrow> []
                   | Some s \<Rightarrow> if truthy (topic s)
                               then [WDisconnect (wcClient s) (orEmpty (topic s))] else [])"
  by (simp add: disconnect_def removeSession_def emit_def Let_def
        split: option.splits promise.splits settled.splits)

lemma disconnect_lookup_other:
  "u \<noteq> uid \<Longrightarrow>
     map_of (userSessions (snd (disconnect remote sdk uid))) u = map_of (userSessions sdk) u"
  by (simp add: disconnect_def removeSession_def emit_def Let_def delete_conv
        split: option.splits promise.splits settled.splits)

lemma disconnect_settles: "remote \<noteq> Never \<Longrightarrow> fst (disconnect remote sdk uid) \<noteq> None"
  by (auto simp: disconnect_def removeSession_def Let_def
        split: option.splits promise.splits settled.splits)

lemma disconnectEach_wire:
  assumes "distinct uids" and "\<forall>uid \<in> set uids. remote uid \<noteq> Never"
  shows "wire (snd (disconnectEach remote sdk uids))
       = wire sdk @ concat (map (\<lambda>u. case map_of (userSessions sdk) u of
                                        None \<Rightarrow> []
                                      | Some s \<Rightarrow> if truthy (topic s)
                                                  then [WDisconnect (wcClient s) (orEmpty (topic s))]
                                                  else []) uids)"
  using assms
proof (induction uids arbitrary: sdk)
  case Nil
  then show ?case by simp
next
  case (Cons uid uids)
  from Cons.prems have settle: "remote uid \<noteq> Never" by simp
  obtain r sdk' where p: "disconnect (remote uid) sdk uid = (Some r, sdk')"
    using disconnect_settles [OF settle, of sdk uid]
    by (cases "disconnect (remote uid) sdk uid") auto
  from Cons.prems have d: "distinct uids" and rest: "\<forall>uid \<in> set uids. remote uid \<noteq> Never"
    and fresh: "uid \<notin> set uids"
    by simp_all
  have w: "wire sdk' = wire sdk @ (case map_of (userSessions sdk) uid of
                     None \<Rightarrow> []
                   | Some s \<Rightarrow> if truthy (topic s)
                               then [WDisconnect (wcClient s) (orEmpty (topic s))] else [])"
    using disconnect_wire [of "remote uid" sdk uid] p by simp
  have same: "\<And>u. u \<in> set uids \<Longrightarrow> map_of (userSessions sdk') u = map_of (userSessions sdk) u"
  proof -
    fix u assume "u \<in> set uids"
    with fresh have "u \<noteq> uid" by auto
    from disconnect_lookup_other [OF this, of "remote uid" sdk] p
    show "map_of (userSessions sdk') u = map_of (userSessions sdk) u" by simp
  qed
  have m: "map (\<lambda>u. case map_of (userSessions sdk') u of
                                        None \<Rightarrow> []
                                      | Some s \<Rightarrow> if truthy (topic s)
                                                  then [WDisconnect (wcClient s) (orEmpty (topic s))]
                                                  else []) uids
         = map (\<lambda>u. case map_of (userSessions sdk) u of
                                        None \<Rightarrow> []
                                      | Some s \<Rightarrow> if truthy (topic s)
                                                  then [WDisconnect (wcClient s) (orEmpty (topic s))]
                                                  else []) uids"
    by (rule map_cong [OF refl]) (simp add: same)
  from Cons.IH [OF d rest, of sdk'] p show ?case
    by (simp add: w m)
qed

lemma calls_of_entries:
  assumes "distinct (map fst xs)" and "set ys \<subseteq> set xs"
  shows "concat (map (\<lambda>u. case map_of xs u of
                             None \<Rightarrow> []
                           | Some s \<Rightarrow> if truthy (topic s)
                                       then [WDisconnect (wcClient s) (orEmpty (topic s))]
                                       else []) (map fst ys))
       = map (\<lambda>(u, s). WDisconnect (wcClient s) (orEmpty (topic s)))
           (filter (\<lambda>(u, s). truthy (topic s)) ys)"
  using assms(2)
proof (induction ys)
  case Nil
  then show ?case by simp
next
  case (Cons y ys)
  obtain u s where y: "y = (u, s)" by (cases y)
  from Cons.prems y have "(u, s) \<in> set xs" by simp
  with assms(1) have l: "map_of xs u = Some s" by simp
  from Cons.prems have "set ys \<subseteq> set xs" by simp
  from Cons.IH [OF this] show ?case by (simp add: y l)
qed

lemma twoUsers_registry:
  "userSessions twoUsers = [(''u1'', approvedSession ''u1'' 0),
                            (''u2'', (approvedSession ''u2'' 0) \<lparr> wcClient := 1 \<rparr>)]"
  by (simp add: twoUsers_def)

lemma twoUsers_timers:
  "timers (timeoutManager twoUsers) = [(''gas-estimation-u1'', 0)]"
  "armed (timeoutManager twoUsers) = [0]"
  by (simp_all add: twoUsers_def armTimer_def TimeoutManager_new_def)

lemma destroy_twoUsers:
  "destroy firstFails twoUsers
     = (Some (),
        twoUsers \<lparr> userSessions := [(''u1'', approvedSession ''u1'' 0)],
                   database := \<lparr> sessions = [(''u1'', approvedSession ''u1'' 0)], isConnectedFlag = False \<rparr>,
                   intervalRunning := False,
                   isInitialized := False,
                   emitted := [\<lparr> ev_type = ''session_disconnect'', ev_userId = Some ''u2'', ev_success = None \<rparr>],
                   wire := [WInit 0, WInit 1, WDisconnect 0 ''topic-1'', WDisconnect 1 ''topic-1''] \<rparr>)"
  by (simp add: destroy_def disconnect_def removeSession_def emit_def deleteSession_def
        db_disconnect_def twoUsers_def SDK_new_def exampleOptions_def firstFails_def
        approvedSession_def truthy_def orEmpty_def Let_def)

lemma destroy_stalled:
  "destroy secondStalls twoUsers
     = (None,
        twoUsers \<lparr> userSessions := [(''u2'', (approvedSession ''u2'' 0) \<lparr> wcClient := 1 \<rparr>)],
                   database := \<lparr> sessions = [(''u2'', (approvedSession ''u2'' 0) \<lparr> wcClient := 1 \<rparr>)],
                                 isConnectedFlag = True \<rparr>,
                   intervalRunning := False,
                   emitted := [\<lparr> ev_type = ''session_disconnect'', ev_userId = Some ''u1'', ev_success = None \<rparr>],
                   wire := [WInit 0, WInit 1, WDisconnect 0 ''topic-1'', WDisconnect 1 ''topic-1''] \<rparr>)"
  by (simp add: destroy_def disconnect_def removeSession_def emit_def deleteSession_def
        db_disconnect_def twoUsers_def SDK_new_def exampleOptions_def secondStalls_def
        approvedSession_def truthy_def orEmpty_def Let_def)

text \<open>
  C7 (as amended). \<open>destroy()\<close> clears the cleanup interval, then disconnects the users
  of the registry one after the other, going on after a disconnect that fails, then
  disconnects the database and resets \<open>isInitialized\<close>. The order shows where a remote
  disconnect never settles and \<open>destroy\<close> stays pending: the interval is cleared by then,
  and the database is still connected and \<open>isInitialized\<close> still as it was. \<open>destroy\<close>
  leaves the timeout manager as it is: timers tracked there stay tracked. In a registry
  with one entry per user, and when every remote disconnect settles, \<open>destroy\<close> returns;
  the remote disconnects were called in the order of the registry, for the sessions with
  a topic; the sessions left in the registry are exactly those with a topic whose remote
  disconnect failed; every other session is gone from the registry and from the database.
\<close>

theorem destroy_effects:
  "timeoutManager (snd (destroy remote sdk)) = timeoutManager sdk
   \<and> (cleanupInterval sdk \<longrightarrow> \<not> intervalRunning (snd (destroy remote sdk)))
   \<and> (fst (destroy remote sdk) = None \<longrightarrow>
        isConnectedFlag (database (snd (destroy remote sdk))) = isConnectedFlag (database sdk)
        \<and> isInitialized (snd (destroy remote sdk)) = isInitialized sdk)
   \<and> (distinct (map fst (userSessions sdk))
        \<and> (\<forall>uid \<in> set (map fst (userSessions sdk)). remote uid \<noteq> Never) \<longrightarrow>
        fst (destroy remote sdk) = Some ()
        \<and> wire (snd (destroy remote sdk))
            = wire sdk @ map (\<lambda>(u, s). WDisconnect (wcClient s) (orEmpty (topic s)))
                           (filter (\<lambda>(u, s). truthy (topic s)) (userSessions sdk))
        \<and> userSessions (snd (destroy remote sdk))
            = filter (\<lambda>(u, s). truthy (topic s) \<and> rejects (remote u)) (userSessions sdk)
        \<and> (\<forall>(u, s) \<in> set (userSessions sdk).
              \<not> (truthy (topic s) \<and> rejects (remote u)) \<longrightarrow>
              map_of (sessions (database (snd (destroy remote sdk)))) u = None)
        \<and> \<not> isConnectedFlag (database (snd (destroy remote sdk)))
        \<and> \<not> isInitialized (snd (destroy remote sdk)))"
proof -
  define sdk1 where "sdk1 = (if cleanupInterval sdk then sdk \<lparr> intervalRunning := False \<rparr> else sdk)"
  have u1: "userSessions sdk1 = userSessions sdk" and t1: "timeoutManager sdk1 = timeoutManager sdk"
    and i1: "cleanupInterval sdk \<longrightarrow> \<not> intervalRunning sdk1"
    and w1: "wire sdk1 = wire sdk" and c1: "isConnectedFlag (database sdk1) = isConnectedFlag (database sdk)"
    and n1: "isInitialized sdk1 = isInitialized sdk"
    by (simp_all add: sdk1_def)
  obtain res sdk2 where p: "disconnectEach remote sdk1 (map fst (userSessions sdk1)) = (res, sdk2)"
    by (cases "disconnectEach remote sdk1 (map fst (userSessions sdk1))")
  have fr: "timeoutManager sdk2 = timeoutManager sdk1" "intervalRunning sdk2 = intervalRunning sdk1"
    "isConnectedFlag (database sdk2) = isConnectedFlag (database sdk1)"
    "isInitialized sdk2 = isInitialized sdk1"
    using disconnectEach_frame [of remote sdk1 "map fst (userSessions sdk1)"] p by simp_all
  have d: "destroy remote sdk
         = (case res of None \<Rightarrow> (None, sdk2)
            | Some done \<Rightarrow> (Some (), sdk2 \<lparr> database := db_disconnect (database sdk2),
                                              isInitialized := False \<rparr>))"
    using p by (simp add: destroy_def sdk1_def [symmetric] Let_def split: option.splits)
  have A: "timeoutManager (snd (destroy remote sdk)) = timeoutManager sdk"
    unfolding d using fr t1 by (simp split: option.splits)
  have B: "cleanupInterval sdk \<longrightarrow> \<not> intervalRunning (snd (destroy remote sdk))"
    unfolding d using fr i1 by (simp split: option.splits)
  have C: "fst (destroy remote sdk) = None \<longrightarrow>
        isConnectedFlag (database (snd (destroy remote sdk))) = isConnectedFlag (database sdk)
        \<and> isInitialized (snd (destroy remote sdk)) = isInitialized sdk"
    unfolding d using fr c1 n1 by (simp split: option.splits)
  have D: "distinct (map fst (userSessions sdk))
        \<and> (\<forall>uid \<in> set (map fst (userSessions sdk)). remote uid \<noteq> Never) \<longrightarrow>
        fst (destroy remote sdk) = Some ()
        \<and> wire (snd (destroy remote sdk))
            = wire sdk @ map (\<lambda>(u, s). WDisconnect (wcClient s) (orEmpty (topic s)))
                           (filter (\<lambda>(u, s). truthy (topic s)) (userSessions sdk))
        \<and> userSessions (snd (destroy remote sdk))
            = filter (\<lambda>(u, s). truthy (topic s) \<and> rejects (remote u)) (userSessions sdk)
        \<and> (\<forall>(u, s) \<in> set (userSessions sdk).
              \<not> (truthy (topic s) \<and> rejects (remote u)) \<longrightarrow>
              map_of (sessions (database (snd (destroy remote sdk)))) u = None)
        \<and> \<not> isConnectedFlag (database (snd (destroy remote sdk)))
        \<and> \<not> isInitialized (snd (destroy remote sdk))"
  proof
    assume h: "distinct (map fst (userSessions sdk))
        \<and> (\<forall>uid \<in> set (map fst (userSessions sdk)). remote uid \<noteq> Never)"
    then have dist: "distinct (map fst (userSessions sdk1))"
      and settle: "\<forall>uid \<in> set (map fst (userSessions sdk1)). remote uid \<noteq> Never"
      using u1 by simp_all
    note each = disconnectEach_registry [OF dist settle]
    from each p have res: "res = Some ()" by simp
    have d': "destroy remote sdk
         = (Some (), sdk2 \<lparr> database := db_disconnect (database sdk2), isInitialized := False \<rparr>)"
      unfolding d res by simp
    have reg: "userSessions sdk2
           = filter (\<lambda>(u, s). truthy (topic s) \<and> rejects (remote u)) (userSessions sdk)"
    proof -
      have "userSessions sdk2
          = filter (\<lambda>(u, s). u \<notin> set (map fst (userSessions sdk1))
                               \<or> (truthy (topic s) \<and> rejects (remote u))) (userSessions sdk1)"
        using each p by simp
      also have "\<dots> = filter (\<lambda>(u, s). truthy (topic s) \<and> rejects (remote u)) (userSessions sdk1)"
        by (rule filter_cong) force+
      finally show ?thesis using u1 by simp
    qed
    have wr: "wire sdk2
           = wire sdk @ map (\<lambda>(u, s). WDisconnect (wcClient s) (orEmpty (topic s)))
                           (filter (\<lambda>(u, s). truthy (topic s)) (userSessions sdk))"
    proof -
      have "wire sdk2 = wire sdk1 @ concat (map (\<lambda>u. case map_of (userSessions sdk1) u of
                                        None \<Rightarrow> []
                                      | Some s \<Rightarrow> if truthy (topic s)
                                                  then [WDisconnect (wcClient s) (orEmpty (topic s))]
                                                  else []) (map fst (userSessions sdk1)))"
        using disconnectEach_wire [OF dist settle, of sdk1] p by simp
      also have "\<dots> = wire sdk1 @ map (\<lambda>(u, s). WDisconnect (wcClient s) (orEmpty (topic s)))
                           (filter (\<lambda>(u, s). truthy (topic s)) (userSessions sdk1))"
        using calls_of_entries [OF dist subset_refl] by simp
      finally show ?thesis using u1 w1 by simp
    qed
    have db: "\<forall>(u, s) \<in> set (userSessions sdk).
               \<not> (truthy (topic s) \<and> rejects (remote u)) \<longrightarrow>
               map_of (sessions (database sdk2)) u = None"
    proof (clarify)
      fix u s assume m: "(u, s) \<in> set (userSessions sdk)"
        and n: "\<not> (truthy (topic s) \<and> rejects (remote u))"
      from m u1 have mem: "u \<in> set (map fst (userSessions sdk1))" by force
      from m dist u1 have look: "map_of (userSessions sdk1) u = Some s" by simp
      from disconnectEach_db_removed [OF dist settle mem look n] p
      show "map_of (sessions (database sdk2)) u = None" by simp
    qed
    show "fst (destroy remote sdk) = Some ()
        \<and> wire (snd (destroy remote sdk))
            = wire sdk @ map (\<lambda>(u, s). WDisconnect (wcClient s) (orEmpty (topic s)))
                           (filter (\<lambda>(u, s). truthy (topic s)) (userSessions sdk))
        \<and> userSessions (snd (destroy remote sdk))
            = filter (\<lambda>(u, s). truthy (topic s) \<and> rejects (remote u)) (userSessions sdk)
        \<and> (\<forall>(u, s) \<in> set (userSessions sdk).
              \<not> (truthy (topic s) \<and> rejects (remote u)) \<longrightarrow>
              map_of (sessions (database (snd (destroy remote sdk)))) u = None)
        \<and> \<not> isConnectedFlag (database (snd (destroy remote sdk)))
        \<and> \<not> isInitialized (snd (destroy remote sdk))"
      unfolding d' using reg wr db by (simp add: db_disconnect_def)
  qed
  from A B C D show ?thesis by (intro conjI)
qed

theorem destroy_effects_witness:
  "distinct (map fst (userSessions twoUsers))
   \<and> map fst (userSessions twoUsers) = [''u1'', ''u2'']
   \<and> firstFails ''u1'' \<noteq> Never \<and> firstFails ''u2'' \<noteq> Never
   \<and> cleanupInterval twoUsers
   \<and> fst (destroy firstFails twoUsers) = Some ()
   \<and> wire (snd (destroy firstFails twoUsers))
       = [WInit 0, WInit 1, WDisconnect 0 ''topic-1'', WDisconnect 1 ''topic-1'']
   \<and> map fst (userSessions (snd (destroy firstFails twoUsers))) = [''u1'']
   \<and> map_of (sessions (database (snd (destroy firstFails twoUsers)))) ''u2'' = None
   \<and> \<not> isConnectedFlag (database (snd (destroy firstFails twoUsers)))
   \<and> \<not> isInitialized (snd (destroy firstFails twoUsers))
   \<and> \<not> intervalRunning (snd (destroy firstFails twoUsers))
   \<and> fst (destroy secondStalls twoUsers) = None
   \<and> \<not> intervalRunning (snd (destroy secondStalls twoUsers))
   \<and> isConnectedFlag (database (snd (destroy secondStalls twoUsers)))
   \<and> isInitialized (snd (destroy secondStalls twoUsers))"
proof -
  have h1: "distinct (map fst (userSessions twoUsers))"
    by (simp add: twoUsers_registry)
  have h2: "\<forall>uid \<in> set (map fst (userSessions twoUsers)). firstFails uid \<noteq> Never"
    by (simp add: twoUsers_registry firstFails_def)
  have i: "cleanupInterval twoUsers"
    by (simp add: twoUsers_def SDK_new_def exampleOptions_def)
  have flags: "isConnectedFlag (database twoUsers)" "isInitialized twoUsers"
    "wire twoUsers = [WInit 0, WInit 1]"
    by (simp_all add: twoUsers_def)
  note c = destroy_effects [of firstFails twoUsers]
  have f: "filter (\<lambda>(u, s). truthy (topic s) \<and> rejects (firstFails u)) (userSessions twoUsers)
         = [(''u1'', approvedSession ''u1'' 0)]"
    by (simp add: twoUsers_registry approvedSession_def truthy_def rejects_def firstFails_def)
  have g: "map (\<lambda>(u, s). WDisconnect (wcClient s) (orEmpty (topic s)))
             (filter (\<lambda>(u, s). truthy (topic s)) (userSessions twoUsers))
         = [WDisconnect 0 ''topic-1'', WDisconnect 1 ''topic-1'']"
    by (simp add: twoUsers_registry approvedSession_def truthy_def orEmpty_def)
  from c h1 h2 have all: "fst (destroy firstFails twoUsers) = Some ()
        \<and> wire (snd (destroy firstFails twoUsers))
            = wire twoUsers @ map (\<lambda>(u, s). WDisconnect (wcClient s) (orEmpty (topic s)))
                           (filter (\<lambda>(u, s). truthy (topic s)) (userSessions twoUsers))
        \<and> userSessions (snd (destroy firstFails twoUsers))
            = filter (\<lambda>(u, s). truthy (topic s) \<and> rejects (firstFails u)) (userSessions twoUsers)
        \<and> (\<forall>(u, s) \<in> set (userSessions twoUsers).
              \<not> (truthy (topic s) \<and> rejects (firstFails u)) \<longrightarrow>
              map_of (sessions (database (snd (destroy firstFails twoUsers)))) u = None)
        \<and> \<not> isConnectedFlag (database (snd (destroy firstFails twoUsers)))
        \<and> \<not> isInitialized (snd (destroy firstFails twoUsers))"
    by blast
  have r: "map fst (userSessions (snd (destroy firstFails twoUsers))) = [''u1'']"
    using all f by simp
  have w: "wire (snd (destroy firstFails twoUsers))
       = [WInit 0, WInit 1, WDisconnect 0 ''topic-1'', WDisconnect 1 ''topic-1'']"
    using all g flags(3) by simp
  have "(''u2'', (approvedSession ''u2'' 0) \<lparr> wcClient := 1 \<rparr>) \<in> set (userSessions twoUsers)"
    by (simp add: twoUsers_registry)
  moreover have "\<not> (truthy (topic ((approvedSession ''u2'' 0) \<lparr> wcClient := 1 \<rparr>)) \<and> rejects (firstFails ''u2''))"
    by (simp add: rejects_def firstFails_def)
  ultimately have d: "map_of (sessions (database (snd (destroy firstFails twoUsers)))) ''u2'' = None"
    using all by blast
  from all have e: "\<not> isConnectedFlag (database (snd (destroy firstFails twoUsers)))"
    "\<not> isInitialized (snd (destroy firstFails twoUsers))" "fst (destroy firstFails twoUsers) = Some ()"
    by blast+
  from c i have e': "\<not> intervalRunning (snd (destroy firstFails twoUsers))" by blast
  have k: "map fst (userSessions twoUsers) = [''u1'', ''u2'']"
    by (simp add: twoUsers_registry)
  have n: "firstFails ''u1'' \<noteq> Never" "firstFails ''u2'' \<noteq> Never"
    by (simp_all add: firstFails_def)
  have st: "fst (destroy secondStalls twoUsers) = None"
    by (simp add: destroy_stalled)
  note s = destroy_effects [of secondStalls twoUsers]
  from s i have s1: "\<not> intervalRunning (snd (destroy secondStalls twoUsers))" by blast
  from s st flags have s2: "isConnectedFlag (database (snd (destroy secondStalls twoUsers)))"
    "isInitialized (snd (destroy secondStalls twoUsers))" by blast+
  from h1 k n i e(3) w r d e(1,2) e' st s1 s2 show ?thesis by (intro conjI)
qed

text \<open>
  The claim as stated fails: after \<open>destroy\<close> has returned, the timer tracked for the gas
  estimation of \<open>u1\<close> is still tracked and armed, and the session of \<open>u1\<close>, whose
  remote disconnect failed, is still in the registry.
\<close>

theorem destroy_leaves_timers_counterexample:
  "fst (destroy firstFails twoUsers) = Some ()
   \<and> timers (timeoutManager (snd (destroy firstFails twoUsers))) = [(''gas-estimation-u1'', 0)]
   \<and> armed (timeoutManager (snd (destroy firstFails twoUsers))) = [0]
   \<and> map fst (userSessions (snd (destroy firstFails twoUsers))) = [''u1'']"
  by (simp add: destroy_twoUsers twoUsers_timers)

section \<open>The invariant of the registry\<close>

lemma all_ok_iff: "all_ok xs \<longleftrightarrow> (\<forall>(uid, session) \<in> set xs. session_ok session)"
  by (simp add: all_ok_def list_all_iff)

lemma all_ok_update: "all_ok xs \<Longrightarrow> session_ok v \<Longrightarrow> all_ok (AList.update k v xs)"
  by (induction xs) (auto simp: all_ok_def)

lemma all_ok_delete: "all_ok xs \<Longrightarrow> all_ok (AList.delete k xs)"
  by (induction xs) (auto simp: all_ok_def)

lemma all_ok_lookup: "all_ok xs \<Longrightarrow> map_of xs k = Some v \<Longrightarrow> session_ok v"
  by (auto simp: all_ok_iff dest: map_of_SomeD)

lemma all_ok_find:
  assumes "all_ok xs" and "find P xs = Some (k, v)"
  shows "session_ok v"
proof -
  from assms(2) obtain i where "i < length xs" "xs ! i = (k, v)"
    by (auto simp: find_Some_iff)
  then have "(k, v) \<in> set xs" by (metis nth_mem)
  with assms(1) show ?thesis by (auto simp: all_ok_iff)
qed

lemma session_ok_validate: "session_ok session \<Longrightarrow> session_ok (snd (validateSession now session))"
  by (auto simp: session_ok_def validateSession_def Let_def)

lemma all_ok_validate_each:
  "all_ok xs \<Longrightarrow>
     all_ok (map (\<lambda>(uid, valid, session'). (uid, session'))
               (map (\<lambda>(uid, session). (uid, validateSession now session)) xs))"
proof (induction xs)
  case Nil
  then show ?case by (simp add: all_ok_def)
next
  case (Cons x xs)
  obtain uid session where x: "x = (uid, session)" by (cases x)
  obtain v s' where vs: "validateSession now session = (v, s')" by (cases "validateSession now session")
  from Cons.prems x have "session_ok session" "all_ok xs" by (simp_all add: all_ok_def)
  with session_ok_validate [of session now] vs Cons.IH x show ?case
    by (simp add: all_ok_def)
qed

lemma inv_validateStored:
  assumes "active_has_topic sdk" and "map_of (userSessions sdk) uid = Some session"
  shows "active_has_topic (snd (snd (validateStored now sdk uid session)))"
proof -
  have "session_ok session" using assms by (auto simp: active_has_topic_def dest: all_ok_lookup)
  then have o: "session_ok (snd (validateSession now session))" by (rule session_ok_validate)
  have e: "userSessions (snd (snd (validateStored now sdk uid session)))
         = AList.update uid (snd (validateSession now session)) (userSessions sdk)"
    by (simp add: validateStored_def split: prod.splits)
  from assms(1) o show ?thesis
    unfolding active_has_topic_def e by (rule all_ok_update)
qed

lemma inv_getSession: "active_has_topic sdk \<Longrightarrow> active_has_topic (snd (getSession now sdk uid))"
proof (cases "map_of (userSessions sdk) uid")
  case None
  assume "active_has_topic sdk"
  with None show ?thesis by (simp add: getSession_def)
next
  case (Some session)
  assume "active_has_topic sdk"
  note v = inv_validateStored [OF this Some, of now]
  obtain valid s' sdk' where p: "validateStored now sdk uid session = (valid, s', sdk')"
    by (cases "validateStored now sdk uid session") auto
  with v Some show ?thesis by (simp add: getSession_def)
qed

lemma inv_isConnected: "active_has_topic sdk \<Longrightarrow> active_has_topic (snd (isConnected now sdk uid))"
proof (cases "map_of (userSessions sdk) uid")
  case None
  assume "active_has_topic sdk"
  with None show ?thesis by (simp add: isConnected_def)
next
  case (Some session)
  assume "active_has_topic sdk"
  note v = inv_validateStored [OF this Some, of now]
  obtain valid s' sdk' where p: "validateStored now sdk uid session = (valid, s', sdk')"
    by (cases "validateStored now sdk uid session") auto
  with v Some show ?thesis by (simp add: isConnected_def)
qed

lemma inv_getAllSessions: "active_has_topic sdk \<Longrightarrow> active_has_topic (snd (getAllSessions now sdk))"
  by (simp add: active_has_topic_def getAllSessions_def Let_def all_ok_validate_each del: map_map)

lemma inv_facade:
  "active_has_topic sdk \<Longrightarrow> active_has_topic (snd (sendTransaction now env sdk tx))"
  "active_has_topic sdk \<Longrightarrow> active_has_topic (snd (signMessage now env sdk sm))"
  "active_has_topic sdk \<Longrightarrow> active_has_topic (snd (signTypedData now env sdk st))"
  "active_has_topic sdk \<Longrightarrow> active_has_topic (snd (callContract now env sdk cc))"
  "active_has_topic sdk \<Longrightarrow> active_has_topic (snd (readContract now env sdk rd))"
  "active_has_topic sdk \<Longrightarrow> active_has_topic (snd (estimateGas now env sdk cc))"
  using inv_getSession [of sdk now]
  by (simp_all add: active_has_topic_def sendTransaction_registry signMessage_registry
        signTypedData_registry callContract_registry readContract_registry estimateGas_registry)

lemma inv_connect_new:
  "active_has_topic sdk \<Longrightarrow> active_has_topic (snd (connect_new now env sdk request))"
proof -
  assume a: "active_has_topic sdk"
  have pending: "session_ok \<lparr> userId = u, wcClient = c, topic = None, address = None,
      sessionData = None, isActive = False, createdAt = now, updatedAt = now, lastActivity = now \<rparr>" for u c
    by (simp add: session_ok_def)
  have "userSessions (snd (connect_new now env sdk request)) = userSessions sdk
      \<or> (\<exists>c. userSessions (snd (connect_new now env sdk request))
            = AList.update (cr_userId request) \<lparr> userId = cr_userId request, wcClient = c, topic = None,
                address = None, sessionData = None, isActive = False, createdAt = now,
                updatedAt = now, lastActivity = now \<rparr> (userSessions sdk))"
    using createClient_registry [of "init_result env" sdk]
    by (auto simp: connect_new_def connect_failed_def emit_def Let_def
          split: prod.splits option.splits sum.splits promise.splits settled.splits)
  then show ?thesis
  proof
    assume "userSessions (snd (connect_new now env sdk request)) = userSessions sdk"
    with a show ?thesis by (simp add: active_has_topic_def)
  next
    assume "\<exists>c. userSessions (snd (connect_new now env sdk request))
            = AList.update (cr_userId request) \<lparr> userId = cr_userId request, wcClient = c, topic = None,
                address = None, sessionData = None, isActive = False, createdAt = now,
                updatedAt = now, lastActivity = now \<rparr> (userSessions sdk)"
    then obtain c where e: "userSessions (snd (connect_new now env sdk request))
            = AList.update (cr_userId request) \<lparr> userId = cr_userId request, wcClient = c, topic = None,
                address = None, sessionData = None, isActive = False, createdAt = now,
                updatedAt = now, lastActivity = now \<rparr> (userSessions sdk)" ..
    from a have "all_ok (userSessions sdk)" by (simp add: active_has_topic_def)
    from all_ok_update [OF this pending] show ?thesis
      unfolding active_has_topic_def e .
  qed
qed

lemma inv_connect: "active_has_topic sdk \<Longrightarrow> active_has_topic (snd (connect now env sdk request))"
proof (cases "map_of (userSessions sdk) (cr_userId request)")
  case None
  assume "active_has_topic sdk"
  with None show ?thesis by (simp add: connect_def inv_connect_new)
next
  case (Some session)
  assume "active_has_topic sdk"
  note v = inv_validateStored [OF this Some, of now]
  obtain valid s' sdk0 where p: "validateStored now sdk (cr_userId request) session = (valid, s', sdk0)"
    by (cases "validateStored now sdk (cr_userId request) session") auto
  with v have "active_has_topic sdk0" by simp
  with Some p show ?thesis by (simp add: connect_def inv_connect_new)
qed


lemma inv_disconnect: "active_has_topic sdk \<Longrightarrow> active_has_topic (snd (disconnect remote sdk uid))"
proof -
  assume a: "active_has_topic sdk"
  have "userSessions (snd (disconnect remote sdk uid)) = userSessions sdk
      \<or> userSessions (snd (disconnect remote sdk uid)) = AList.delete uid (userSessions sdk)"
    by (simp add: disconnect_def removeSession_def emit_def Let_def
          split: option.splits promise.splits settled.splits)
  with a show ?thesis
    unfolding active_has_topic_def by (auto intro: all_ok_delete)
qed

lemma inv_disconnectEach:
  "active_has_topic sdk \<Longrightarrow> active_has_topic (snd (disconnectEach remote sdk uids))"
proof (induction uids arbitrary: sdk)
  case Nil
  then show ?case by simp
next
  case (Cons uid uids)
  show ?case
  proof (cases "disconnect (remote uid) sdk uid")
    case (Pair r sdk')
    from inv_disconnect [OF Cons.prems, of "remote uid" uid] Pair
    have "active_has_topic sdk'" by simp
    with Pair Cons.IH [of sdk'] show ?thesis by (cases r) simp_all
  qed
qed

lemma inv_cleanupSessions:
  "active_has_topic sdk \<Longrightarrow> active_has_topic (snd (cleanupSessions now remote sdk))"
proof -
  assume a: "active_has_topic sdk"
  have "active_has_topic (sdk \<lparr> userSessions :=
          map (\<lambda>(uid, valid, session'). (uid, session'))
            (map (\<lambda>(uid, session). (uid, validateSession now session)) (userSessions sdk)) \<rparr>)"
    using a by (simp add: active_has_topic_def all_ok_validate_each del: map_map)
  then show ?thesis
    by (simp add: cleanupSessions_def Let_def inv_disconnectEach del: map_map)
qed

lemma inv_destroy: "active_has_topic sdk \<Longrightarrow> active_has_topic (snd (destroy remote sdk))"
proof -
  assume a: "active_has_topic sdk"
  define sdk1 where "sdk1 = (if cleanupInterval sdk then sdk \<lparr> intervalRunning := False \<rparr> else sdk)"
  have "active_has_topic sdk1" using a by (simp add: sdk1_def active_has_topic_def)
  from inv_disconnectEach [OF this, of remote "map fst (userSessions sdk1)"]
  show ?thesis
    by (cases "disconnectEach remote sdk1 (map fst (userSessions sdk1))")
       (auto simp: destroy_def sdk1_def [symmetric] Let_def active_has_topic_def split: option.splits)
qed

lemma inv_assign:
  "active_has_topic sdk \<Longrightarrow> session_ok session \<Longrightarrow> active_has_topic (assign sdk uid session)"
  by (simp add: assign_def active_has_topic_def all_ok_update split: option.splits)

lemma inv_assign_validated:
  assumes "active_has_topic sdk"
  shows "active_has_topic (assign sdk uid (snd (validateSession now (current sdk uid saved))))"
proof (cases "map_of (userSessions sdk) uid")
  case None
  with assms show ?thesis by (simp add: assign_def active_has_topic_def)
next
  case (Some held)
  with assms have "session_ok held"
    by (auto simp: active_has_topic_def dest: all_ok_lookup)
  then have "session_ok (snd (validateSession now held))" by (rule session_ok_validate)
  with assms have "active_has_topic (assign sdk uid (snd (validateSession now held)))"
    by (rule inv_assign)
  with Some show ?thesis by (simp add: current_def)
qed

lemma inv_restoreLoop:
  "active_has_topic sdk \<Longrightarrow> active_has_topic (snd (restoreLoop now inits sdk stored))"
proof (induction stored arbitrary: sdk)
  case Nil
  then show ?case by simp
next
  case (Cons entry rest)
  obtain uid saved where e: "entry = (uid, saved)" by (cases entry)
  obtain valid s' where v: "validateSession now (current sdk uid saved) = (valid, s')"
    by (cases "validateSession now (current sdk uid saved)")
  define sdk0 where "sdk0 = assign sdk uid s'"
  have a0: "active_has_topic sdk0"
    using inv_assign_validated [OF Cons.prems, of uid now saved] v by (simp add: sdk0_def)
  show ?case
  proof (cases valid)
    case False
    with v e Cons.IH [OF a0] show ?thesis by (simp add: sdk0_def)
  next
    case True
    with v have topic: "truthy (topic s')"
      using validateSession_valid_iff [of now "current sdk uid saved"]
        validateSession_valid [of now "current sdk uid saved"] by simp
    obtain r sdk1 where c: "createWalletConnectClient (inits (userId s')) sdk0 = (r, sdk1)"
      by (cases "createWalletConnectClient (inits (userId s')) sdk0")
    have reg: "userSessions sdk1 = userSessions sdk0"
      using createClient_registry [of "inits (userId s')" sdk0] c by simp
    with a0 have a1: "active_has_topic sdk1" by (simp add: active_has_topic_def)
    show ?thesis
    proof (cases r)
      case None
      with v e True c a1 show ?thesis by (simp add: sdk0_def)
    next
      case (Some res)
      show ?thesis
      proof (cases res)
        case (Inl err)
        with v e True c a1 Some show ?thesis by (simp add: sdk0_def)
      next
        case (Inr client)
        have ok: "session_ok (s' \<lparr> wcClient := client, isActive := True \<rparr>)"
          using topic by (simp add: session_ok_def)
        with a1 have a2: "active_has_topic (assign sdk1 uid (s' \<lparr> wcClient := client, isActive := True \<rparr>))"
          by (rule inv_assign)
        with ok have "active_has_topic
            ((assign sdk1 uid (s' \<lparr> wcClient := client, isActive := True \<rparr>))
               \<lparr> userSessions := AList.update (userId s')
                    (s' \<lparr> wcClient := client, isActive := True \<rparr>)
                    (userSessions (assign sdk1 uid (s' \<lparr> wcClient := client, isActive := True \<rparr>))) \<rparr>)"
          by (simp add: active_has_topic_def all_ok_update)
        from Cons.IH [OF this] v e True c Some Inr show ?thesis
          by (simp add: sdk0_def Let_def)
      qed
    qed
  qed
qed

lemma inv_init: "active_has_topic sdk \<Longrightarrow> active_has_topic (snd (init now inits sdk))"
proof -
  assume a: "active_has_topic sdk"
  then have "active_has_topic (sdk \<lparr> database := db_connect (database sdk) \<rparr>)"
    by (simp add: active_has_topic_def)
  from inv_restoreLoop [OF this, of now inits "sessions (db_connect (database sdk))"]
  show ?thesis using a
    by (cases "restoreLoop now inits (sdk \<lparr> database := db_connect (database sdk) \<rparr>)
                 (sessions (db_connect (database sdk)))")
       (auto simp: init_def restoreSessions_def emit_def active_has_topic_def split: option.splits)
qed

lemma inv_session_connect:
  assumes "active_has_topic sdk" and "truthy (a_topic args)"
  shows "active_has_topic (on_session_connect now client args sdk)"
proof (cases "findByClient (userSessions sdk) client")
  case None
  with assms(1) show ?thesis by (simp add: on_session_connect_def)
next
  case (Some found)
  obtain uid session where f: "found = (uid, session)" by (cases found)
  define session1 where "session1 = session \<lparr> topic := a_topic args, isActive := True,
      sessionData := a_params args, updatedAt := now, lastActivity := now \<rparr>"
  define session2 where "session2 = (case a_accounts args of [] \<Rightarrow> session1
      | account # rest \<Rightarrow> session1 \<lparr> address := nth_opt (split_colon account) 2 \<rparr>)"
  have "session_ok session2"
    using assms(2) by (simp add: session2_def session1_def session_ok_def split: list.splits)
  with assms(1) have "all_ok (AList.update uid session2 (userSessions sdk))"
    by (simp add: active_has_topic_def all_ok_update)
  then show ?thesis
    using Some f unfolding session2_def session1_def
    by (simp add: on_session_connect_def Let_def emit_def active_has_topic_def)
qed

lemma inv_session_update:
  assumes "active_has_topic sdk"
  shows "active_has_topic (on_session_update now args sdk)"
proof (cases "findSessionByTopic sdk (a_topic args)")
  case None
  with assms show ?thesis by (simp add: on_session_update_def)
next
  case (Some found)
  obtain uid session where f: "found = (uid, session)" by (cases found)
  from assms Some f have "session_ok session"
    by (auto simp: active_has_topic_def findSessionByTopic_def dest: all_ok_find)
  then have "session_ok (session \<lparr> sessionData := a_params args, updatedAt := now, lastActivity := now \<rparr>)"
    by (simp add: session_ok_def)
  with assms have "all_ok (AList.update uid
      (session \<lparr> sessionData := a_params args, updatedAt := now, lastActivity := now \<rparr>) (userSessions sdk))"
    by (simp add: active_has_topic_def all_ok_update)
  then show ?thesis
    using Some f by (simp add: on_session_update_def Let_def emit_def active_has_topic_def)
qed

lemma inv_other:
  "active_has_topic sdk \<Longrightarrow> active_has_topic (on_session_event now args sdk)"
  "active_has_topic sdk \<Longrightarrow> active_has_topic (on_session_delete now args sdk)"
  "active_has_topic sdk \<Longrightarrow> active_has_topic (updateTimeoutConfig sdk newTimeouts)"
  "active_has_topic sdk \<Longrightarrow> active_has_topic (sdk_clearAllTimers sdk)"
  "active_has_topic sdk \<Longrightarrow> active_has_topic (sdk_clearTimer sdk operation)"
  by (simp_all add: active_has_topic_def on_session_event_def on_session_delete_def emit_def
        updateTimeoutConfig_def sdk_clearAllTimers_def sdk_clearTimer_def
        split: option.splits prod.splits)

lemma inv_new: "active_has_topic (SDK_new options)"
  by (simp add: active_has_topic_def all_ok_def SDK_new_def Let_def)

text \<open>
  C8 (as amended). In every state reachable through the public methods and the listeners
  of the protocol clients, provided each approval event carries a non-empty topic, every
  session of the registry with \<open>isActive = true\<close> has a non-empty topic. The invariant
  holds in a new SDK and is preserved by \<open>connect\<close> (which stores sessions with
  \<open>isActive = false\<close>), by the approval listener under that proviso, by the restoration
  at start-up and by every other method and listener.
\<close>

theorem reachable_active_has_topic:
  "reachable sdk \<Longrightarrow> active_has_topic sdk"
proof (induction rule: reachable.induct)
  case (r_new options)
  show ?case by (rule inv_new)
next
  case (r_init sdk now inits stored)
  then have "active_has_topic (sdk \<lparr> database := (database sdk) \<lparr> sessions := stored \<rparr> \<rparr>)"
    by (simp add: active_has_topic_def)
  then show ?case by (rule inv_init)
next
  case (r_session_connect sdk args now client)
  then show ?case by (simp add: inv_session_connect)
qed (simp_all add: inv_connect inv_disconnect inv_isConnected inv_getSession
      inv_getAllSessions inv_facade inv_cleanupSessions inv_destroy inv_session_update inv_other)

theorem reachable_active_has_topic_witness:
  "reachable (on_session_connect 5 0 approval
      (snd (connect 0 (handshakeEnv ''wc:a'') (SDK_new exampleOptions) connectReq)))
   \<and> truthy (a_topic approval)
   \<and> active_has_topic (on_session_connect 5 0 approval
      (snd (connect 0 (handshakeEnv ''wc:a'') (SDK_new exampleOptions) connectReq)))
   \<and> map_option (\<lambda>session. (isActive session, topic session, address session))
        (map_of (userSessions (on_session_connect 5 0 approval
           (snd (connect 0 (handshakeEnv ''wc:a'') (SDK_new exampleOptions) connectReq)))) ''u1'')
       = Some (True, Some ''topic-1'', Some ''0xabc'')"
proof -
  have t: "truthy (a_topic approval)"
    by (simp add: approval_def truthy_def)
  have r: "reachable (on_session_connect 5 0 approval
      (snd (connect 0 (handshakeEnv ''wc:a'') (SDK_new exampleOptions) connectReq)))"
    by (rule r_session_connect [OF r_connect [OF r_new] t])
  note c = reachable_active_has_topic [OF r]
  have e: "map_option (\<lambda>session. (isActive session, topic session, address session))
        (map_of (userSessions (on_session_connect 5 0 approval
           (snd (connect 0 (handshakeEnv ''wc:a'') (SDK_new exampleOptions) connectReq)))) ''u1'')
       = Some (True, Some ''topic-1'', Some ''0xabc'')"
    by (simp add: first_connect on_session_connect_def findByClient_def afterFirstConnect_def
          pendingSession_def approval_def nth_opt_def emit_def Let_def)
  from r t c e show ?thesis by (intro conjI)
qed

text \<open>
  The claim as stated fails at the approval listener, which writes whatever topic the
  event carries: after an approval event without a topic the session of \<open>u1\<close> is active
  and has no topic.
\<close>

theorem approval_without_topic_counterexample:
  "\<not> active_has_topic (on_session_connect 5 0 (approval \<lparr> a_topic := None \<rparr>)
      (snd (connect 0 (handshakeEnv ''wc:a'') (SDK_new exampleOptions) connectReq)))
   \<and> map_option (\<lambda>session. (isActive session, topic session))
        (map_of (userSessions (on_session_connect 5 0 (approval \<lparr> a_topic := None \<rparr>)
           (snd (connect 0 (handshakeEnv ''wc:a'') (SDK_new exampleOptions) connectReq)))) ''u1'')
       = Some (True, None)"
  by (simp add: first_connect on_session_connect_def findByClient_def afterFirstConnect_def
        pendingSession_def approval_def nth_opt_def emit_def Let_def active_has_topic_def
        all_ok_def session_ok_def truthy_def)

section \<open>Properties of the progress tracker\<close>

text \<open>Powers of two, the binary exponent and rounding to binary64.\<close>

lemma pow2_powi: "pow2 k = 2 powi k"
  by (simp add: pow2_def power_int_def power_inverse inverse_eq_divide power_one_over)

lemma pow2_pos [simp]: "0 < pow2 k"
  by (simp add: pow2_def)

lemma pow2_nonzero [simp]: "pow2 k \<noteq> 0"
  by (simp add: pow2_def)

lemma pow2_add: "pow2 (a + b) = pow2 a * pow2 b"
  by (simp add: pow2_powi power_int_add)

lemma pow2_diff: "pow2 (a - b) = pow2 a / pow2 b"
  by (simp add: pow2_powi power_int_diff)

lemma pow2_mono: "a \<le> b \<Longrightarrow> pow2 a \<le> pow2 b"
  by (simp add: pow2_powi power_int_increasing)

lemma pow2_nat: "0 \<le> k \<Longrightarrow> pow2 k = of_int (2 ^ nat k)"
  by (simp add: pow2_def)

lemma ilog2_le:
  assumes "0 < q"
  shows "pow2 (ilog2 q) \<le> q"
proof -
  obtain a b where ab: "quotient_of q = (a, b)" by (cases "quotient_of q")
  then have b: "0 < b" and q: "q = of_int a / of_int b"
    by (simp_all add: quotient_of_denom_pos quotient_of_div)
  from assms q b have a: "0 < a"
    by (simp add: zero_less_divide_iff)
  define d where "d = bitlen a - bitlen b"
  show ?thesis
  proof (cases "pow2 d \<le> q")
    case True
    then show ?thesis using ab by (simp add: ilog2_def d_def)
  next
    case False
    from a have la: "1 \<le> bitlen a" by (simp add: bitlen_alt_def)
    from b have lb: "1 \<le> bitlen b" by (simp add: bitlen_alt_def)
    from bitlen_bounds [OF a] have "(2::int) ^ nat (bitlen a - 1) \<le> a" ..
    then have "(of_int ((2::int) ^ nat (bitlen a - 1)) :: rat) \<le> of_int a"
      by (simp only: of_int_le_iff)
    moreover have "pow2 (bitlen a - 1) = of_int ((2::int) ^ nat (bitlen a - 1))"
      using la by (intro pow2_nat) simp
    ultimately have 1: "pow2 (bitlen a - 1) \<le> of_int a"
      by (simp only:)
    from bitlen_bounds [OF b] have "b \<le> 2 ^ nat (bitlen b)" by simp
    then have "(of_int b :: rat) \<le> of_int ((2::int) ^ nat (bitlen b))"
      by (simp only: of_int_le_iff)
    moreover have "pow2 (bitlen b) = of_int ((2::int) ^ nat (bitlen b))"
      using lb by (intro pow2_nat) simp
    ultimately have 2: "of_int b \<le> pow2 (bitlen b)"
      by (simp only:)
    have "pow2 (d - 1) = pow2 (bitlen a - 1) / pow2 (bitlen b)"
      by (simp add: d_def pow2_diff [symmetric] algebra_simps)
    also have "\<dots> \<le> of_int a / pow2 (bitlen b)"
      by (rule divide_right_mono [OF 1]) (rule less_imp_le [OF pow2_pos])
    also have "\<dots> \<le> of_int a / of_int b"
      by (rule divide_left_mono [OF 2]) (use a b in simp_all)
    finally have "pow2 (d - 1) \<le> q" using q by simp
    with False show ?thesis using ab by (simp add: ilog2_def d_def)
  qed
qed

lemma round_even_ge_floor: "\<lfloor>x\<rfloor> \<le> round_even x"
  by (simp add: round_even_def Let_def)

lemma round_even_ge: "of_int n \<le> x \<Longrightarrow> n \<le> round_even x"
  using round_even_ge_floor [of x] by (simp add: le_floor_iff [symmetric])

lemma round_even_of_int [simp]: "round_even (of_int n) = n"
  by (simp add: round_even_def)


lemma pow2_inverse: "1 / pow2 k = pow2 (- k)"
  by (simp add: pow2_powi power_int_minus_divide)

lemma binary64_pos_at_least:
  assumes "0 < q" and "of_int n \<le> q" and "0 \<le> n" and "n \<le> 2 ^ 53"
  shows "at_least (of_int n) (binary64_pos q)"
proof -
  define k where "k = max (ilog2 q - 52) (- 1074)"
  define m where "m = round_even (q / pow2 k)"
  have res: "binary64_pos q
      = (if pow2 1024 \<le> of_int m * pow2 k then PosInf else Fin (of_int m * pow2 k))"
    by (simp add: binary64_pos_def Let_def k_def m_def)
  have "of_int n \<le> of_int m * pow2 k"
  proof (cases "k \<le> 0")
    case True
    define N where "N = n * 2 ^ nat (- k)"
    have "pow2 (- k) = of_int (2 ^ nat (- k))"
      using True by (intro pow2_nat) simp
    then have e: "of_int n / pow2 k = of_int N"
      using pow2_inverse [of k] by (simp add: N_def divide_inverse)
    have "of_int n / pow2 k \<le> q / pow2 k"
      by (rule divide_right_mono [OF assms(2)]) (rule less_imp_le [OF pow2_pos])
    then have "of_int N \<le> q / pow2 k" by (simp only: e)
    then have "N \<le> m" unfolding m_def by (rule round_even_ge)
    then have "(of_int N :: rat) \<le> of_int m" by simp
    then have "of_int N * pow2 k \<le> of_int m * pow2 k"
      by (rule mult_right_mono) (rule less_imp_le [OF pow2_pos])
    moreover have "of_int N * pow2 k = of_int n"
    proof -
      have "of_int n / pow2 k * pow2 k = of_int n" by simp
      then show ?thesis by (simp only: e)
    qed
    ultimately show ?thesis by simp
  next
    case False
    then have k: "k = ilog2 q - 52" by (simp add: k_def max_def split: if_splits)
    have "pow2 52 * pow2 k = pow2 (ilog2 q)"
      by (simp add: k pow2_add [symmetric])
    also have "\<dots> \<le> q" by (rule ilog2_le [OF assms(1)])
    finally have "pow2 52 \<le> q / pow2 k"
      by (simp add: pos_le_divide_eq)
    moreover have "pow2 52 = of_int (2 ^ 52)"
      using pow2_nat [of 52] by simp
    ultimately have "of_int (2 ^ 52) \<le> q / pow2 k" by simp
    then have "2 ^ 52 \<le> m" unfolding m_def by (rule round_even_ge)
    then have "(of_int (2 ^ 52) :: rat) \<le> of_int m" by (simp only: of_int_le_iff)
    then have "of_int (2 ^ 52) * pow2 k \<le> of_int m * pow2 k"
      by (rule mult_right_mono) (rule less_imp_le [OF pow2_pos])
    moreover have "pow2 1 \<le> pow2 k" using False by (intro pow2_mono) simp
    then have "(2::rat) \<le> pow2 k" by (simp add: pow2_def)
    then have "(of_int (2 ^ 52) :: rat) * 2 \<le> of_int (2 ^ 52) * pow2 k"
      by (intro mult_left_mono) simp_all
    moreover have "(of_int n :: rat) \<le> of_int (2 ^ 52) * 2"
    proof -
      from assms(4) have "(of_int n :: rat) \<le> of_int (2 ^ 53)" by (simp only: of_int_le_iff)
      then show ?thesis by simp
    qed
    ultimately show ?thesis by linarith
  qed
  then show ?thesis by (simp add: res at_least_def)
qed


lemma binary64_pos_of_int:
  assumes "0 < m" and "m < 2 ^ 53"
  shows "binary64_pos (of_int m) = Fin (of_int m)"
proof -
  define k where "k = max (ilog2 (of_int m) - 52) (- 1074)"
  have q: "(0::rat) < of_int m" using assms(1) by simp
  have "(of_int m :: rat) < of_int (2 ^ 53)" using assms(2) by (simp only: of_int_less_iff)
  moreover have "pow2 53 = of_int (2 ^ 53)" using pow2_nat [of 53] by simp
  ultimately have "pow2 (ilog2 (of_int m)) < pow2 53"
    using ilog2_le [OF q] by simp
  then have "ilog2 (of_int m) < 53"
    using pow2_mono [of 53 "ilog2 (of_int m)"] by (cases "ilog2 (of_int m) < 53") auto
  then have k: "k \<le> 0" by (simp add: k_def)
  define N where "N = m * 2 ^ nat (- k)"
  have "pow2 (- k) = of_int (2 ^ nat (- k))"
    using k by (intro pow2_nat) simp
  then have e: "of_int m / pow2 k = of_int N"
    using pow2_inverse [of k] by (simp add: N_def divide_inverse)
  have "of_int m / pow2 k * pow2 k = (of_int m :: rat)" by simp
  then have r: "of_int N * pow2 k = (of_int m :: rat)" by (simp only: e)
  have "(of_int m :: rat) < of_int (2 ^ 1024)"
    using assms(2) by (simp only: of_int_less_iff) simp
  moreover have "pow2 1024 = of_int (2 ^ 1024)" using pow2_nat [of 1024] by simp
  ultimately have small: "\<not> pow2 1024 \<le> of_int m" by simp
  show ?thesis
    unfolding binary64_pos_def k_def [symmetric] Let_def e round_even_of_int r
    using small by simp
qed

lemma binary64_of_int:
  assumes "\<bar>m\<bar> < 2 ^ 53"
  shows "binary64 (of_int m) = Fin (of_int m)"
proof -
  consider "m = 0" | "0 < m" | "m < 0" by linarith
  then show ?thesis
  proof cases
    case 1
    then show ?thesis by (simp add: binary64_def)
  next
    case 2
    with assms binary64_pos_of_int [of m] show ?thesis by (simp add: binary64_def)
  next
    case 3
    with assms binary64_pos_of_int [of "- m"] show ?thesis
      by (simp add: binary64_def js_neg_def)
  qed
qed

lemma binary64_at_least:
  assumes "of_int n \<le> q" and "0 \<le> n" and "n \<le> 2 ^ 53"
  shows "at_least (of_int n) (binary64 q)"
proof (cases "q = 0")
  case True
  with assms have "n = 0" by simp
  with True show ?thesis by (simp add: binary64_def at_least_def)
next
  case False
  have "(0::rat) \<le> of_int n" using assms(2) by simp
  with assms(1) have "0 \<le> q" by linarith
  with False have "0 < q" by simp
  with assms binary64_pos_at_least [of q n] show ?thesis by (simp add: binary64_def)
qed

lemma at_least_times_100:
  assumes "at_least (of_int n) x" and "0 \<le> n" and "n \<le> 2 ^ 40"
  shows "at_least (of_int (n * 100)) (js_mul x (Fin 100))"
proof (cases x)
  case (Fin r)
  with assms(1) have "of_int n \<le> r" by (simp add: at_least_def)
  then have "of_int (n * 100) \<le> r * 100" by simp
  moreover have "0 \<le> n * 100" "n * 100 \<le> 2 ^ 53" using assms(2,3) by simp_all
  ultimately show ?thesis using Fin binary64_at_least [of "n * 100" "r * 100"] by simp
qed (use assms in \<open>simp_all add: at_least_def sign_inf_def\<close>)

lemma min_100:
  assumes "at_least 0 x"
  shows "\<exists>y. Math_min x (Fin 100) = Fin y \<and> 0 \<le> y \<and> y \<le> 100"
  using assms by (cases x) (auto simp: at_least_def Math_min_def)

lemma min_100_full:
  assumes "at_least 100 x"
  shows "Math_min x (Fin 100) = Fin 100"
  using assms by (cases x) (auto simp: at_least_def Math_min_def)

lemma round_0_100:
  assumes "0 \<le> y" and "y \<le> 100"
  shows "\<exists>p. Math_round (Fin y) = Fin (of_int p) \<and> 0 \<le> p \<and> p \<le> 100"
proof -
  have "0 \<le> \<lfloor>y + 1 / 2\<rfloor>" using assms(1) by simp
  moreover have "\<lfloor>y + 1 / 2\<rfloor> \<le> 100" using assms(2) by (simp add: floor_le_iff)
  ultimately show ?thesis by (simp add: Math_round_def)
qed


lemma round_0: "Math_round (Fin 0) = Fin 0"
proof -
  have "\<lfloor>(0::rat) + 1 / 2\<rfloor> = 0" by (rule floor_unique) simp_all
  then show ?thesis by (simp add: Math_round_def)
qed

lemma round_100: "Math_round (Fin 100) = Fin 100"
proof -
  have "\<lfloor>(100::rat) + 1 / 2\<rfloor> = 100" by (rule floor_unique) simp_all
  then show ?thesis by (simp add: Math_round_def)
qed

lemma js_sub_int:
  assumes "\<bar>a - b\<bar> < 2 ^ 53"
  shows "js_sub (Fin (of_int a)) (Fin (of_int b)) = Fin (of_int (a - b))"
  using binary64_of_int [OF assms] by (simp add: js_sub_def js_neg_def)

lemma js_add_int:
  assumes "\<bar>a + b\<bar> < 2 ^ 53"
  shows "js_add (Fin (of_int a)) (Fin (of_int b)) = Fin (of_int (a + b))"
  using binary64_of_int [OF assms] by simp

text \<open>
  Where the rounding shows: 29 ms into a 200 ms timeout the exact progress is 14.5, which
  would round to 15; in doubles \<open>29 / 200 * 100\<close> is \<open>14.499999999999998\<close> and the
  tracker reports 14.
\<close>

lemma double_29_200: "js_div (Fin 29) (Fin 200) = Fin (5224175567749775 / 36028797018963968)"
  by code_simp

lemma double_times_100:
  "js_mul (Fin (5224175567749775 / 36028797018963968)) (Fin 100)
     = Fin (8162774324609023 / 562949953421312)"
  by code_simp

lemma double_round_14:
  "Math_round (Math_min (Fin (8162774324609023 / 562949953421312)) (Fin 100)) = Fin 14"
  by code_simp

lemma progress_in_doubles:
  "getProgress (createProgressTracker 0 ''connection'' (Fin 200)) 29 = Fin 14"
proof -
  have "js_sub (Fin (of_int 29)) (Fin (of_int 0)) = Fin (of_int (29 - 0))"
    by (rule js_sub_int) simp
  then have "js_sub (Fin 29) (Fin 0) = Fin 29" by simp
  then show ?thesis
    by (simp add: getProgress_def createProgressTracker_def double_29_200 double_times_100
          double_round_14 del: js_div.simps js_mul.simps)
qed

text \<open>
  C9 (as amended). For every key and every positive duration, with the clock and the
  deadline below \<open>2 ^ 53\<close> ms and the clock not behind the creation time, the tracker
  returned by \<open>createProgressTracker(key, duration)\<close> satisfies: \<open>getProgress()\<close> is
  \<open>Math.round(Math.min(elapsed / duration * 100, 100))\<close> computed in double arithmetic,
  an integer between 0 and 100, equal to 0 at the creation time and to 100 once the
  duration has elapsed; \<open>getRemaining()\<close> is \<open>max(deadline - now, 0)\<close>; and \<open>isExpired()\<close>
  is true exactly when \<open>now >= deadline\<close>.
\<close>

theorem progress_tracker:
  assumes "0 < d" and "0 \<le> start" and "start \<le> now" and "now < 2 ^ 53" and "start + d < 2 ^ 53"
  shows "(\<exists>p. getProgress (createProgressTracker start key (Fin (of_int d))) now = Fin (of_int p)
              \<and> 0 \<le> p \<and> p \<le> 100)
       \<and> (now = start \<longrightarrow>
            getProgress (createProgressTracker start key (Fin (of_int d))) now = Fin 0)
       \<and> (start + d \<le> now \<longrightarrow>
            getProgress (createProgressTracker start key (Fin (of_int d))) now = Fin 100)
       \<and> getProgress (createProgressTracker start key (Fin (of_int d))) now
           = Math_round (Math_min
               (js_mul (binary64 (of_int (now - start) / of_int d)) (Fin 100)) (Fin 100))
       \<and> getRemaining (createProgressTracker start key (Fin (of_int d))) now
           = Fin (of_int (max (start + d - now) 0))
       \<and> isExpired (createProgressTracker start key (Fin (of_int d))) now = (start + d \<le> now)"
proof -
  define ratio where "ratio = binary64 (of_int (now - start) / of_int d)"
  define scaled where "scaled = js_mul ratio (Fin 100)"
  have el: "js_sub (Fin (of_int now)) (Fin (of_int start)) = Fin (of_int (now - start))"
    using assms by (intro js_sub_int) simp
  have dv: "js_div (Fin (of_int (now - start))) (Fin (of_int d)) = ratio"
    using assms(1) by (simp add: ratio_def)
  have formula: "getProgress (createProgressTracker start key (Fin (of_int d))) now
      = Math_round (Math_min scaled (Fin 100))"
    by (simp only: getProgress_def createProgressTracker_def Let_def
          ProgressTracker.select_convs el dv scaled_def)
  have nonneg: "(of_int 0 :: rat) \<le> of_int (now - start) / of_int d"
    using assms by simp
  have r0: "at_least (of_int 0) ratio"
    unfolding ratio_def by (rule binary64_at_least [OF nonneg]) simp_all
  have s0: "at_least (of_int (0 * 100)) scaled"
    unfolding scaled_def by (rule at_least_times_100 [OF r0]) simp_all
  then have "at_least 0 scaled" by simp
  from min_100 [OF this] obtain y where y: "Math_min scaled (Fin 100) = Fin y" "0 \<le> y" "y \<le> 100"
    by blast
  from round_0_100 [OF y(2,3)] obtain p where p: "Math_round (Fin y) = Fin (of_int p)" "0 \<le> p" "p \<le> 100"
    by blast
  have range: "\<exists>p. getProgress (createProgressTracker start key (Fin (of_int d))) now = Fin (of_int p)
              \<and> 0 \<le> p \<and> p \<le> 100"
    using formula y(1) p by auto
  have zero: "now = start \<longrightarrow>
      getProgress (createProgressTracker start key (Fin (of_int d))) now = Fin 0"
  proof
    assume "now = start"
    then have "ratio = Fin 0" by (simp add: ratio_def binary64_def)
    then have "scaled = Fin 0" by (simp add: scaled_def binary64_def)
    then show "getProgress (createProgressTracker start key (Fin (of_int d))) now = Fin 0"
      by (simp add: formula Math_min_def round_0)
  qed
  have full: "start + d \<le> now \<longrightarrow>
      getProgress (createProgressTracker start key (Fin (of_int d))) now = Fin 100"
  proof
    assume "start + d \<le> now"
    then have "(of_int 1 :: rat) \<le> of_int (now - start) / of_int d"
      using assms(1) by (simp add: pos_le_divide_eq)
    then have "at_least (of_int 1) ratio"
      unfolding ratio_def by (rule binary64_at_least) simp_all
    then have "at_least (of_int (1 * 100)) scaled"
      unfolding scaled_def by (rule at_least_times_100) simp_all
    then have "at_least 100 scaled" by simp
    then have "Math_min scaled (Fin 100) = Fin 100" by (rule min_100_full)
    then show "getProgress (createProgressTracker start key (Fin (of_int d))) now = Fin 100"
      by (simp add: formula round_100)
  qed
  have en: "js_add (Fin (of_int start)) (Fin (of_int d)) = Fin (of_int (start + d))"
    using assms by (intro js_add_int) simp
  have rem: "js_sub (Fin (of_int (start + d))) (Fin (of_int now)) = Fin (of_int (start + d - now))"
    using assms by (intro js_sub_int) simp
  have remaining: "getRemaining (createProgressTracker start key (Fin (of_int d))) now
      = Fin (of_int (max (start + d - now) 0))"
    by (simp only: getRemaining_def createProgressTracker_def Let_def
          ProgressTracker.select_convs en rem)
       (simp add: Math_max_def max_def)
  have expired: "isExpired (createProgressTracker start key (Fin (of_int d))) now = (start + d \<le> now)"
    by (simp only: isExpired_def createProgressTracker_def ProgressTracker.select_convs en
          js_ge.simps of_int_le_iff)
  from range zero full formula remaining expired show ?thesis
    unfolding scaled_def ratio_def by (intro conjI)
qed

theorem progress_tracker_witness:
  "(0::int) < 30000 \<and> (0::int) \<le> 1700000000000 \<and> (1700000030000::int) < 2 ^ 53
   \<and> getProgress (createProgressTracker 1700000000000 ''connection'' (Fin 30000)) 1700000000000 = Fin 0
   \<and> getRemaining (createProgressTracker 1700000000000 ''connection'' (Fin 30000)) 1700000000000 = Fin 30000
   \<and> isExpired (createProgressTracker 1700000000000 ''connection'' (Fin 30000)) 1700000000000 = False
   \<and> getProgress (createProgressTracker 1700000000000 ''connection'' (Fin 30000)) 1700000030000 = Fin 100
   \<and> getRemaining (createProgressTracker 1700000000000 ''connection'' (Fin 30000)) 1700000030000 = Fin 0
   \<and> isExpired (createProgressTracker 1700000000000 ''connection'' (Fin 30000)) 1700000030000 = True"
proof -
  have h: "(0::int) < 30000" "(0::int) \<le> 1700000000000" "(1700000000000::int) \<le> 1700000000000"
    "(1700000000000::int) < 2 ^ 53" "(1700000000000::int) + 30000 < 2 ^ 53"
    "(1700000000000::int) \<le> 1700000030000" "(1700000030000::int) < 2 ^ 53"
    by simp_all
  note a = progress_tracker [OF h(1) h(2) h(3) h(4) h(5), of "''connection''"]
  note b = progress_tracker [OF h(1) h(2) h(6) h(7) h(5), of "''connection''"]
  from a have a1: "getProgress (createProgressTracker 1700000000000 ''connection'' (Fin 30000)) 1700000000000 = Fin 0"
    by simp
  from a have a2: "getRemaining (createProgressTracker 1700000000000 ''connection'' (Fin 30000)) 1700000000000 = Fin 30000"
    by simp
  from a have a3: "isExpired (createProgressTracker 1700000000000 ''connection'' (Fin 30000)) 1700000000000 = False"
    by simp
  from b have b1: "getProgress (createProgressTracker 1700000000000 ''connection'' (Fin 30000)) 1700000030000 = Fin 100"
    by simp
  from b have b2: "getRemaining (createProgressTracker 1700000000000 ''connection'' (Fin 30000)) 1700000030000 = Fin 0"
    by simp
  from b have b3: "isExpired (createProgressTracker 1700000000000 ''connection'' (Fin 30000)) 1700000030000 = True"
    by simp
  from h(1,2,7) a1 a2 a3 b1 b2 b3 show ?thesis by (intro conjI)
qed

text \<open>
  The claim as stated fails for the duration 0: at the creation time the tracker is
  expired and its progress is \<open>0 / 0 * 100\<close>, which is not a number.
\<close>

theorem progress_zero_duration_counterexample:
  "getProgress (createProgressTracker 1000 ''connection'' (Fin 0)) 1000 = NaN
   \<and> isExpired (createProgressTracker 1000 ''connection'' (Fin 0)) 1000"
proof -
  have s: "js_sub (Fin (of_int 1000)) (Fin (of_int 1000)) = Fin (of_int (1000 - 1000))"
    by (rule js_sub_int) simp
  have a: "js_add (Fin (of_int 1000)) (Fin (of_int 0)) = Fin (of_int (1000 + 0))"
    by (rule js_add_int) simp
  have "getProgress (createProgressTracker 1000 ''connection'' (Fin 0)) 1000 = NaN"
    using s by (simp add: getProgress_def createProgressTracker_def Math_min_def Math_round_def)
  moreover have "isExpired (createProgressTracker 1000 ''connection'' (Fin 0)) 1000"
    using a by (simp add: isExpired_def createProgressTracker_def)
  ultimately show ?thesis by (intro conjI)
qed

end
